theory Spec2Isabelle
  imports Main
begin

section \<open>The availability sync of src/server/lib/availabilitySync.ts\<close>

text \<open>
  The class \<^verbatim>\<open>AvailabilitySync\<close> walks over the catalog items that are recorded as
  available, asks Plex, Radarr and Sonarr whether each item (and each season of a show)
  still exists, and downgrades the recorded status of what is gone. The theory embeds the
  body of the \<^verbatim>\<open>for await\<close> loop of \<^verbatim>\<open>run\<close>, that is, the pass over one catalog
  item, and every method that body calls. The calls are taken in program order, each one
  finished before the next starts. \<^verbatim>\<open>run\<close> does not await \<^verbatim>\<open>mediaUpdater\<close>, which is its
  last call for an item and is the only code that still touches that item and its requests
  once the loop has moved on: the pass over the item ends when that call has finished.
\<close>

subsection \<open>Data model\<close>

text \<open>
  Modelled from the spec: the enumerations of \<^verbatim>\<open>@server/constants/media\<close> are imported by
  the source and not part of it. The spec (section 3) lists the five statuses of an item or
  season, and for a request the statuses PENDING, APPROVED and others that the sync never
  looks at; \<open>DECLINED\<close> stands for those.
\<close>

datatype MediaStatus = UNKNOWN | PENDING | PROCESSING | PARTIALLY_AVAILABLE | AVAILABLE

datatype MediaRequestStatus = REQUEST_PENDING | APPROVED | DECLINED

datatype MediaType = MOVIE | TV

text \<open>
  \<^verbatim>\<open>Media\<close> and \<^verbatim>\<open>Season\<close> both carry the fields \<^verbatim>\<open>status\<close> and \<^verbatim>\<open>status4k\<close>;
  \<^verbatim>\<open>MediaRequest\<close> and the Radarr and Sonarr settings both carry \<^verbatim>\<open>is4k\<close>. A shared
  parent record keeps the source's field names for both. A nullable column is an option.
  The field \<^verbatim>\<open>id\<close> of the source is \<open>mediaId\<close>, \<open>requestId\<close> and \<open>seasonRequestId\<close>.
\<close>

record Tiers =
  status :: MediaStatus
  status4k :: MediaStatus

record Season = Tiers +
  seasonNumber :: int

record Media = Tiers +
  mediaId :: nat
  mediaType :: MediaType
  tmdbId :: int
  serviceId :: "int option"
  serviceId4k :: "int option"
  externalServiceId :: "int option"
  externalServiceId4k :: "int option"
  externalServiceSlug :: "string option"
  externalServiceSlug4k :: "string option"
  ratingKey :: "string option"
  ratingKey4k :: "string option"
  seasons :: "Season list"

record Flag4k =
  is4k :: bool

text \<open>A request row, with the id of the media row it is joined to (\<^verbatim>\<open>request.media\<close>).\<close>

record MediaRequest = Flag4k +
  requestId :: nat
  requestMedia :: nat
  requestStatus :: MediaRequestStatus

text \<open>A season request row, loaded with its owning request (\<^verbatim>\<open>seasonRequest.request\<close>).\<close>

record SeasonRequest =
  seasonRequestId :: nat
  request :: MediaRequest
  requestSeasonNumber :: int

text \<open>
  The test \<^verbatim>\<open>status === AVAILABLE || status === PARTIALLY_AVAILABLE\<close>, which the source
  writes out at each use.
\<close>

definition isAvailable :: "MediaStatus \<Rightarrow> bool" where
  "isAvailable s = (s = AVAILABLE \<or> s = PARTIALLY_AVAILABLE)"

subsection \<open>The item store\<close>

text \<open>
  Modelled from the spec: the repositories of \<^verbatim>\<open>@server/datasource\<close> are not part of the
  source. Section 6 of the spec lists what the engine consumes from the item store:
  saving an item, updating the status of an item by id, finding and deleting requests,
  finding and deleting season requests. The store holds one row per media id, the request
  rows and the season request rows. Saving an item writes the object that is passed, the
  update by id changes one column of the stored row and leaves the object in memory as it
  is, and a delete removes the rows with the ids of the entities passed. What the store
  does on its own after a delete (cascades) is not modelled.
\<close>

record Store =
  mediaTable :: "nat \<Rightarrow> Media option"
  requestTable :: "MediaRequest list"
  seasonRequestTable :: "SeasonRequest list"

definition saveMedia :: "Media \<Rightarrow> Store \<Rightarrow> Store" where
  "saveMedia media st = st\<lparr>mediaTable := (mediaTable st)(mediaId media \<mapsto> media)\<rparr>"

definition updateStatus :: "nat \<Rightarrow> MediaStatus \<Rightarrow> Store \<Rightarrow> Store" where
  "updateStatus i s st =
     (case mediaTable st i of
        None \<Rightarrow> st
      | Some row \<Rightarrow> st\<lparr>mediaTable := (mediaTable st)(i \<mapsto> row\<lparr>status := s\<rparr>)\<rparr>)"

definition updateStatus4k :: "nat \<Rightarrow> MediaStatus \<Rightarrow> Store \<Rightarrow> Store" where
  "updateStatus4k i s st =
     (case mediaTable st i of
        None \<Rightarrow> st
      | Some row \<Rightarrow> st\<lparr>mediaTable := (mediaTable st)(i \<mapsto> row\<lparr>status4k := s\<rparr>)\<rparr>)"

definition removeRequests :: "MediaRequest list \<Rightarrow> Store \<Rightarrow> Store" where
  "removeRequests rs st =
     st\<lparr>requestTable := filter (\<lambda>r. requestId r \<notin> set (map requestId rs)) (requestTable st)\<rparr>"

definition removeSeasonRequests :: "SeasonRequest list \<Rightarrow> Store \<Rightarrow> Store" where
  "removeSeasonRequests rs st =
     st\<lparr>seasonRequestTable :=
          filter (\<lambda>r. seasonRequestId r \<notin> set (map seasonRequestId rs)) (seasonRequestTable st)\<rparr>"

text \<open>
  The query of \<^verbatim>\<open>mediaUpdater\<close> (lines 284 to 299): the requests joined to the media row
  with the given id, where the request is non-4K and the stored \<^verbatim>\<open>media.status\<close> is
  AVAILABLE or PARTIALLY_AVAILABLE, or the request is 4K and the stored \<^verbatim>\<open>media.status4k\<close>
  is. The statuses are those of the row in the store, not of the object in memory.
\<close>

definition findRequests :: "Store \<Rightarrow> nat \<Rightarrow> MediaRequest list" where
  "findRequests st i =
     (case mediaTable st i of
        None \<Rightarrow> []
      | Some row \<Rightarrow>
          filter (\<lambda>r. requestMedia r = i \<and>
                      ((\<not> is4k r \<and> isAvailable (status row)) \<or>
                       (is4k r \<and> isAvailable (status4k row))))
            (requestTable st))"

text \<open>
  The query of \<^verbatim>\<open>seasonUpdater\<close> (lines 405 to 421): the season requests of the given
  season number whose owning request belongs to the given media id.
\<close>

definition findSeasonRequests :: "Store \<Rightarrow> nat \<Rightarrow> int \<Rightarrow> SeasonRequest list" where
  "findSeasonRequests st i n =
     filter (\<lambda>r. requestMedia (request r) = i \<and> requestSeasonNumber r = n)
       (seasonRequestTable st)"

text \<open>
  A repository call is awaited inside a \<^verbatim>\<open>try\<close> block whose \<^verbatim>\<open>catch\<close> logs and returns.
  Whether a call throws is decided outside the engine: \<open>storeThrows\<close> of the world below
  says so for each call. \<open>storeStep\<close> is one awaited write of a \<^verbatim>\<open>try\<close> block: it runs
  when no earlier call of the block has thrown, and when it throws the store stays as the
  earlier calls left it and the rest of the block is skipped (the flag turns False).
\<close>

datatype StoreCall =
    FindRequests nat
  | FindSeasonRequests nat int
  | SaveMedia Media
  | UpdateStatus nat MediaStatus
  | UpdateStatus4k nat MediaStatus
  | RemoveRequests "MediaRequest list"
  | RemoveSeasonRequests "SeasonRequest list"

subsection \<open>The remote services\<close>

text \<open>
  The clients of \<^verbatim>\<open>@server/api\<close> are not part of the source; each remote call is a
  parameter. A call returns \<open>Inr\<close> of its answer, or \<open>Inl\<close> of the message of the error
  it throws. Only what the sync reads of an answer is kept: \<^verbatim>\<open>index\<close> of a Plex child,
  \<^verbatim>\<open>hasFile\<close> of a Radarr movie, \<^verbatim>\<open>statistics.episodeFileCount\<close> and \<^verbatim>\<open>seasons\<close> of a Sonarr
  series, and of a Sonarr season its number and the file count of its optional
  \<^verbatim>\<open>statistics\<close>. The answers have the shape their declared types give them.
\<close>

record PlexMetadata =
  plexIndex :: int

record PlexAPI =
  getMetadata :: "string \<Rightarrow> string + PlexMetadata"
  getChildrenMetadata :: "string \<Rightarrow> string + PlexMetadata list"

record RadarrMovie =
  hasFile :: bool

record SonarrSeason =
  sonarrSeasonNumber :: int
  seasonEpisodeFileCount :: "int option"

record SonarrSeries =
  episodeFileCount :: int
  sonarrSeasons :: "SonarrSeason list"

record DVRSettings = Flag4k +
  serverId :: nat
  syncEnabled :: bool

record World =
  getMovie :: "DVRSettings \<Rightarrow> int \<Rightarrow> string + RadarrMovie"
  getSeriesById :: "DVRSettings \<Rightarrow> int \<Rightarrow> string + SonarrSeries"
  storeThrows :: "StoreCall \<Rightarrow> bool"

definition storeStep :: "World \<Rightarrow> StoreCall \<Rightarrow> (Store \<Rightarrow> Store) \<Rightarrow> Store \<times> bool \<Rightarrow> Store \<times> bool" where
  "storeStep w c f r =
     (if \<not> snd r then r
      else if storeThrows w c then (fst r, False)
      else (f (fst r), True))"

subsection \<open>The transition engine\<close>

text \<open>\<^verbatim>\<open>findMediaStatus\<close>, lines 244 to 271.\<close>

definition findMediaStatus :: "MediaRequest list \<Rightarrow> bool \<Rightarrow> MediaStatus" where
  "findMediaStatus requests is4kArg =
     (let filteredRequests = filter (\<lambda>request. is4k request = is4kArg) requests
      in if list_ex (\<lambda>request. requestStatus request = APPROVED) filteredRequests
         then PROCESSING
         else if list_ex (\<lambda>request. requestStatus request = REQUEST_PENDING) filteredRequests
         then PENDING
         else UNKNOWN)"

text \<open>
  \<^verbatim>\<open>mediaUpdater\<close>, lines 273 to 393. The object \<^verbatim>\<open>media\<close> is mutated in place: the
  function returns it beside the store. The second block (4K) reads \<^verbatim>\<open>mediaStatus\<close>, the
  status computed for the non-4K tier, when it decides whether to keep the 4K references:
  that is what lines 353 to 363 say.
\<close>

definition mediaUpdater :: "World \<Rightarrow> Store \<Rightarrow> Media \<Rightarrow> bool \<Rightarrow> bool \<Rightarrow> Store \<times> Media" where
  "mediaUpdater w st media mediaExists mediaExists4k =
     (if storeThrows w (FindRequests (mediaId media)) then (st, media)
      else
        let requests = findRequests st (mediaId media);
            mediaStatus =
              (if mediaType media = TV \<and> \<not> mediaExists
               then findMediaStatus requests False else UNKNOWN);
            mediaStatus4k =
              (if mediaType media = TV \<and> \<not> mediaExists4k
               then findMediaStatus requests True else UNKNOWN);
            media1 =
              (if isAvailable (status media) \<and> \<not> mediaExists
               then media\<lparr>status := mediaStatus,
                  serviceId := (if mediaStatus = PROCESSING then serviceId media else None),
                  externalServiceId :=
                    (if mediaStatus = PROCESSING then externalServiceId media else None),
                  externalServiceSlug :=
                    (if mediaStatus = PROCESSING then externalServiceSlug media else None),
                  ratingKey := (if mediaStatus = PROCESSING then ratingKey media else None)\<rparr>
               else media);
            media2 =
              (if isAvailable (status4k media1) \<and> \<not> mediaExists4k
               then media1\<lparr>status4k := mediaStatus4k,
                  serviceId4k := (if mediaStatus = PROCESSING then serviceId4k media1 else None),
                  externalServiceId4k :=
                    (if mediaStatus = PROCESSING then externalServiceId4k media1 else None),
                  externalServiceSlug4k :=
                    (if mediaStatus = PROCESSING then externalServiceSlug4k media1 else None),
                  ratingKey4k := (if mediaStatus = PROCESSING then ratingKey4k media1 else None)\<rparr>
               else media1);
            r1 = storeStep w (SaveMedia media2) (saveMedia media2) (st, True);
            r2 = (if requests \<noteq> [] \<and> mediaType media2 = MOVIE
                  then storeStep w (RemoveRequests requests) (removeRequests requests) r1
                  else r1)
        in (fst r2, media2))"

text \<open>
  The status changes of \<^verbatim>\<open>seasonUpdater\<close>, lines 435 to 480: the three blocks that set
  \<^verbatim>\<open>season.status\<close> and \<^verbatim>\<open>season.status4k\<close> to UNKNOWN and raise \<^verbatim>\<open>deletedSeason\<close>.
  The result is the season object after the blocks and the flag.
\<close>

definition seasonStatusChanges :: "Season \<Rightarrow> bool \<Rightarrow> bool \<Rightarrow> Season \<times> bool" where
  "seasonStatusChanges season seasonExists seasonExists4k =
     (let change1 = (isAvailable (status season) \<and> \<not> seasonExists);
          season1 = (if change1 then season\<lparr>status := UNKNOWN\<rparr> else season);
          change2 = (isAvailable (status4k season1) \<and> \<not> seasonExists4k);
          season2 = (if change2 then season1\<lparr>status4k := UNKNOWN\<rparr> else season1);
          change3 = (\<not> seasonExists \<and> \<not> seasonExists4k \<and> isAvailable (status season2));
          season3 = (if change3 then season2\<lparr>status := UNKNOWN\<rparr> else season2);
          change4 = (\<not> seasonExists \<and> \<not> seasonExists4k \<and> isAvailable (status4k season3));
          season4 = (if change4 then season3\<lparr>status4k := UNKNOWN\<rparr> else season3)
      in (season4, change1 \<or> change2 \<or> change3 \<or> change4))"

text \<open>
  \<^verbatim>\<open>seasonUpdater\<close>, lines 395 to 519. The argument \<^verbatim>\<open>season\<close> is one of the objects
  of \<^verbatim>\<open>media.seasons\<close>, given here by its position \<open>i\<close> in that array. The source
  mutates the object, so the array shows the new statuses at position \<open>i\<close>, and line 483
  appends the same object to a fresh array that becomes \<^verbatim>\<open>media.seasons\<close>. The filter
  of lines 423 to 433 runs before any status is changed and reads the statuses the season
  came with.
\<close>

definition seasonUpdater :: "World \<Rightarrow> Store \<Rightarrow> Media \<Rightarrow> nat \<Rightarrow> bool \<Rightarrow> bool \<Rightarrow> Store \<times> Media" where
  "seasonUpdater w st media i seasonExists seasonExists4k =
     (let season = seasons media ! i in
      if storeThrows w (FindSeasonRequests (mediaId media) (seasonNumber season)) then (st, media)
      else
        let seasonRequests = findSeasonRequests st (mediaId media) (seasonNumber season);
            filteredSeasonRequests =
              filter (\<lambda>seasonRequest.
                  (\<not> is4k (request seasonRequest) \<and> \<not> seasonExists \<and>
                     isAvailable (status season)) \<or>
                  (is4k (request seasonRequest) \<and> \<not> seasonExists4k \<and>
                     isAvailable (status4k season)))
                seasonRequests;
            season4 = fst (seasonStatusChanges season seasonExists seasonExists4k);
            deletedSeason = snd (seasonStatusChanges season seasonExists seasonExists4k)
        in if deletedSeason
           then
             let media1 = media\<lparr>seasons := (seasons media)[i := season4] @ [season4]\<rparr>;
                 r1 = storeStep w (SaveMedia media1) (saveMedia media1) (st, True);
                 r2 = (if status media1 = AVAILABLE \<and> \<not> seasonExists
                       then storeStep w (UpdateStatus (mediaId media1) PARTIALLY_AVAILABLE)
                              (updateStatus (mediaId media1) PARTIALLY_AVAILABLE) r1
                       else r1);
                 r3 = (if status4k media1 = AVAILABLE \<and> \<not> seasonExists4k
                       then storeStep w (UpdateStatus4k (mediaId media1) PARTIALLY_AVAILABLE)
                              (updateStatus4k (mediaId media1) PARTIALLY_AVAILABLE) r2
                       else r2);
                 r4 = (if filteredSeasonRequests \<noteq> []
                       then storeStep w (RemoveSeasonRequests filteredSeasonRequests)
                              (removeSeasonRequests filteredSeasonRequests) r3
                       else r3)
             in (fst r4, media1)
           else (st, media))"

subsection \<open>The existence aggregator\<close>

text \<open>
  The fields of the class. \<^verbatim>\<open>plexClient\<close> is undefined when no admin is configured, and
  every call through \<^verbatim>\<open>this.plexClient?.\<close> then yields undefined. The keys of the Sonarr
  cache are the strings \<^verbatim>\<open>0-<id>\<close> and \<^verbatim>\<open>1-<id4k>\<close>, here the pair of the 4K flag and
  the id. \<open>issued\<close> is not a field of the class: it lists the remote calls made so far,
  in order.
\<close>

datatype Probe =
    PlexGetMetadata string
  | PlexGetChildrenMetadata string
  | RadarrGetMovie DVRSettings int
  | SonarrGetSeriesById DVRSettings int

record AvailabilitySync =
  running :: bool
  plexClient :: "PlexAPI option"
  plexSeasonsCache :: "string \<Rightarrow> PlexMetadata list option"
  sonarrSeasonsCache :: "bool \<times> int \<Rightarrow> SonarrSeason list option"
  radarrServers :: "DVRSettings list"
  sonarrServers :: "DVRSettings list"
  issued :: "Probe list"

text \<open>\<^verbatim>\<open>ex.message.includes('404')\<close>: the message has the substring 404.\<close>

fun startsWith :: "string \<Rightarrow> string \<Rightarrow> bool" where
  "startsWith s [] = True"
| "startsWith [] (c # t) = False"
| "startsWith (a # s) (c # t) = (a = c \<and> startsWith s t)"

fun includesText :: "string \<Rightarrow> string \<Rightarrow> bool" where
  "includesText [] t = (t = [])"
| "includesText (a # s) t = (startsWith (a # s) t \<or> includesText s t)"

definition notFound :: "string \<Rightarrow> bool" where
  "notFound message = includesText message ''404''"

text \<open>
  One \<^verbatim>\<open>try\<close> block of \<^verbatim>\<open>mediaExistsInPlex\<close>: lines 745 to 772 with \<^verbatim>\<open>ratingKey\<close>, and
  lines 774 to 801, the same text with \<^verbatim>\<open>ratingKey4k\<close>. A rating key that is null or
  the empty string is falsy and nothing is asked. The result is the new state of the
  engine, \<^verbatim>\<open>existsInPlex\<close> and \<^verbatim>\<open>preventSeasonSearch\<close> of that tier.
\<close>

definition plexCheck :: "AvailabilitySync \<Rightarrow> MediaType \<Rightarrow> string option \<Rightarrow> AvailabilitySync \<times> bool \<times> bool" where
  "plexCheck this mt key =
     (case key of
        None \<Rightarrow> (this, False, False)
      | Some k \<Rightarrow>
          if k = [] then (this, False, False)
          else
            (case plexClient this of
               None \<Rightarrow>
                 ((if mt = TV then this\<lparr>plexSeasonsCache := (plexSeasonsCache this)(k := None)\<rparr>
                   else this), False, False)
             | Some client \<Rightarrow>
                 (case getMetadata client k of
                    Inl message \<Rightarrow>
                      (this\<lparr>issued := issued this @ [PlexGetMetadata k]\<rparr>,
                       \<not> notFound message, \<not> notFound message)
                  | Inr plexMedia \<Rightarrow>
                      if mt = TV
                      then
                        (case getChildrenMetadata client k of
                           Inl message \<Rightarrow>
                             (this\<lparr>issued := issued this @
                                     [PlexGetMetadata k, PlexGetChildrenMetadata k]\<rparr>,
                              \<not> notFound message, \<not> notFound message)
                         | Inr children \<Rightarrow>
                             (this\<lparr>plexSeasonsCache := (plexSeasonsCache this)(k \<mapsto> children),
                                   issued := issued this @
                                     [PlexGetMetadata k, PlexGetChildrenMetadata k]\<rparr>,
                              True, False))
                      else
                        (this\<lparr>issued := issued this @ [PlexGetMetadata k]\<rparr>, True, False))))"

text \<open>\<^verbatim>\<open>children?.find((child) => child.index === season.seasonNumber)\<close> finds a child.\<close>

definition plexSeasonFound :: "AvailabilitySync \<Rightarrow> string \<Rightarrow> int \<Rightarrow> bool" where
  "plexSeasonFound this k n =
     (case plexSeasonsCache this k of
        None \<Rightarrow> False
      | Some children \<Rightarrow> list_ex (\<lambda>child. plexIndex child = n) children)"

text \<open>\<^verbatim>\<open>seasonExistsInPlex\<close>, lines 832 to 873.\<close>

definition seasonExistsInPlex ::
    "AvailabilitySync \<Rightarrow> Media \<Rightarrow> Season \<Rightarrow> bool \<Rightarrow> bool \<Rightarrow> bool \<times> bool" where
  "seasonExistsInPlex this media season preventSeasonSearch preventSeasonSearch4k =
     ((case ratingKey media of
         None \<Rightarrow> False
       | Some k \<Rightarrow> k \<noteq> [] \<and> isAvailable (status season) \<and>
           (plexSeasonFound this k (seasonNumber season) \<or> preventSeasonSearch)),
      (case ratingKey4k media of
         None \<Rightarrow> False
       | Some k \<Rightarrow> k \<noteq> [] \<and> isAvailable (status4k season) \<and>
           (plexSeasonFound this k (seasonNumber season) \<or> preventSeasonSearch4k)))"

text \<open>
  The loop of lines 816 to 826 and of lines 658 to 668: for each season of the item, the
  entry of its season number in both maps is set to what the season check returns. A
  \<^verbatim>\<open>Record<number, boolean>\<close> is a partial map; reading a missing key gives undefined.
\<close>

fun seasonMaps ::
    "(Season \<Rightarrow> bool \<times> bool) \<Rightarrow> Season list \<Rightarrow>
     (int \<Rightarrow> bool option) \<times> (int \<Rightarrow> bool option) \<Rightarrow>
     (int \<Rightarrow> bool option) \<times> (int \<Rightarrow> bool option)" where
  "seasonMaps check [] maps = maps"
| "seasonMaps check (season # rest) maps =
     seasonMaps check rest
       ((fst maps)(seasonNumber season \<mapsto> fst (check season)),
        (snd maps)(seasonNumber season \<mapsto> snd (check season)))"

text \<open>
  \<^verbatim>\<open>mediaExistsInPlex\<close>, lines 733 to 830. For a movie the two maps are not returned
  (\<open>None\<close>); for a show they are, and they are empty when both tiers set their
  \<^verbatim>\<open>preventSeasonSearch\<close> flag.
\<close>

definition mediaExistsInPlex ::
    "AvailabilitySync \<Rightarrow> Media \<Rightarrow>
     AvailabilitySync \<times> bool \<times> bool \<times> (int \<Rightarrow> bool option) option \<times> (int \<Rightarrow> bool option) option" where
  "mediaExistsInPlex this media =
     (let (this1, existsInPlex, preventSeasonSearch) =
            plexCheck this (mediaType media) (ratingKey media);
          (this2, existsInPlex4k, preventSeasonSearch4k) =
            plexCheck this1 (mediaType media) (ratingKey4k media)
      in if mediaType media = MOVIE then (this2, existsInPlex, existsInPlex4k, None, None)
         else
           let maps =
                 (if \<not> preventSeasonSearch \<or> \<not> preventSeasonSearch4k
                  then seasonMaps
                         (\<lambda>season. seasonExistsInPlex this2 media season
                                      preventSeasonSearch preventSeasonSearch4k)
                         (seasons media) (Map.empty, Map.empty)
                  else (Map.empty, Map.empty))
           in (this2, existsInPlex, existsInPlex4k, Some (fst maps), Some (snd maps)))"

text \<open>
  One \<^verbatim>\<open>try\<close> block of the loop of \<^verbatim>\<open>mediaExistsInRadarr\<close>: lines 532 to 553 for the
  non-4K tier (\<open>tier4k\<close> False: the server is not 4K, the id is \<^verbatim>\<open>externalServiceId\<close>)
  and lines 555 to 576 for the 4K tier. An id that is null or 0 is falsy and nothing is
  asked. \<open>exists\<close> is the value of \<^verbatim>\<open>existsInRadarr\<close> so far.
\<close>

definition radarrCheck ::
    "World \<Rightarrow> DVRSettings \<Rightarrow> bool \<Rightarrow> int option \<Rightarrow> AvailabilitySync \<times> bool \<Rightarrow> AvailabilitySync \<times> bool" where
  "radarrCheck w server tier4k externalId r =
     (case externalId of
        None \<Rightarrow> r
      | Some i \<Rightarrow>
          if is4k server = tier4k \<and> i \<noteq> 0
          then
            (let this1 = (fst r)\<lparr>issued := issued (fst r) @ [RadarrGetMovie server i]\<rparr>
             in case getMovie w server i of
                  Inl message \<Rightarrow> (this1, snd r \<or> \<not> notFound message)
                | Inr radarr \<Rightarrow> (this1, snd r \<or> hasFile radarr))
          else r)"

text \<open>\<^verbatim>\<open>mediaExistsInRadarr\<close>, lines 521 to 580: the loop over the servers, then the whole.\<close>

fun radarrLoop ::
    "World \<Rightarrow> Media \<Rightarrow> DVRSettings list \<Rightarrow> AvailabilitySync \<times> bool \<times> bool \<Rightarrow>
     AvailabilitySync \<times> bool \<times> bool" where
  "radarrLoop w media [] r = r"
| "radarrLoop w media (server # rest) (this, existsInRadarr, existsInRadarr4k) =
     (let (this1, e) = radarrCheck w server False (externalServiceId media) (this, existsInRadarr);
          (this2, e4k) = radarrCheck w server True (externalServiceId4k media) (this1, existsInRadarr4k)
      in radarrLoop w media rest (this2, e, e4k))"

definition mediaExistsInRadarr ::
    "World \<Rightarrow> AvailabilitySync \<Rightarrow> Media \<Rightarrow> AvailabilitySync \<times> bool \<times> bool" where
  "mediaExistsInRadarr w this media = radarrLoop w media (radarrServers this) (this, False, False)"

text \<open>
  One \<^verbatim>\<open>try\<close> block of the loop of \<^verbatim>\<open>mediaExistsInSonarr\<close>: lines 598 to 620 and lines
  622 to 646. The series that is fetched fills the cache before its file count is read.
  The pair beside the state is \<^verbatim>\<open>existsInSonarr\<close> and \<^verbatim>\<open>preventSeasonSearch\<close> so far.
\<close>

definition sonarrCheck ::
    "World \<Rightarrow> DVRSettings \<Rightarrow> bool \<Rightarrow> int option \<Rightarrow> AvailabilitySync \<times> bool \<times> bool \<Rightarrow>
     AvailabilitySync \<times> bool \<times> bool" where
  "sonarrCheck w server tier4k externalId r =
     (case externalId of
        None \<Rightarrow> r
      | Some i \<Rightarrow>
          if is4k server = tier4k \<and> i \<noteq> 0
          then
            (let this1 = (fst r)\<lparr>issued := issued (fst r) @ [SonarrGetSeriesById server i]\<rparr>
             in case getSeriesById w server i of
                  Inl message \<Rightarrow>
                    (this1, fst (snd r) \<or> \<not> notFound message, snd (snd r) \<or> \<not> notFound message)
                | Inr sonarr \<Rightarrow>
                    (this1\<lparr>sonarrSeasonsCache :=
                             (sonarrSeasonsCache this1)((tier4k, i) \<mapsto> sonarrSeasons sonarr)\<rparr>,
                     fst (snd r) \<or> 0 < episodeFileCount sonarr, snd (snd r)))
          else r)"

fun sonarrLoop ::
    "World \<Rightarrow> Media \<Rightarrow> DVRSettings list \<Rightarrow>
     AvailabilitySync \<times> (bool \<times> bool) \<times> (bool \<times> bool) \<Rightarrow>
     AvailabilitySync \<times> (bool \<times> bool) \<times> (bool \<times> bool)" where
  "sonarrLoop w media [] r = r"
| "sonarrLoop w media (server # rest) (this, tier, tier4k) =
     (let (this1, t) = sonarrCheck w server False (externalServiceId media) (this, tier);
          (this2, t4k) = sonarrCheck w server True (externalServiceId4k media) (this1, tier4k)
      in sonarrLoop w media rest (this2, t, t4k))"

text \<open>
  The \<^verbatim>\<open>find\<close> of \<^verbatim>\<open>seasonExistsInSonarr\<close>: a cached season of that number whose optional
  statistics have a file count above 0.
\<close>

definition sonarrSeasonFound :: "AvailabilitySync \<Rightarrow> bool \<times> int \<Rightarrow> int \<Rightarrow> bool" where
  "sonarrSeasonFound this k n =
     (case sonarrSeasonsCache this k of
        None \<Rightarrow> False
      | Some cachedSeasons \<Rightarrow>
          list_ex (\<lambda>s. sonarrSeasonNumber s = n \<and>
                       (case seasonEpisodeFileCount s of None \<Rightarrow> False | Some c \<Rightarrow> 0 < c))
            cachedSeasons)"

text \<open>\<^verbatim>\<open>seasonExistsInSonarr\<close>, lines 679 to 731.\<close>

definition seasonExistsInSonarr ::
    "AvailabilitySync \<Rightarrow> Media \<Rightarrow> Season \<Rightarrow> bool \<Rightarrow> bool \<Rightarrow> bool \<times> bool" where
  "seasonExistsInSonarr this media season preventSeasonSearch preventSeasonSearch4k =
     ((case externalServiceId media of
         None \<Rightarrow> False
       | Some i \<Rightarrow> i \<noteq> 0 \<and> isAvailable (status season) \<and>
           (sonarrSeasonFound this (False, i) (seasonNumber season) \<or> preventSeasonSearch)),
      (case externalServiceId4k media of
         None \<Rightarrow> False
       | Some i \<Rightarrow> i \<noteq> 0 \<and> isAvailable (status4k season) \<and>
           (sonarrSeasonFound this (True, i) (seasonNumber season) \<or> preventSeasonSearch4k)))"

text \<open>\<^verbatim>\<open>mediaExistsInSonarr\<close>, lines 582 to 677.\<close>

definition mediaExistsInSonarr ::
    "World \<Rightarrow> AvailabilitySync \<Rightarrow> Media \<Rightarrow>
     AvailabilitySync \<times> bool \<times> bool \<times> (int \<Rightarrow> bool option) \<times> (int \<Rightarrow> bool option)" where
  "mediaExistsInSonarr w this media =
     (let (this1, (existsInSonarr, preventSeasonSearch), (existsInSonarr4k, preventSeasonSearch4k)) =
            sonarrLoop w media (sonarrServers this) (this, (False, False), (False, False));
          maps =
            (if \<not> preventSeasonSearch \<or> \<not> preventSeasonSearch4k
             then seasonMaps
                    (\<lambda>season. seasonExistsInSonarr this1 media season
                                 preventSeasonSearch preventSeasonSearch4k)
                    (seasons media) (Map.empty, Map.empty)
             else (Map.empty, Map.empty))
      in (this1, existsInSonarr, existsInSonarr4k, fst maps, snd maps))"

subsection \<open>The pass over one item\<close>

text \<open>
  The movie branch of \<^verbatim>\<open>run\<close>, lines 59 to 93: first the two verdicts
  \<^verbatim>\<open>movieExists\<close> and \<^verbatim>\<open>movieExists4k\<close>, then the guarded call of \<^verbatim>\<open>mediaUpdater\<close>.
\<close>

definition movieExistence :: "World \<Rightarrow> AvailabilitySync \<Rightarrow> Media \<Rightarrow> AvailabilitySync \<times> bool \<times> bool" where
  "movieExistence w this media =
     (let (this1, existsInPlex, existsInPlex4k, plexMap, plexMap4k) = mediaExistsInPlex this media;
          (this2, existsInRadarr, existsInRadarr4k) = mediaExistsInRadarr w this1 media
      in (this2, existsInPlex \<or> existsInRadarr, existsInPlex4k \<or> existsInRadarr4k))"

definition runMovie ::
    "World \<Rightarrow> AvailabilitySync \<Rightarrow> Store \<Rightarrow> Media \<Rightarrow> AvailabilitySync \<times> Store \<times> Media" where
  "runMovie w this st media =
     (let (this1, movieExists, movieExists4k) = movieExistence w this media
      in if (\<not> movieExists \<and> status media = AVAILABLE) \<or>
            (\<not> movieExists4k \<and> status4k media = AVAILABLE)
         then (this1, mediaUpdater w st media movieExists movieExists4k)
         else (this1, st, media))"

text \<open>
  What lines 146 to 174 store in \<^verbatim>\<open>seasonMap[season.seasonNumber]\<close>: the entry of the
  Plex map (when there is a map) or the entry of the Sonarr map; a missing entry is
  undefined, that is falsy. The entry is written and read in the same turn of the loop,
  so the map itself is not kept.
\<close>

definition seasonVerdict :: "(int \<Rightarrow> bool option) option \<Rightarrow> (int \<Rightarrow> bool option) \<Rightarrow> int \<Rightarrow> bool" where
  "seasonVerdict existsInPlexMap existsInSonarrMap n =
     ((case existsInPlexMap of None \<Rightarrow> False | Some m \<Rightarrow> m n = Some True) \<or>
      existsInSonarrMap n = Some True)"

text \<open>
  The show branch of \<^verbatim>\<open>run\<close> up to line 143: the verdicts \<^verbatim>\<open>showExists\<close> and
  \<^verbatim>\<open>showExists4k\<close> and the four maps.
\<close>

definition showExistence ::
    "World \<Rightarrow> AvailabilitySync \<Rightarrow> Media \<Rightarrow>
     AvailabilitySync \<times> bool \<times> bool \<times> (int \<Rightarrow> bool) \<times> (int \<Rightarrow> bool)" where
  "showExistence w this media =
     (let (this1, existsInPlex, existsInPlex4k, existsInPlexMap, existsInPlexMap4k) =
            mediaExistsInPlex this media;
          (this2, existsInSonarr, existsInSonarr4k, existsInSonarrMap, existsInSonarrMap4k) =
            mediaExistsInSonarr w this1 media
      in (this2, existsInPlex \<or> existsInSonarr, existsInPlex4k \<or> existsInSonarr4k,
          seasonVerdict existsInPlexMap existsInSonarrMap,
          seasonVerdict existsInPlexMap4k existsInSonarrMap4k))"

text \<open>
  The loop of lines 145 to 191 over the array that \<^verbatim>\<open>media.seasons\<close> held when the loop
  started, by position. Both disjuncts of the guard of lines 176 to 183 test
  \<^verbatim>\<open>season.status\<close>; the second one does not test \<^verbatim>\<open>season.status4k\<close>.
\<close>

fun seasonsLoop ::
    "World \<Rightarrow> (int \<Rightarrow> bool) \<Rightarrow> (int \<Rightarrow> bool) \<Rightarrow> nat list \<Rightarrow> Store \<times> Media \<Rightarrow> Store \<times> Media" where
  "seasonsLoop w seasonMap seasonMap4k [] r = r"
| "seasonsLoop w seasonMap seasonMap4k (i # rest) (st, media) =
     (let season = seasons media ! i;
          seasonExists = seasonMap (seasonNumber season);
          seasonExists4k = seasonMap4k (seasonNumber season)
      in seasonsLoop w seasonMap seasonMap4k rest
           (if (\<not> seasonExists \<and> isAvailable (status season)) \<or>
               (\<not> seasonExists4k \<and> isAvailable (status season))
            then seasonUpdater w st media i seasonExists seasonExists4k
            else (st, media)))"

text \<open>
  The rest of the show branch, lines 145 to 202, for given verdicts, and the whole branch.
\<close>

definition showTransitions ::
    "World \<Rightarrow> Store \<Rightarrow> Media \<Rightarrow> bool \<Rightarrow> bool \<Rightarrow> (int \<Rightarrow> bool) \<Rightarrow> (int \<Rightarrow> bool) \<Rightarrow> Store \<times> Media" where
  "showTransitions w st media showExists showExists4k seasonMap seasonMap4k =
     (let (st1, media1) =
            seasonsLoop w seasonMap seasonMap4k [0..<length (seasons media)] (st, media)
      in if (\<not> showExists \<and> isAvailable (status media1)) \<or>
            (\<not> showExists4k \<and> isAvailable (status4k media1))
         then mediaUpdater w st1 media1 showExists showExists4k
         else (st1, media1))"

definition runShow ::
    "World \<Rightarrow> AvailabilitySync \<Rightarrow> Store \<Rightarrow> Media \<Rightarrow> AvailabilitySync \<times> Store \<times> Media" where
  "runShow w this st media =
     (let (this1, showExists, showExists4k, seasonMap, seasonMap4k) = showExistence w this media
      in (this1, showTransitions w st media showExists showExists4k seasonMap seasonMap4k))"

text \<open>The body of the loop of \<^verbatim>\<open>run\<close>, lines 59 to 203.\<close>

definition runMedia ::
    "World \<Rightarrow> AvailabilitySync \<Rightarrow> Store \<Rightarrow> Media \<Rightarrow> AvailabilitySync \<times> Store \<times> Media" where
  "runMedia w this st media =
     (if mediaType media = MOVIE then runMovie w this st media else runShow w this st media)"

text \<open>
  Names for the parts of these results: the verdicts under the names \<^verbatim>\<open>run\<close> gives
  them, and the store and the item object after the pass over the item.
\<close>

definition movieExists :: "World \<Rightarrow> AvailabilitySync \<Rightarrow> Media \<Rightarrow> bool" where
  "movieExists w this media = fst (snd (movieExistence w this media))"

definition movieExists4k :: "World \<Rightarrow> AvailabilitySync \<Rightarrow> Media \<Rightarrow> bool" where
  "movieExists4k w this media = snd (snd (movieExistence w this media))"

definition showExists :: "World \<Rightarrow> AvailabilitySync \<Rightarrow> Media \<Rightarrow> bool" where
  "showExists w this media = fst (snd (showExistence w this media))"

definition showExists4k :: "World \<Rightarrow> AvailabilitySync \<Rightarrow> Media \<Rightarrow> bool" where
  "showExists4k w this media = fst (snd (snd (showExistence w this media)))"

definition seasonMap :: "World \<Rightarrow> AvailabilitySync \<Rightarrow> Media \<Rightarrow> int \<Rightarrow> bool" where
  "seasonMap w this media = fst (snd (snd (snd (showExistence w this media))))"

definition seasonMap4k :: "World \<Rightarrow> AvailabilitySync \<Rightarrow> Media \<Rightarrow> int \<Rightarrow> bool" where
  "seasonMap4k w this media = snd (snd (snd (snd (showExistence w this media))))"

definition storeAfter :: "World \<Rightarrow> AvailabilitySync \<Rightarrow> Store \<Rightarrow> Media \<Rightarrow> Store" where
  "storeAfter w this st media = fst (snd (runMedia w this st media))"

definition mediaAfter :: "World \<Rightarrow> AvailabilitySync \<Rightarrow> Store \<Rightarrow> Media \<Rightarrow> Media" where
  "mediaAfter w this st media = snd (snd (runMedia w this st media))"

subsection \<open>The probes of a tier\<close>

text \<open>
  Words for the claims about probes. \<open>t\<close> is the tier: False for non-4K, True for 4K.
  \<open>tierStatus\<close>, \<open>tierKey\<close>, \<open>tierId\<close>, \<open>tierServiceId\<close> and \<open>tierSlug\<close> read the
  field of that tier. An answer is a transient error when it is an error whose message
  does not have 404 in it. Plex is asked for a tier when there is a client and the rating
  key of the tier is truthy; its probe is transient when \<^verbatim>\<open>getMetadata\<close> for that key
  answers with a transient error, and clean when neither \<^verbatim>\<open>getMetadata\<close> nor the
  \<^verbatim>\<open>getChildrenMetadata\<close> that follows it does. A manager (Radarr for a movie, Sonarr for
  a show) is asked for a tier when the external service id of the tier is truthy and a
  server of the tier is configured; its probes are transient (clean) when every server of
  the tier answers that id with (without) a transient error. \<open>probesAsked\<close> says that at
  least one probe is issued for the tier, \<open>probesTransient\<close> that every probe issued
  for the tier answers with a transient error, \<open>probesClean\<close> that no top-level probe of
  the tier of a show does. \<open>itemExists\<close> and \<open>seasonExistsFor\<close> are the verdicts of
  the tier.
\<close>

definition transientError :: "string + 'a \<Rightarrow> bool" where
  "transientError answer = (case answer of Inl message \<Rightarrow> \<not> notFound message | Inr x \<Rightarrow> False)"

definition plexAsked :: "AvailabilitySync \<Rightarrow> string option \<Rightarrow> bool" where
  "plexAsked this key =
     (plexClient this \<noteq> None \<and> (case key of None \<Rightarrow> False | Some k \<Rightarrow> k \<noteq> []))"

definition plexTransient :: "AvailabilitySync \<Rightarrow> string option \<Rightarrow> bool" where
  "plexTransient this key =
     (case plexClient this of
        None \<Rightarrow> True
      | Some client \<Rightarrow>
          (case key of None \<Rightarrow> True | Some k \<Rightarrow> k = [] \<or> transientError (getMetadata client k)))"

definition plexClean :: "AvailabilitySync \<Rightarrow> string option \<Rightarrow> bool" where
  "plexClean this key =
     (case plexClient this of
        None \<Rightarrow> True
      | Some client \<Rightarrow>
          (case key of
             None \<Rightarrow> True
           | Some k \<Rightarrow> k = [] \<or>
               (case getMetadata client k of
                  Inl message \<Rightarrow> notFound message
                | Inr x \<Rightarrow> \<not> transientError (getChildrenMetadata client k))))"

definition managerAsked :: "DVRSettings list \<Rightarrow> bool \<Rightarrow> int option \<Rightarrow> bool" where
  "managerAsked servers t externalId =
     ((case externalId of None \<Rightarrow> False | Some i \<Rightarrow> i \<noteq> 0) \<and> list_ex (\<lambda>s. is4k s = t) servers)"

definition managerTransient ::
    "(DVRSettings \<Rightarrow> int \<Rightarrow> string + 'a) \<Rightarrow> DVRSettings list \<Rightarrow> bool \<Rightarrow> int option \<Rightarrow> bool" where
  "managerTransient answer servers t externalId =
     (case externalId of
        None \<Rightarrow> True
      | Some i \<Rightarrow> i = 0 \<or> list_all (\<lambda>s. is4k s = t \<longrightarrow> transientError (answer s i)) servers)"

definition managerClean ::
    "(DVRSettings \<Rightarrow> int \<Rightarrow> string + 'a) \<Rightarrow> DVRSettings list \<Rightarrow> bool \<Rightarrow> int option \<Rightarrow> bool" where
  "managerClean answer servers t externalId =
     (case externalId of
        None \<Rightarrow> True
      | Some i \<Rightarrow> i = 0 \<or> list_all (\<lambda>s. is4k s = t \<longrightarrow> \<not> transientError (answer s i)) servers)"


definition tierStatus :: "bool \<Rightarrow> 'a Tiers_scheme \<Rightarrow> MediaStatus" where
  "tierStatus t x = (if t then status4k x else status x)"

definition tierKey :: "bool \<Rightarrow> Media \<Rightarrow> string option" where
  "tierKey t media = (if t then ratingKey4k media else ratingKey media)"

definition tierId :: "bool \<Rightarrow> Media \<Rightarrow> int option" where
  "tierId t media = (if t then externalServiceId4k media else externalServiceId media)"

definition tierServiceId :: "bool \<Rightarrow> Media \<Rightarrow> int option" where
  "tierServiceId t media = (if t then serviceId4k media else serviceId media)"

definition tierSlug :: "bool \<Rightarrow> Media \<Rightarrow> string option" where
  "tierSlug t media = (if t then externalServiceSlug4k media else externalServiceSlug media)"

definition probesAsked :: "AvailabilitySync \<Rightarrow> Media \<Rightarrow> bool \<Rightarrow> bool" where
  "probesAsked this media t =
     (plexAsked this (tierKey t media) \<or>
      managerAsked (if mediaType media = MOVIE then radarrServers this else sonarrServers this)
        t (tierId t media))"

definition probesTransient :: "World \<Rightarrow> AvailabilitySync \<Rightarrow> Media \<Rightarrow> bool \<Rightarrow> bool" where
  "probesTransient w this media t =
     (plexTransient this (tierKey t media) \<and>
      (if mediaType media = MOVIE
       then managerTransient (getMovie w) (radarrServers this) t (tierId t media)
       else managerTransient (getSeriesById w) (sonarrServers this) t (tierId t media)))"

definition probesClean :: "World \<Rightarrow> AvailabilitySync \<Rightarrow> Media \<Rightarrow> bool \<Rightarrow> bool" where
  "probesClean w this media t =
     (plexClean this (tierKey t media) \<and>
      managerClean (getSeriesById w) (sonarrServers this) t (tierId t media))"

definition itemExists :: "World \<Rightarrow> AvailabilitySync \<Rightarrow> Media \<Rightarrow> bool \<Rightarrow> bool" where
  "itemExists w this media t =
     (if mediaType media = MOVIE
      then (if t then movieExists4k w this media else movieExists w this media)
      else (if t then showExists4k w this media else showExists w this media))"

definition seasonExistsFor :: "World \<Rightarrow> AvailabilitySync \<Rightarrow> Media \<Rightarrow> bool \<Rightarrow> int \<Rightarrow> bool" where
  "seasonExistsFor w this media t =
     (if t then seasonMap4k w this media else seasonMap w this media)"

subsection \<open>Concrete worlds, stores and items\<close>

text \<open>
  The inputs of the examples below. The two messages are those of an HTTP client for the
  status codes 404 and 500. The engine has one non-4K and one 4K server of each kind. An
  item has the id 1 and references for both tiers: the Plex rating keys 100 and 200, the
  external service ids 7 and 8.
\<close>

definition notFoundMessage :: string where
  "notFoundMessage = ''Request failed with status code 404''"

definition serverErrorMessage :: string where
  "serverErrorMessage = ''Request failed with status code 500''"

definition serverOf :: "bool \<Rightarrow> DVRSettings" where
  "serverOf t = \<lparr>is4k = t, serverId = (if t then 1 else 0), syncEnabled = True\<rparr>"

definition engine :: "PlexAPI option \<Rightarrow> AvailabilitySync" where
  "engine client =
     \<lparr>running = True, plexClient = client, plexSeasonsCache = Map.empty,
      sonarrSeasonsCache = Map.empty, radarrServers = [serverOf False, serverOf True],
      sonarrServers = [serverOf False, serverOf True], issued = []\<rparr>"

definition item :: "MediaType \<Rightarrow> MediaStatus \<Rightarrow> MediaStatus \<Rightarrow> Season list \<Rightarrow> Media" where
  "item t s s4k ss =
     \<lparr>status = s, status4k = s4k, mediaId = 1, mediaType = t, tmdbId = 603,
      serviceId = Some 0, serviceId4k = Some 1, externalServiceId = Some 7,
      externalServiceId4k = Some 8, externalServiceSlug = Some ''slug'',
      externalServiceSlug4k = Some ''slug4k'', ratingKey = Some ''100'',
      ratingKey4k = Some ''200'', seasons = ss\<rparr>"

definition seasonOf :: "int \<Rightarrow> MediaStatus \<Rightarrow> MediaStatus \<Rightarrow> Season" where
  "seasonOf n s s4k = \<lparr>status = s, status4k = s4k, seasonNumber = n\<rparr>"

definition requestOf :: "nat \<Rightarrow> bool \<Rightarrow> MediaRequestStatus \<Rightarrow> MediaRequest" where
  "requestOf i t s = \<lparr>is4k = t, requestId = i, requestMedia = 1, requestStatus = s\<rparr>"

definition seasonRequestOf :: "nat \<Rightarrow> MediaRequest \<Rightarrow> int \<Rightarrow> SeasonRequest" where
  "seasonRequestOf i r n = \<lparr>seasonRequestId = i, request = r, requestSeasonNumber = n\<rparr>"

definition storeOf :: "Media \<Rightarrow> MediaRequest list \<Rightarrow> SeasonRequest list \<Rightarrow> Store" where
  "storeOf media rs srs =
     \<lparr>mediaTable = [mediaId media \<mapsto> media], requestTable = rs, seasonRequestTable = srs\<rparr>"

text \<open>
  A Plex server that has the one rating key given, with the seasons given as its children,
  and answers 404 for every other key; one that answers 500 for every key.
\<close>

definition plexWith :: "string \<Rightarrow> int list \<Rightarrow> PlexAPI" where
  "plexWith key children =
     \<lparr>getMetadata = (\<lambda>k. if k = key then Inr \<lparr>plexIndex = 0\<rparr> else Inl notFoundMessage),
      getChildrenMetadata =
        (\<lambda>k. if k = key then Inr (map (\<lambda>n. \<lparr>plexIndex = n\<rparr>) children)
             else Inl notFoundMessage)\<rparr>"

definition plexDown :: PlexAPI where
  "plexDown =
     \<lparr>getMetadata = (\<lambda>k. Inl serverErrorMessage),
      getChildrenMetadata = (\<lambda>k. Inl serverErrorMessage)\<rparr>"

text \<open>A Sonarr series with the seasons 1 and 2 and the given numbers of episode files.\<close>

definition seriesOf :: "int \<Rightarrow> int \<Rightarrow> SonarrSeries" where
  "seriesOf c1 c2 =
     \<lparr>episodeFileCount = c1 + c2,
      sonarrSeasons =
        [\<lparr>sonarrSeasonNumber = 1, seasonEpisodeFileCount = Some c1\<rparr>,
         \<lparr>sonarrSeasonNumber = 2, seasonEpisodeFileCount = Some c2\<rparr>]\<rparr>"

text \<open>
  Worlds whose store never throws. In \<open>worldGone\<close> every server answers 404 and in
  \<open>worldDown\<close> every server answers 500. In \<open>worldOf c1 c2\<close> the non-4K servers have
  the movie with its file and the series with \<open>c1\<close> and \<open>c2\<close> files in the seasons 1
  and 2, and the 4K servers answer 404; \<open>world4kOf c1 c2\<close> is the same with the tiers
  exchanged.
\<close>

definition worldGone :: World where
  "worldGone =
     \<lparr>getMovie = (\<lambda>s i. Inl notFoundMessage),
      getSeriesById = (\<lambda>s i. Inl notFoundMessage),
      storeThrows = (\<lambda>c. False)\<rparr>"

definition worldDown :: World where
  "worldDown =
     \<lparr>getMovie = (\<lambda>s i. Inl serverErrorMessage),
      getSeriesById = (\<lambda>s i. Inl serverErrorMessage),
      storeThrows = (\<lambda>c. False)\<rparr>"

definition worldOf :: "int \<Rightarrow> int \<Rightarrow> World" where
  "worldOf c1 c2 =
     \<lparr>getMovie = (\<lambda>s i. if is4k s then Inl notFoundMessage else Inr \<lparr>hasFile = True\<rparr>),
      getSeriesById = (\<lambda>s i. if is4k s then Inl notFoundMessage else Inr (seriesOf c1 c2)),
      storeThrows = (\<lambda>c. False)\<rparr>"

definition world4kOf :: "int \<Rightarrow> int \<Rightarrow> World" where
  "world4kOf c1 c2 =
     \<lparr>getMovie = (\<lambda>s i. if is4k s then Inr \<lparr>hasFile = True\<rparr> else Inl notFoundMessage),
      getSeriesById = (\<lambda>s i. if is4k s then Inr (seriesOf c1 c2) else Inl notFoundMessage),
      storeThrows = (\<lambda>c. False)\<rparr>"

text \<open>
  The items of the examples: a movie that is partially available; a show with both tiers
  available, without seasons and with one or two seasons that are available in the non-4K
  tier only; a movie with both tiers available; a show whose 4K tier alone is available,
  with two seasons.
\<close>

definition partialMovie :: Media where
  "partialMovie = item MOVIE PARTIALLY_AVAILABLE UNKNOWN []"

definition bareShow :: Media where
  "bareShow = item TV AVAILABLE AVAILABLE []"

definition oneSeasonShow :: Media where
  "oneSeasonShow = item TV AVAILABLE AVAILABLE [seasonOf 1 AVAILABLE UNKNOWN]"

definition twoSeasonShow :: Media where
  "twoSeasonShow =
     item TV AVAILABLE AVAILABLE [seasonOf 1 AVAILABLE UNKNOWN, seasonOf 2 AVAILABLE UNKNOWN]"

definition bothTiersMovie :: Media where
  "bothTiersMovie = item MOVIE AVAILABLE AVAILABLE []"

definition show4kOnly :: Media where
  "show4kOnly =
     item TV UNKNOWN AVAILABLE [seasonOf 1 UNKNOWN AVAILABLE, seasonOf 2 UNKNOWN AVAILABLE]"

text \<open>A movie that is available in both tiers and has no non-4K reference.\<close>

definition unreferencedMovie :: Media where
  "unreferencedMovie = (item MOVIE AVAILABLE AVAILABLE [])\<lparr>ratingKey := None, externalServiceId := None\<rparr>"

text \<open>
  A show with two seasons that is available in the non-4K tier only, and three season
  requests for it: a non-4K one for each season and a 4K one for season 1.
\<close>

definition plainShow :: Media where
  "plainShow =
     item TV AVAILABLE UNKNOWN [seasonOf 1 AVAILABLE UNKNOWN, seasonOf 2 AVAILABLE UNKNOWN]"

definition threeSeasonRequests :: "SeasonRequest list" where
  "threeSeasonRequests =
     [seasonRequestOf 10 (requestOf 5 False APPROVED) 1,
      seasonRequestOf 11 (requestOf 5 False APPROVED) 2,
      seasonRequestOf 12 (requestOf 6 True APPROVED) 1]"

text \<open>
  A Plex server that answers 500 for the one rating key given and 404 for every other
  key, and a world whose non-4K servers answer 500 and whose 4K servers answer 404. A
  show, available in the non-4K tier only, whose season 1 is not available in any tier.
\<close>

definition plexFailing :: "string \<Rightarrow> PlexAPI" where
  "plexFailing key =
     \<lparr>getMetadata = (\<lambda>k. if k = key then Inl serverErrorMessage else Inl notFoundMessage),
      getChildrenMetadata =
        (\<lambda>k. if k = key then Inl serverErrorMessage else Inl notFoundMessage)\<rparr>"

definition worldNon4kDown :: World where
  "worldNon4kDown =
     \<lparr>getMovie = (\<lambda>s i. if is4k s then Inl notFoundMessage else Inl serverErrorMessage),
      getSeriesById = (\<lambda>s i. if is4k s then Inl notFoundMessage else Inl serverErrorMessage),
      storeThrows = (\<lambda>c. False)\<rparr>"

definition mixedShow :: Media where
  "mixedShow =
     item TV AVAILABLE UNKNOWN [seasonOf 1 UNKNOWN UNKNOWN, seasonOf 2 AVAILABLE UNKNOWN]"

section \<open>Properties\<close>

subsection \<open>Auxiliary facts\<close>

lemma notFound_messages:
  "notFound notFoundMessage" "\<not> notFound serverErrorMessage"
  by (simp_all add: notFound_def notFoundMessage_def serverErrorMessage_def)

lemma storeThrows_worlds:
  "\<not> storeThrows worldGone c" "\<not> storeThrows worldDown c"
  "\<not> storeThrows (worldOf c1 c2) c" "\<not> storeThrows (world4kOf c1 c2) c"
  by (simp_all add: worldGone_def worldDown_def worldOf_def world4kOf_def)

lemma findMediaStatus_range:
  "findMediaStatus requests t \<in> {UNKNOWN, PENDING, PROCESSING}"
  by (simp add: findMediaStatus_def Let_def)

lemma findMediaStatus_words:
  "findMediaStatus requests t =
     (if \<exists>r\<in>set requests. is4k r = t \<and> requestStatus r = APPROVED then PROCESSING
      else if \<exists>r\<in>set requests. is4k r = t \<and> requestStatus r = REQUEST_PENDING then PENDING
      else UNKNOWN)"
  by (auto simp: findMediaStatus_def Let_def list_ex_iff)

lemma mediaUpdater_status:
  assumes "\<not> storeThrows w (FindRequests (mediaId media))"
  shows "status (snd (mediaUpdater w st media e e4k)) =
           (if isAvailable (status media) \<and> \<not> e
            then (if mediaType media = TV
                  then findMediaStatus (findRequests st (mediaId media)) False else UNKNOWN)
            else status media)"
  using assms by (auto simp: mediaUpdater_def Let_def)

lemma mediaUpdater_status4k:
  assumes "\<not> storeThrows w (FindRequests (mediaId media))"
  shows "status4k (snd (mediaUpdater w st media e e4k)) =
           (if isAvailable (status4k media) \<and> \<not> e4k
            then (if mediaType media = TV
                  then findMediaStatus (findRequests st (mediaId media)) True else UNKNOWN)
            else status4k media)"
  using assms by (auto simp: mediaUpdater_def Let_def)

lemma mediaUpdater_stored:
  assumes "\<forall>c. \<not> storeThrows w c"
  shows "mediaTable (fst (mediaUpdater w st media e e4k)) (mediaId media) =
           Some (snd (mediaUpdater w st media e e4k))"
  using assms
  by (simp add: mediaUpdater_def Let_def storeStep_def saveMedia_def removeRequests_def)

lemma seasonUpdater_media:
  "\<exists>ss. snd (seasonUpdater w st media i e e4k) = media\<lparr>seasons := ss\<rparr>"
proof -
  have "snd (seasonUpdater w st media i e e4k) =
     media\<lparr>seasons := seasons (snd (seasonUpdater w st media i e e4k))\<rparr>"
    by (simp add: seasonUpdater_def Let_def)
  then show ?thesis by (rule exI)
qed

lemma seasonsLoop_media:
  "\<exists>ss. snd (seasonsLoop w v v4k js (st, media)) = media\<lparr>seasons := ss\<rparr>"
proof (induction js arbitrary: st media)
  case Nil
  show ?case by (intro exI [of _ "seasons media"]) simp
next
  case (Cons j js)
  let ?e = "v (seasonNumber (seasons media ! j))"
  let ?e4k = "v4k (seasonNumber (seasons media ! j))"
  show ?case
  proof (cases "(\<not> ?e \<and> isAvailable (status (seasons media ! j))) \<or>
               (\<not> ?e4k \<and> isAvailable (status (seasons media ! j)))")
    case True
    obtain st1 media1 where r1: "seasonUpdater w st media j ?e ?e4k = (st1, media1)"
      by (cases "seasonUpdater w st media j ?e ?e4k") auto
    have step: "seasonsLoop w v v4k (j # js) (st, media) = seasonsLoop w v v4k js (st1, media1)"
      using True by (auto simp: Let_def r1)
    obtain ss1 where m1: "media1 = media\<lparr>seasons := ss1\<rparr>"
      using seasonUpdater_media [of w st media j ?e ?e4k] by (auto simp: r1)
    obtain ss where "snd (seasonsLoop w v v4k js (st1, media1)) = media1\<lparr>seasons := ss\<rparr>"
      using Cons.IH [of st1 media1] by blast
    then have "snd (seasonsLoop w v v4k (j # js) (st, media)) = media\<lparr>seasons := ss\<rparr>"
      unfolding step by (simp add: m1)
    then show ?thesis by (rule exI)
  next
    case False
    have step: "seasonsLoop w v v4k (j # js) (st, media) = seasonsLoop w v v4k js (st, media)"
      using False by (auto simp: Let_def)
    show ?thesis unfolding step by (rule Cons.IH)
  qed
qed

lemma seasonsLoop_fields:
  "status (snd (seasonsLoop w v v4k js (st, media))) = status media"
  "status4k (snd (seasonsLoop w v v4k js (st, media))) = status4k media"
  "mediaId (snd (seasonsLoop w v v4k js (st, media))) = mediaId media"
  "mediaType (snd (seasonsLoop w v v4k js (st, media))) = mediaType media"
proof -
  obtain ss where e: "snd (seasonsLoop w v v4k js (st, media)) = media\<lparr>seasons := ss\<rparr>"
    using seasonsLoop_media by blast
  show "status (snd (seasonsLoop w v v4k js (st, media))) = status media"
    by (simp add: e)
  show "status4k (snd (seasonsLoop w v v4k js (st, media))) = status4k media"
    by (simp add: e)
  show "mediaId (snd (seasonsLoop w v v4k js (st, media))) = mediaId media"
    by (simp add: e)
  show "mediaType (snd (seasonsLoop w v v4k js (st, media))) = mediaType media"
    by (simp add: e)
qed

lemma runMovie_downgrade:
  assumes rel: "\<forall>c. \<not> storeThrows w c"
    and gone: "status media = AVAILABLE \<and> \<not> fst (snd (movieExistence w this media))"
  shows "status (snd (snd (runMovie w this st media))) =
           (if mediaType media = TV then findMediaStatus (findRequests st (mediaId media)) False
            else UNKNOWN) \<and>
         mediaTable (fst (snd (runMovie w this st media))) (mediaId media) =
           Some (snd (snd (runMovie w this st media)))"
proof -
  obtain this1 e e4k where ex: "movieExistence w this media = (this1, e, e4k)"
    by (cases "movieExistence w this media") auto
  show ?thesis
    using rel gone
    by (simp add: runMovie_def ex mediaUpdater_status mediaUpdater_stored isAvailable_def)
qed

lemma runMovie_downgrade4k:
  assumes rel: "\<forall>c. \<not> storeThrows w c"
    and gone: "status4k media = AVAILABLE \<and> \<not> snd (snd (movieExistence w this media))"
  shows "status4k (snd (snd (runMovie w this st media))) =
           (if mediaType media = TV then findMediaStatus (findRequests st (mediaId media)) True
            else UNKNOWN) \<and>
         mediaTable (fst (snd (runMovie w this st media))) (mediaId media) =
           Some (snd (snd (runMovie w this st media)))"
proof -
  obtain this1 e e4k where ex: "movieExistence w this media = (this1, e, e4k)"
    by (cases "movieExistence w this media") auto
  show ?thesis
    using rel gone
    by (simp add: runMovie_def ex mediaUpdater_status4k mediaUpdater_stored isAvailable_def)
qed

lemma runShow_downgrade:
  assumes rel: "\<forall>c. \<not> storeThrows w c"
    and tv: "mediaType media = TV"
    and gone: "isAvailable (status media) \<and> \<not> fst (snd (showExistence w this media))"
  shows "status (snd (snd (runShow w this st media))) \<in> {UNKNOWN, PENDING, PROCESSING} \<and>
         mediaTable (fst (snd (runShow w this st media))) (mediaId media) =
           Some (snd (snd (runShow w this st media)))"
proof -
  obtain this1 e e4k v v4k where ex: "showExistence w this media = (this1, e, e4k, v, v4k)"
    by (cases "showExistence w this media") auto
  obtain st1 media1 where lp:
    "seasonsLoop w v v4k [0..<length (seasons media)] (st, media) = (st1, media1)"
    by (cases "seasonsLoop w v v4k [0..<length (seasons media)] (st, media)") auto
  have f: "status media1 = status media" "status4k media1 = status4k media"
      "mediaId media1 = mediaId media" "mediaType media1 = mediaType media"
    using seasonsLoop_fields [of w v v4k "[0..<length (seasons media)]" st media]
    by (simp_all add: lp)
  have q: "\<not> storeThrows w (FindRequests (mediaId media1))" using rel by simp
  have stored: "mediaTable (fst (mediaUpdater w st1 media1 a b)) (mediaId media) =
      Some (snd (mediaUpdater w st1 media1 a b))" for a b
    using mediaUpdater_stored [OF rel, of st1 media1 a b] by (simp add: f)
  show ?thesis
    using gone findMediaStatus_range [of "findRequests st1 (mediaId media)" False]
    by (simp add: runShow_def ex showTransitions_def lp f stored mediaUpdater_status [OF q] tv)
qed

lemma runShow_downgrade4k:
  assumes rel: "\<forall>c. \<not> storeThrows w c"
    and tv: "mediaType media = TV"
    and gone: "isAvailable (status4k media) \<and> \<not> fst (snd (snd (showExistence w this media)))"
  shows "status4k (snd (snd (runShow w this st media))) \<in> {UNKNOWN, PENDING, PROCESSING} \<and>
         mediaTable (fst (snd (runShow w this st media))) (mediaId media) =
           Some (snd (snd (runShow w this st media)))"
proof -
  obtain this1 e e4k v v4k where ex: "showExistence w this media = (this1, e, e4k, v, v4k)"
    by (cases "showExistence w this media") auto
  obtain st1 media1 where lp:
    "seasonsLoop w v v4k [0..<length (seasons media)] (st, media) = (st1, media1)"
    by (cases "seasonsLoop w v v4k [0..<length (seasons media)] (st, media)") auto
  have f: "status media1 = status media" "status4k media1 = status4k media"
      "mediaId media1 = mediaId media" "mediaType media1 = mediaType media"
    using seasonsLoop_fields [of w v v4k "[0..<length (seasons media)]" st media]
    by (simp_all add: lp)
  have q: "\<not> storeThrows w (FindRequests (mediaId media1))" using rel by simp
  have stored: "mediaTable (fst (mediaUpdater w st1 media1 a b)) (mediaId media) =
      Some (snd (mediaUpdater w st1 media1 a b))" for a b
    using mediaUpdater_stored [OF rel, of st1 media1 a b] by (simp add: f)
  show ?thesis
    using gone findMediaStatus_range [of "findRequests st1 (mediaId media)" True]
    by (simp add: runShow_def ex showTransitions_def lp f stored mediaUpdater_status4k [OF q] tv)
qed

lemma plexCheck_issued:
  "\<exists>new. issued (fst (plexCheck this mt key)) = issued this @ new \<and>
     (\<forall>p\<in>set new. \<exists>k. key = Some k \<and>
        (p = PlexGetMetadata k \<or> (mt = TV \<and> p = PlexGetChildrenMetadata k)))"
  by (auto simp: plexCheck_def split: option.splits sum.splits)

lemma radarrCheck_issued:
  "\<exists>new. issued (fst (radarrCheck w server t ext r)) = issued (fst r) @ new \<and>
     (\<forall>p\<in>set new. \<exists>i. ext = Some i \<and> is4k server = t \<and> p = RadarrGetMovie server i)"
  by (auto simp: radarrCheck_def Let_def split: option.splits sum.splits)

lemma radarrCheck_None: "radarrCheck w server t None r = r"
  by (simp add: radarrCheck_def)

lemma radarrLoop_issued:
  "\<exists>new. issued (fst (radarrLoop w media servers r)) = issued (fst r) @ new \<and>
     (\<forall>p\<in>set new. \<exists>s i. p = RadarrGetMovie s i \<and>
        ((\<not> is4k s \<and> externalServiceId media = Some i) \<or>
         (is4k s \<and> externalServiceId4k media = Some i)))"
proof (induction servers arbitrary: r)
  case Nil
  show ?case by simp
next
  case (Cons server servers)
  obtain this e e4k where r: "r = (this, e, e4k)" by (cases r) auto
  obtain this1 e1 where c1:
    "radarrCheck w server False (externalServiceId media) (this, e) = (this1, e1)"
    by (cases "radarrCheck w server False (externalServiceId media) (this, e)") auto
  obtain this2 e2 where c2:
    "radarrCheck w server True (externalServiceId4k media) (this1, e4k) = (this2, e2)"
    by (cases "radarrCheck w server True (externalServiceId4k media) (this1, e4k)") auto
  obtain new1 where n1: "issued this1 = issued this @ new1"
      "\<forall>p\<in>set new1. \<exists>i. externalServiceId media = Some i \<and> is4k server = False \<and>
          p = RadarrGetMovie server i"
    using radarrCheck_issued [of w server False "externalServiceId media" "(this, e)"]
    by (auto simp: c1)
  obtain new2 where n2: "issued this2 = issued this1 @ new2"
      "\<forall>p\<in>set new2. \<exists>i. externalServiceId4k media = Some i \<and> is4k server = True \<and>
          p = RadarrGetMovie server i"
    using radarrCheck_issued [of w server True "externalServiceId4k media" "(this1, e4k)"]
    by (auto simp: c2)
  obtain new3 where n3:
      "issued (fst (radarrLoop w media servers (this2, e1, e2))) = issued this2 @ new3"
      "\<forall>p\<in>set new3. \<exists>s i. p = RadarrGetMovie s i \<and>
        ((\<not> is4k s \<and> externalServiceId media = Some i) \<or>
         (is4k s \<and> externalServiceId4k media = Some i))"
    using Cons.IH [of "(this2, e1, e2)"] by auto
  have step: "radarrLoop w media (server # servers) r = radarrLoop w media servers (this2, e1, e2)"
    by (simp add: r c1 c2)
  have "issued (fst (radarrLoop w media (server # servers) r)) =
      issued (fst r) @ (new1 @ new2 @ new3)"
    unfolding step by (simp add: n1 n2 n3 r)
  moreover have "\<forall>p\<in>set (new1 @ new2 @ new3). \<exists>s i. p = RadarrGetMovie s i \<and>
        ((\<not> is4k s \<and> externalServiceId media = Some i) \<or>
         (is4k s \<and> externalServiceId4k media = Some i))"
    using n1(2) n2(2) n3(2) by auto
  ultimately show ?case by blast
qed

lemma radarrCheck_exists:
  "snd (radarrCheck w server t ext (this, e)) \<longrightarrow> e \<or> (\<exists>i. ext = Some i)"
  by (cases ext) (auto simp: radarrCheck_def)

lemma radarrLoop_exists:
  "fst (snd (radarrLoop w media servers (this, e, e4k))) \<longrightarrow>
     e \<or> (\<exists>i. externalServiceId media = Some i)"
proof (induction servers arbitrary: this e e4k)
  case Nil
  show ?case by simp
next
  case (Cons server servers)
  obtain this1 e1 where c1:
    "radarrCheck w server False (externalServiceId media) (this, e) = (this1, e1)"
    by (cases "radarrCheck w server False (externalServiceId media) (this, e)") auto
  obtain this2 e2 where c2:
    "radarrCheck w server True (externalServiceId4k media) (this1, e4k) = (this2, e2)"
    by (cases "radarrCheck w server True (externalServiceId4k media) (this1, e4k)") auto
  have k1: "e1 \<longrightarrow> e \<or> (\<exists>i. externalServiceId media = Some i)"
    using radarrCheck_exists [of w server False "externalServiceId media" this e] by (simp add: c1)
  have step: "radarrLoop w media (server # servers) (this, e, e4k) =
      radarrLoop w media servers (this2, e1, e2)"
    by (simp add: c1 c2)
  show ?case unfolding step using Cons.IH [of this2 e1 e2] k1 by blast
qed

lemma radarrLoop_exists4k:
  "snd (snd (radarrLoop w media servers (this, e, e4k))) \<longrightarrow>
     e4k \<or> (\<exists>i. externalServiceId4k media = Some i)"
proof (induction servers arbitrary: this e e4k)
  case Nil
  show ?case by simp
next
  case (Cons server servers)
  obtain this1 e1 where c1:
    "radarrCheck w server False (externalServiceId media) (this, e) = (this1, e1)"
    by (cases "radarrCheck w server False (externalServiceId media) (this, e)") auto
  obtain this2 e2 where c2:
    "radarrCheck w server True (externalServiceId4k media) (this1, e4k) = (this2, e2)"
    by (cases "radarrCheck w server True (externalServiceId4k media) (this1, e4k)") auto
  have k2: "e2 \<longrightarrow> e4k \<or> (\<exists>i. externalServiceId4k media = Some i)"
    using radarrCheck_exists [of w server True "externalServiceId4k media" this1 e4k]
    by (simp add: c2)
  have step: "radarrLoop w media (server # servers) (this, e, e4k) =
      radarrLoop w media servers (this2, e1, e2)"
    by (simp add: c1 c2)
  show ?case unfolding step using Cons.IH [of this2 e1 e2] k2 by blast
qed

lemma plexCheck_None: "plexCheck this mt None = (this, False, False)"
  by (simp add: plexCheck_def)

lemma movieExistence_without_references:
  assumes mv: "mediaType media = MOVIE"
    and refs: "ratingKey media = None \<and> externalServiceId media = None"
  shows "\<not> fst (snd (movieExistence w this media)) \<and>
     (\<exists>new. issued (fst (movieExistence w this media)) = issued this @ new \<and>
        (\<forall>p\<in>set new.
           (\<exists>k. p = PlexGetMetadata k \<and> ratingKey4k media = Some k) \<or>
           (\<exists>s i. p = RadarrGetMovie s i \<and> is4k s \<and> externalServiceId4k media = Some i)))"
proof -
  obtain this2 e4 p4 where p2: "plexCheck this MOVIE (ratingKey4k media) = (this2, e4, p4)"
    by (cases "plexCheck this MOVIE (ratingKey4k media)") auto
  obtain this3 r r4 where lp:
    "radarrLoop w media (radarrServers this2) (this2, False, False) = (this3, r, r4)"
    by (cases "radarrLoop w media (radarrServers this2) (this2, False, False)") auto
  have ex: "movieExistence w this media = (this3, r, e4 \<or> r4)"
    using mv refs
    by (simp add: movieExistence_def mediaExistsInPlex_def plexCheck_None p2
        mediaExistsInRadarr_def lp)
  have nr: "\<not> r"
    using radarrLoop_exists [of w media "radarrServers this2" this2 False False] refs
    by (simp add: lp)
  obtain new1 where n1: "issued this2 = issued this @ new1"
      "\<forall>p\<in>set new1. \<exists>k. ratingKey4k media = Some k \<and>
          (p = PlexGetMetadata k \<or> (MOVIE = TV \<and> p = PlexGetChildrenMetadata k))"
    using plexCheck_issued [of this MOVIE "ratingKey4k media"] by (auto simp: p2)
  obtain new2 where n2: "issued this3 = issued this2 @ new2"
      "\<forall>p\<in>set new2. \<exists>s i. p = RadarrGetMovie s i \<and>
        ((\<not> is4k s \<and> externalServiceId media = Some i) \<or>
         (is4k s \<and> externalServiceId4k media = Some i))"
    using radarrLoop_issued [of w media "radarrServers this2" "(this2, False, False)"]
    by (auto simp: lp)
  have "issued (fst (movieExistence w this media)) = issued this @ (new1 @ new2)"
    by (simp add: ex n1 n2)
  moreover have "\<forall>p\<in>set (new1 @ new2).
           (\<exists>k. p = PlexGetMetadata k \<and> ratingKey4k media = Some k) \<or>
           (\<exists>s i. p = RadarrGetMovie s i \<and> is4k s \<and> externalServiceId4k media = Some i)"
    using n1(2) n2(2) refs by auto
  ultimately show ?thesis using nr by (simp add: ex)
qed

lemma movieExistence_without_references4k:
  assumes mv: "mediaType media = MOVIE"
    and refs: "ratingKey4k media = None \<and> externalServiceId4k media = None"
  shows "\<not> snd (snd (movieExistence w this media)) \<and>
     (\<exists>new. issued (fst (movieExistence w this media)) = issued this @ new \<and>
        (\<forall>p\<in>set new.
           (\<exists>k. p = PlexGetMetadata k \<and> ratingKey media = Some k) \<or>
           (\<exists>s i. p = RadarrGetMovie s i \<and> \<not> is4k s \<and> externalServiceId media = Some i)))"
proof -
  obtain this1 e p where p1: "plexCheck this MOVIE (ratingKey media) = (this1, e, p)"
    by (cases "plexCheck this MOVIE (ratingKey media)") auto
  obtain this3 r r4 where lp:
    "radarrLoop w media (radarrServers this1) (this1, False, False) = (this3, r, r4)"
    by (cases "radarrLoop w media (radarrServers this1) (this1, False, False)") auto
  have ex: "movieExistence w this media = (this3, e \<or> r, r4)"
    using mv refs
    by (simp add: movieExistence_def mediaExistsInPlex_def plexCheck_None p1
        mediaExistsInRadarr_def lp)
  have nr: "\<not> r4"
    using radarrLoop_exists4k [of w media "radarrServers this1" this1 False False] refs
    by (simp add: lp)
  obtain new1 where n1: "issued this1 = issued this @ new1"
      "\<forall>p\<in>set new1. \<exists>k. ratingKey media = Some k \<and>
          (p = PlexGetMetadata k \<or> (MOVIE = TV \<and> p = PlexGetChildrenMetadata k))"
    using plexCheck_issued [of this MOVIE "ratingKey media"] by (auto simp: p1)
  obtain new2 where n2: "issued this3 = issued this1 @ new2"
      "\<forall>p\<in>set new2. \<exists>s i. p = RadarrGetMovie s i \<and>
        ((\<not> is4k s \<and> externalServiceId media = Some i) \<or>
         (is4k s \<and> externalServiceId4k media = Some i))"
    using radarrLoop_issued [of w media "radarrServers this1" "(this1, False, False)"]
    by (auto simp: lp)
  have "issued (fst (movieExistence w this media)) = issued this @ (new1 @ new2)"
    by (simp add: ex n1 n2)
  moreover have "\<forall>p\<in>set (new1 @ new2).
           (\<exists>k. p = PlexGetMetadata k \<and> ratingKey media = Some k) \<or>
           (\<exists>s i. p = RadarrGetMovie s i \<and> \<not> is4k s \<and> externalServiceId media = Some i)"
    using n1(2) n2(2) refs by auto
  ultimately show ?thesis using nr by (simp add: ex)
qed

lemma runMedia_downgrade:
  assumes "\<forall>c. \<not> storeThrows w c"
  shows
    "((mediaType media = MOVIE \<and> status media = AVAILABLE \<and>
         \<not> fst (snd (movieExistence w this media))) \<or>
      (mediaType media = TV \<and> isAvailable (status media) \<and>
         \<not> fst (snd (showExistence w this media))) \<longrightarrow>
        status (snd (snd (runMedia w this st media))) \<in> {UNKNOWN, PENDING, PROCESSING} \<and>
        mediaTable (fst (snd (runMedia w this st media))) (mediaId media) =
          Some (snd (snd (runMedia w this st media)))) \<and>
     ((mediaType media = MOVIE \<and> status4k media = AVAILABLE \<and>
         \<not> snd (snd (movieExistence w this media))) \<or>
      (mediaType media = TV \<and> isAvailable (status4k media) \<and>
         \<not> fst (snd (snd (showExistence w this media)))) \<longrightarrow>
        status4k (snd (snd (runMedia w this st media))) \<in> {UNKNOWN, PENDING, PROCESSING} \<and>
        mediaTable (fst (snd (runMedia w this st media))) (mediaId media) =
          Some (snd (snd (runMedia w this st media))))"
proof (rule conjI; rule impI)
  assume h: "(mediaType media = MOVIE \<and> status media = AVAILABLE \<and>
         \<not> fst (snd (movieExistence w this media))) \<or>
      (mediaType media = TV \<and> isAvailable (status media) \<and>
         \<not> fst (snd (showExistence w this media)))"
  show "status (snd (snd (runMedia w this st media))) \<in> {UNKNOWN, PENDING, PROCESSING} \<and>
        mediaTable (fst (snd (runMedia w this st media))) (mediaId media) =
          Some (snd (snd (runMedia w this st media)))"
  proof (cases "mediaType media")
    case MOVIE
    with h have "status media = AVAILABLE \<and> \<not> fst (snd (movieExistence w this media))" by simp
    from runMovie_downgrade [OF assms this, of st] MOVIE show ?thesis
      by (simp add: runMedia_def)
  next
    case TV
    with h have "isAvailable (status media) \<and> \<not> fst (snd (showExistence w this media))" by simp
    from runShow_downgrade [OF assms TV this, of st] TV show ?thesis
      by (simp add: runMedia_def)
  qed
next
  assume h: "(mediaType media = MOVIE \<and> status4k media = AVAILABLE \<and>
         \<not> snd (snd (movieExistence w this media))) \<or>
      (mediaType media = TV \<and> isAvailable (status4k media) \<and>
         \<not> fst (snd (snd (showExistence w this media))))"
  show "status4k (snd (snd (runMedia w this st media))) \<in> {UNKNOWN, PENDING, PROCESSING} \<and>
        mediaTable (fst (snd (runMedia w this st media))) (mediaId media) =
          Some (snd (snd (runMedia w this st media)))"
  proof (cases "mediaType media")
    case MOVIE
    with h have "status4k media = AVAILABLE \<and> \<not> snd (snd (movieExistence w this media))" by simp
    from runMovie_downgrade4k [OF assms this, of st] MOVIE show ?thesis
      by (simp add: runMedia_def)
  next
    case TV
    with h have "isAvailable (status4k media) \<and> \<not> fst (snd (snd (showExistence w this media)))" by simp
    from runShow_downgrade4k [OF assms TV this, of st] TV show ?thesis
      by (simp add: runMedia_def)
  qed
qed

lemma filter_remove_ids:
  assumes "distinct (map f xs)"
  shows "filter (\<lambda>r. f r \<notin> set (map f (filter P xs))) xs = filter (\<lambda>r. \<not> P r) xs"
proof (rule filter_cong [OF refl])
  fix r assume r: "r \<in> set xs"
  have inj: "inj_on f (set xs)" using assms by (simp add: distinct_map)
  have "f r \<in> f ` {x \<in> set xs. P x} \<longleftrightarrow> P r"
  proof
    assume "f r \<in> f ` {x \<in> set xs. P x}"
    then obtain x where x: "x \<in> set xs" "P x" "f r = f x" by auto
    with inj r have "r = x" by (auto dest: inj_onD)
    with x show "P r" by simp
  next
    assume "P r" with r show "f r \<in> f ` {x \<in> set xs. P x}" by auto
  qed
  then show "(f r \<notin> set (map f (filter P xs))) = (\<not> P r)" by simp
qed

lemma seasonStatusChanges_eq:
  "seasonStatusChanges s e e4k =
     (s\<lparr>status := (if isAvailable (status s) \<and> \<not> e then UNKNOWN else status s),
        status4k := (if isAvailable (status4k s) \<and> \<not> e4k then UNKNOWN else status4k s)\<rparr>,
      (isAvailable (status s) \<and> \<not> e) \<or> (isAvailable (status4k s) \<and> \<not> e4k))"
  by (cases e; cases e4k; cases "isAvailable (status s)"; cases "isAvailable (status4k s)")
     (simp_all add: seasonStatusChanges_def isAvailable_def)

lemma seasonUpdater_kept:
  assumes "e4k \<or> \<not> isAvailable (status4k (seasons media ! i))"
  shows "seasonUpdater w st media i True e4k = (st, media)"
  using assms by (auto simp: seasonUpdater_def Let_def seasonStatusChanges_eq)

lemma filtered_non4k:
  assumes av: "isAvailable (status s)"
    and q4k: "e4k \<or> \<not> isAvailable (status4k s)"
  shows "filter (\<lambda>seasonRequest.
                  (\<not> is4k (request seasonRequest) \<and> \<not> False \<and> isAvailable (status s)) \<or>
                  (is4k (request seasonRequest) \<and> \<not> e4k \<and> isAvailable (status4k s)))
                (findSeasonRequests st m n) =
         filter (\<lambda>r. requestMedia (request r) = m \<and>
                requestSeasonNumber r = n \<and> \<not> is4k (request r)) (seasonRequestTable st)"
  unfolding findSeasonRequests_def filter_filter
  using av q4k by (intro filter_cong refl) auto

lemma seasonUpdater_lost:
  assumes rel: "\<forall>c. \<not> storeThrows w c"
    and av: "isAvailable (status (seasons media ! i))"
    and q4k: "e4k \<or> \<not> isAvailable (status4k (seasons media ! i))"
    and ids: "distinct (map seasonRequestId (seasonRequestTable st))"
  shows "snd (seasonUpdater w st media i False e4k) =
           media\<lparr>seasons := (seasons media)[i := (seasons media ! i)\<lparr>status := UNKNOWN\<rparr>] @
                                [(seasons media ! i)\<lparr>status := UNKNOWN\<rparr>]\<rparr>" (is ?A)
    and "mediaTable (fst (seasonUpdater w st media i False e4k)) (mediaId media) =
           Some (media\<lparr>seasons := (seasons media)[i := (seasons media ! i)\<lparr>status := UNKNOWN\<rparr>] @
                                [(seasons media ! i)\<lparr>status := UNKNOWN\<rparr>],
                  status := (if status media = AVAILABLE then PARTIALLY_AVAILABLE else status media),
                  status4k := (if status4k media = AVAILABLE \<and> \<not> e4k then PARTIALLY_AVAILABLE
                               else status4k media)\<rparr>)" (is ?B)
    and "seasonRequestTable (fst (seasonUpdater w st media i False e4k)) =
           filter (\<lambda>r. \<not> (requestMedia (request r) = mediaId media \<and>
                          requestSeasonNumber r = seasonNumber (seasons media ! i) \<and>
                          \<not> is4k (request r)))
             (seasonRequestTable st)" (is ?C)
    and "requestTable (fst (seasonUpdater w st media i False e4k)) = requestTable st" (is ?D)
proof -
  let ?s = "seasons media ! i"
  let ?P = "\<lambda>r. requestMedia (request r) = mediaId media \<and>
                requestSeasonNumber r = seasonNumber ?s \<and> \<not> is4k (request r)"
  let ?filtered = "filter ?P (seasonRequestTable st)"
  let ?m1 = "media\<lparr>seasons := (seasons media)[i := ?s\<lparr>status := UNKNOWN\<rparr>] @ [?s\<lparr>status := UNKNOWN\<rparr>]\<rparr>"
  let ?st1 = "saveMedia ?m1 st"
  let ?st2 = "if status media = AVAILABLE then updateStatus (mediaId media) PARTIALLY_AVAILABLE ?st1 else ?st1"
  let ?st3 = "if status4k media = AVAILABLE \<and> \<not> e4k then updateStatus4k (mediaId media) PARTIALLY_AVAILABLE ?st2 else ?st2"
  let ?st4 = "if ?filtered \<noteq> [] then removeSeasonRequests ?filtered ?st3 else ?st3"
  have c2: "\<not> (isAvailable (status4k ?s) \<and> \<not> e4k)" using q4k by blast
  have ch: "seasonStatusChanges ?s False e4k = (?s\<lparr>status := UNKNOWN\<rparr>, True)"
    using av c2 by (auto simp: seasonStatusChanges_eq)
  have su: "seasonUpdater w st media i False e4k = (?st4, ?m1)"
    unfolding seasonUpdater_def Let_def filtered_non4k [OF av q4k] ch
    using rel by (simp add: storeStep_def)
  show ?A by (simp add: su)
  show ?D by (simp add: su removeSeasonRequests_def updateStatus4k_def updateStatus_def saveMedia_def)
  show ?B
    by (simp add: su removeSeasonRequests_def updateStatus4k_def updateStatus_def saveMedia_def)
  define fl where "fl = ?filtered"
  have t4: "seasonRequestTable ?st4 = (if fl \<noteq> [] then seasonRequestTable (removeSeasonRequests fl st)
      else seasonRequestTable st)"
    unfolding fl_def [symmetric]
    by (simp add: removeSeasonRequests_def updateStatus4k_def updateStatus_def saveMedia_def)
  have "(if fl \<noteq> [] then seasonRequestTable (removeSeasonRequests fl st)
      else seasonRequestTable st) =
      filter (\<lambda>r. seasonRequestId r \<notin> set (map seasonRequestId fl)) (seasonRequestTable st)"
    by (cases "fl = []") (simp_all add: removeSeasonRequests_def)
  also have "\<dots> = filter (\<lambda>r. \<not> ?P r) (seasonRequestTable st)"
    unfolding fl_def by (rule filter_remove_ids [OF ids])
  finally have "seasonRequestTable ?st4 = filter (\<lambda>r. \<not> ?P r) (seasonRequestTable st)"
    unfolding t4 .
  then show ?C by (simp add: su)
qed


lemma seasonsLoop_step:
  "seasonsLoop w v v4k (i # rest) (st, media) =
     seasonsLoop w v v4k rest
       (if (\<not> v (seasonNumber (seasons media ! i)) \<and> isAvailable (status (seasons media ! i))) \<or>
           (\<not> v4k (seasonNumber (seasons media ! i)) \<and> isAvailable (status (seasons media ! i)))
        then seasonUpdater w st media i (v (seasonNumber (seasons media ! i)))
               (v4k (seasonNumber (seasons media ! i)))
        else (st, media))"
  by (simp add: Let_def)

lemma runShow_parts:
  assumes "mediaType media = TV"
  shows "storeAfter w this st media =
           fst (showTransitions w st media (showExists w this media) (showExists4k w this media)
                  (seasonMap w this media) (seasonMap4k w this media))"
    and "mediaAfter w this st media =
           snd (showTransitions w st media (showExists w this media) (showExists4k w this media)
                  (seasonMap w this media) (seasonMap4k w this media))"
proof -
  obtain this1 e e4k v v4k where ex: "showExistence w this media = (this1, e, e4k, v, v4k)"
    by (cases "showExistence w this media") auto
  show "storeAfter w this st media =
           fst (showTransitions w st media (showExists w this media) (showExists4k w this media)
                  (seasonMap w this media) (seasonMap4k w this media))"
    using assms
    by (simp add: storeAfter_def runMedia_def runShow_def ex showExists_def showExists4k_def
        seasonMap_def seasonMap4k_def)
  show "mediaAfter w this st media =
           snd (showTransitions w st media (showExists w this media) (showExists4k w this media)
                  (seasonMap w this media) (seasonMap4k w this media))"
    using assms
    by (simp add: mediaAfter_def runMedia_def runShow_def ex showExists_def showExists4k_def
        seasonMap_def seasonMap4k_def)
qed

lemma cascade_transitions:
  assumes rel: "\<forall>c. \<not> storeThrows w c"
    and item: "status media = AVAILABLE"
    and two: "seasons media = [a, b]"
    and av: "status a = AVAILABLE" "status b = AVAILABLE"
    and which: "(lost, kept) = (a, b) \<or> (lost, kept) = (b, a)"
    and vl: "\<not> v (seasonNumber lost)" and vk: "v (seasonNumber kept)"
    and q: "e4k \<or> \<not> isAvailable (status4k media)"
    and qa: "v4k (seasonNumber a) \<or> \<not> isAvailable (status4k a)"
    and qb: "v4k (seasonNumber b) \<or> \<not> isAvailable (status4k b)"
    and ids: "distinct (map seasonRequestId (seasonRequestTable st))"
  shows "(\<exists>row. mediaTable (fst (showTransitions w st media True e4k v v4k)) (mediaId media) = Some row \<and>
            status row = PARTIALLY_AVAILABLE \<and>
            set (seasons row) = {lost\<lparr>status := UNKNOWN\<rparr>, kept}) \<and>
         seasonRequestTable (fst (showTransitions w st media True e4k v v4k)) =
           filter (\<lambda>r. \<not> (requestMedia (request r) = mediaId media \<and>
                          requestSeasonNumber r = seasonNumber lost \<and> \<not> is4k (request r)))
             (seasonRequestTable st) \<and>
         requestTable (fst (showTransitions w st media True e4k v v4k)) = requestTable st"
proof -
  have ava: "isAvailable (status a)" "isAvailable (status b)"
    using av by (simp_all add: isAvailable_def)
  have idx: "[0..<length (seasons media)] = [0, Suc 0]"
    by (simp add: two upt_rec)
  from which show ?thesis
  proof
    assume "(lost, kept) = (a, b)"
    then have lk: "lost = a" "kept = b" by simp_all
    let ?r1 = "seasonUpdater w st media 0 False (v4k (seasonNumber a))"
    obtain st1 m1 where r1: "?r1 = (st1, m1)" by (cases ?r1) auto
    have s0: "seasons media ! 0 = a" by (simp add: two)
    note L = seasonUpdater_lost [OF rel, of media 0 "v4k (seasonNumber a)" st,
        unfolded s0, OF ava(1) qa ids, unfolded r1 fst_conv snd_conv]
    have m1: "m1 = media\<lparr>seasons := [a\<lparr>status := UNKNOWN\<rparr>, b, a\<lparr>status := UNKNOWN\<rparr>]\<rparr>"
      using L(1) by (simp add: two)
    have s1: "seasons m1 ! Suc 0 = b" by (simp add: m1)
    have it1: "(if (\<not> v (seasonNumber b) \<and> isAvailable (status b)) \<or>
           (\<not> v4k (seasonNumber b) \<and> isAvailable (status b))
        then seasonUpdater w st1 m1 (Suc 0) (v (seasonNumber b)) (v4k (seasonNumber b))
        else (st1, m1)) = (st1, m1)"
      using vk seasonUpdater_kept [of "v4k (seasonNumber b)" m1 "Suc 0" w st1, unfolded s1, OF qb]
      by (simp only: lk if_cancel)
    have loop: "seasonsLoop w v v4k [0, Suc 0] (st, media) = (st1, m1)"
      using vl ava(1)
      by (simp only: seasonsLoop_step s0 s1 lk r1 it1 if_True simp_thms seasonsLoop.simps)
    have fin: "showTransitions w st media True e4k v v4k = (st1, m1)"
      unfolding showTransitions_def idx loop using q by (auto simp: m1)
    show ?thesis
      using L(2,3,4) by (auto simp: fin lk two item)
  next
    assume "(lost, kept) = (b, a)"
    then have lk: "lost = b" "kept = a" by simp_all
    have s0: "seasons media ! 0 = a" by (simp add: two)
    have s1: "seasons media ! Suc 0 = b" by (simp add: two)
    have it0: "(if (\<not> v (seasonNumber a) \<and> isAvailable (status a)) \<or>
           (\<not> v4k (seasonNumber a) \<and> isAvailable (status a))
        then seasonUpdater w st media 0 (v (seasonNumber a)) (v4k (seasonNumber a))
        else (st, media)) = (st, media)"
      using vk seasonUpdater_kept [of "v4k (seasonNumber a)" media 0 w st, unfolded s0, OF qa]
      by (simp only: lk if_cancel)
    let ?r1 = "seasonUpdater w st media (Suc 0) False (v4k (seasonNumber b))"
    obtain st1 m1 where r1: "?r1 = (st1, m1)" by (cases ?r1) auto
    note L = seasonUpdater_lost [OF rel, of media "Suc 0" "v4k (seasonNumber b)" st,
        unfolded s1, OF ava(2) qb ids, unfolded r1 fst_conv snd_conv]
    have m1: "m1 = media\<lparr>seasons := [a, b\<lparr>status := UNKNOWN\<rparr>, b\<lparr>status := UNKNOWN\<rparr>]\<rparr>"
      using L(1) by (simp add: two)
    have loop: "seasonsLoop w v v4k [0, Suc 0] (st, media) = (st1, m1)"
      using vl ava(2)
      by (simp only: seasonsLoop_step s0 s1 lk r1 it0 if_True simp_thms seasonsLoop.simps)
    have fin: "showTransitions w st media True e4k v v4k = (st1, m1)"
      unfolding showTransitions_def idx loop using q by (auto simp: m1)
    show ?thesis
      using L(2,3,4) by (auto simp: fin lk two item)
  qed
qed


lemma seasonMaps_other:
  "n \<notin> seasonNumber ` set ss \<Longrightarrow>
     fst (seasonMaps f ss maps) n = fst maps n \<and> snd (seasonMaps f ss maps) n = snd maps n"
  by (induction ss arbitrary: maps) auto

lemma seasonMaps_lookup:
  "distinct (map seasonNumber ss) \<Longrightarrow> s \<in> set ss \<Longrightarrow>
     fst (seasonMaps f ss maps) (seasonNumber s) = Some (fst (f s)) \<and>
     snd (seasonMaps f ss maps) (seasonNumber s) = Some (snd (f s))"
proof (induction ss arbitrary: maps)
  case Nil
  then show ?case by simp
next
  case (Cons x ss)
  show ?case
  proof (cases "s = x")
    case True
    have "seasonNumber x \<notin> seasonNumber ` set ss" using Cons.prems(1) by auto
    from seasonMaps_other [OF this] show ?thesis by (simp add: True)
  next
    case False
    with Cons.prems have "s \<in> set ss" "distinct (map seasonNumber ss)" by auto
    from Cons.IH [OF this(2,1)] show ?thesis by simp
  qed
qed

lemma showExistence_parts:
  assumes tv: "mediaType media = TV"
    and p1: "plexCheck this TV (ratingKey media) = (this1, eP, pP)"
    and p2: "plexCheck this1 TV (ratingKey4k media) = (this2, eP4, pP4)"
    and sl: "sonarrLoop w media (sonarrServers this2) (this2, (False, False), (False, False)) =
               (this3, (eS, pS), (eS4, pS4))"
  shows "showExists w this media = (eP \<or> eS)"
    and "showExists4k w this media = (eP4 \<or> eS4)"
    and "seasonMap w this media =
           seasonVerdict
             (Some (fst (if \<not> pP \<or> \<not> pP4
                then seasonMaps (\<lambda>season. seasonExistsInPlex this2 media season pP pP4)
                       (seasons media) (Map.empty, Map.empty)
                else (Map.empty, Map.empty))))
             (fst (if \<not> pS \<or> \<not> pS4
                then seasonMaps (\<lambda>season. seasonExistsInSonarr this3 media season pS pS4)
                       (seasons media) (Map.empty, Map.empty)
                else (Map.empty, Map.empty)))"
    and "seasonMap4k w this media =
           seasonVerdict
             (Some (snd (if \<not> pP \<or> \<not> pP4
                then seasonMaps (\<lambda>season. seasonExistsInPlex this2 media season pP pP4)
                       (seasons media) (Map.empty, Map.empty)
                else (Map.empty, Map.empty))))
             (snd (if \<not> pS \<or> \<not> pS4
                then seasonMaps (\<lambda>season. seasonExistsInSonarr this3 media season pS pS4)
                       (seasons media) (Map.empty, Map.empty)
                else (Map.empty, Map.empty)))"
  using tv
  by (simp_all add: showExists_def showExists4k_def seasonMap_def seasonMap4k_def
      showExistence_def mediaExistsInPlex_def mediaExistsInSonarr_def p1 p2 sl Let_def
      case_prod_beta)

lemma plexCheck_frame:
  "plexClient (fst (plexCheck this mt key)) = plexClient this"
  "sonarrServers (fst (plexCheck this mt key)) = sonarrServers this"
  "radarrServers (fst (plexCheck this mt key)) = radarrServers this"
  by (auto simp: plexCheck_def split: option.splits sum.splits)

lemma plexCheck_transient:
  assumes "plexAsked this key" and "plexTransient this key"
  shows "snd (plexCheck this mt key) = (True, True)"
  using assms
  by (auto simp: plexCheck_def plexAsked_def plexTransient_def transientError_def
      split: option.splits sum.splits)

lemma plexCheck_clean:
  assumes "plexClean this key"
  shows "\<not> snd (snd (plexCheck this mt key))"
  using assms
  by (auto simp: plexCheck_def plexClean_def transientError_def split: option.splits sum.splits)

lemma plexCheck_not_asked:
  assumes "\<not> plexAsked this key"
  shows "snd (plexCheck this mt key) = (False, False)"
  using assms
  by (auto simp: plexCheck_def plexAsked_def split: option.splits sum.splits)

lemma sonarrCheck_frame:
  "plexClient (fst (sonarrCheck w server t ext r)) = plexClient (fst r)"
  "plexSeasonsCache (fst (sonarrCheck w server t ext r)) = plexSeasonsCache (fst r)"
  by (auto simp: sonarrCheck_def Let_def split: option.splits sum.splits)

lemma sonarrCheck_transient:
  assumes "managerTransient (getSeriesById w) [server] t ext"
  shows "snd (sonarrCheck w server t ext (this, e, p)) =
           (e \<or> managerAsked [server] t ext, p \<or> managerAsked [server] t ext)"
  using assms
  by (auto simp: sonarrCheck_def managerTransient_def managerAsked_def transientError_def Let_def
      split: option.splits sum.splits)

lemma sonarrCheck_clean:
  assumes "managerClean (getSeriesById w) [server] t ext"
  shows "snd (snd (sonarrCheck w server t ext (this, e, p))) = p"
  using assms
  by (auto simp: sonarrCheck_def managerClean_def transientError_def Let_def
      split: option.splits sum.splits)

lemma manager_Cons:
  "managerTransient a (s # ss) t ext = (managerTransient a [s] t ext \<and> managerTransient a ss t ext)"
  "managerClean a (s # ss) t ext = (managerClean a [s] t ext \<and> managerClean a ss t ext)"
  "managerAsked (s # ss) t ext = (managerAsked [s] t ext \<or> managerAsked ss t ext)"
  by (auto simp: managerTransient_def managerClean_def managerAsked_def split: option.splits)

lemma manager_Nil: "\<not> managerAsked [] t ext"
  by (simp add: managerAsked_def)


lemma sonarrLoop_step:
  "sonarrLoop w media (server # rest) (this, tier, tier4k) =
     sonarrLoop w media rest
       (fst (sonarrCheck w server True (externalServiceId4k media)
               (fst (sonarrCheck w server False (externalServiceId media) (this, tier)), tier4k)),
        snd (sonarrCheck w server False (externalServiceId media) (this, tier)),
        snd (sonarrCheck w server True (externalServiceId4k media)
               (fst (sonarrCheck w server False (externalServiceId media) (this, tier)), tier4k)))"
  by (simp add: case_prod_beta)

lemma sonarrLoop_transient:
  assumes "managerTransient (getSeriesById w) servers False (externalServiceId media)"
  shows "fst (snd (sonarrLoop w media servers (this, (e, p), tier4k))) =
           (e \<or> managerAsked servers False (externalServiceId media),
            p \<or> managerAsked servers False (externalServiceId media))"
  using assms
proof (induction servers arbitrary: this e p tier4k)
  case Nil
  show ?case by (simp add: manager_Nil)
next
  case (Cons server rest)
  from Cons.prems have t1: "managerTransient (getSeriesById w) [server] False (externalServiceId media)"
    and t2: "managerTransient (getSeriesById w) rest False (externalServiceId media)"
    by (simp_all add: manager_Cons(1) [of _ server rest])
  show ?case
    unfolding sonarrLoop_step
    by (subst surjective_pairing [of "snd (sonarrCheck w server False (externalServiceId media) (this, e, p))"])
       (auto simp: Cons.IH [OF t2] sonarrCheck_transient [OF t1] manager_Cons(3) [of server rest])
qed

lemma sonarrLoop_transient4k:
  assumes "managerTransient (getSeriesById w) servers True (externalServiceId4k media)"
  shows "snd (snd (sonarrLoop w media servers (this, tier, (e, p)))) =
           (e \<or> managerAsked servers True (externalServiceId4k media),
            p \<or> managerAsked servers True (externalServiceId4k media))"
  using assms
proof (induction servers arbitrary: this e p tier)
  case Nil
  show ?case by (simp add: manager_Nil)
next
  case (Cons server rest)
  from Cons.prems have t1: "managerTransient (getSeriesById w) [server] True (externalServiceId4k media)"
    and t2: "managerTransient (getSeriesById w) rest True (externalServiceId4k media)"
    by (simp_all add: manager_Cons(1) [of _ server rest])
  let ?this1 = "fst (sonarrCheck w server False (externalServiceId media) (this, tier))"
  show ?case
    unfolding sonarrLoop_step
    by (subst surjective_pairing [of "snd (sonarrCheck w server True (externalServiceId4k media) (?this1, e, p))"])
       (auto simp: Cons.IH [OF t2] sonarrCheck_transient [OF t1] manager_Cons(3) [of server rest])
qed

lemma sonarrLoop_clean:
  assumes "managerClean (getSeriesById w) servers False (externalServiceId media)"
  shows "snd (fst (snd (sonarrLoop w media servers (this, (e, p), tier4k)))) = p"
  using assms
proof (induction servers arbitrary: this e p tier4k)
  case Nil
  show ?case by simp
next
  case (Cons server rest)
  from Cons.prems have t1: "managerClean (getSeriesById w) [server] False (externalServiceId media)"
    and t2: "managerClean (getSeriesById w) rest False (externalServiceId media)"
    by (simp_all add: manager_Cons(2) [of _ server rest])
  show ?case
    unfolding sonarrLoop_step
    by (subst surjective_pairing [of "snd (sonarrCheck w server False (externalServiceId media) (this, e, p))"])
       (simp add: Cons.IH [OF t2] sonarrCheck_clean [OF t1])
qed

lemma sonarrLoop_clean4k:
  assumes "managerClean (getSeriesById w) servers True (externalServiceId4k media)"
  shows "snd (snd (snd (sonarrLoop w media servers (this, tier, (e, p))))) = p"
  using assms
proof (induction servers arbitrary: this e p tier)
  case Nil
  show ?case by simp
next
  case (Cons server rest)
  from Cons.prems have t1: "managerClean (getSeriesById w) [server] True (externalServiceId4k media)"
    and t2: "managerClean (getSeriesById w) rest True (externalServiceId4k media)"
    by (simp_all add: manager_Cons(2) [of _ server rest])
  let ?this1 = "fst (sonarrCheck w server False (externalServiceId media) (this, tier))"
  show ?case
    unfolding sonarrLoop_step
    by (subst surjective_pairing [of "snd (sonarrCheck w server True (externalServiceId4k media) (?this1, e, p))"])
       (simp add: Cons.IH [OF t2] sonarrCheck_clean [OF t1])
qed

lemma radarrCheck_transient:
  assumes "managerTransient (getMovie w) [server] t ext"
  shows "snd (radarrCheck w server t ext (this, e)) = (e \<or> managerAsked [server] t ext)"
  using assms
  by (auto simp: radarrCheck_def managerTransient_def managerAsked_def transientError_def Let_def
      split: option.splits sum.splits)

lemma radarrLoop_step:
  "radarrLoop w media (server # rest) (this, e, e4k) =
     radarrLoop w media rest
       (fst (radarrCheck w server True (externalServiceId4k media)
               (fst (radarrCheck w server False (externalServiceId media) (this, e)), e4k)),
        snd (radarrCheck w server False (externalServiceId media) (this, e)),
        snd (radarrCheck w server True (externalServiceId4k media)
               (fst (radarrCheck w server False (externalServiceId media) (this, e)), e4k)))"
  by (simp add: case_prod_beta)

lemma radarrLoop_transient:
  assumes "managerTransient (getMovie w) servers False (externalServiceId media)"
  shows "fst (snd (radarrLoop w media servers (this, e, e4k))) =
           (e \<or> managerAsked servers False (externalServiceId media))"
  using assms
proof (induction servers arbitrary: this e e4k)
  case Nil
  show ?case by (simp add: manager_Nil)
next
  case (Cons server rest)
  from Cons.prems have t1: "managerTransient (getMovie w) [server] False (externalServiceId media)"
    and t2: "managerTransient (getMovie w) rest False (externalServiceId media)"
    by (simp_all add: manager_Cons(1) [of _ server rest])
  show ?case
    unfolding radarrLoop_step
    by (auto simp: Cons.IH [OF t2] radarrCheck_transient [OF t1] manager_Cons(3) [of server rest])
qed

lemma radarrLoop_transient4k:
  assumes "managerTransient (getMovie w) servers True (externalServiceId4k media)"
  shows "snd (snd (radarrLoop w media servers (this, e, e4k))) =
           (e4k \<or> managerAsked servers True (externalServiceId4k media))"
  using assms
proof (induction servers arbitrary: this e e4k)
  case Nil
  show ?case by (simp add: manager_Nil)
next
  case (Cons server rest)
  from Cons.prems have t1: "managerTransient (getMovie w) [server] True (externalServiceId4k media)"
    and t2: "managerTransient (getMovie w) rest True (externalServiceId4k media)"
    by (simp_all add: manager_Cons(1) [of _ server rest])
  show ?case
    unfolding radarrLoop_step
    by (auto simp: Cons.IH [OF t2] radarrCheck_transient [OF t1] manager_Cons(3) [of server rest])
qed


lemma plex_vocabulary_frame:
  "plexAsked (fst (plexCheck this mt key)) k = plexAsked this k"
  "plexTransient (fst (plexCheck this mt key)) k = plexTransient this k"
  "plexClean (fst (plexCheck this mt key)) k = plexClean this k"
  by (simp_all add: plexAsked_def plexTransient_def plexClean_def plexCheck_frame)

lemma movieExistence_parts:
  assumes mv: "mediaType media = MOVIE"
  shows "movieExists w this media =
           (fst (snd (plexCheck this MOVIE (ratingKey media))) \<or>
            fst (snd (radarrLoop w media (radarrServers this)
              (fst (plexCheck (fst (plexCheck this MOVIE (ratingKey media))) MOVIE (ratingKey4k media)),
               False, False))))"
    and "movieExists4k w this media =
           (fst (snd (plexCheck (fst (plexCheck this MOVIE (ratingKey media))) MOVIE (ratingKey4k media))) \<or>
            snd (snd (radarrLoop w media (radarrServers this)
              (fst (plexCheck (fst (plexCheck this MOVIE (ratingKey media))) MOVIE (ratingKey4k media)),
               False, False))))"
  using mv
  by (simp_all add: movieExists_def movieExists4k_def movieExistence_def mediaExistsInPlex_def
      mediaExistsInRadarr_def case_prod_beta plexCheck_frame)

lemma movie_exists_on_transient:
  assumes mv: "mediaType media = MOVIE"
    and asked: "probesAsked this media t"
    and tr: "probesTransient w this media t"
  shows "itemExists w this media t"
proof (cases t)
  case False
  let ?p1 = "plexCheck this MOVIE (ratingKey media)"
  let ?p2 = "plexCheck (fst ?p1) MOVIE (ratingKey4k media)"
  from tr mv False have pt: "plexTransient this (ratingKey media)"
    and mt: "managerTransient (getMovie w) (radarrServers this) False (externalServiceId media)"
    by (simp_all add: probesTransient_def tierKey_def tierId_def)
  from asked mv False have "plexAsked this (ratingKey media) \<or>
      managerAsked (radarrServers this) False (externalServiceId media)"
    by (simp add: probesAsked_def tierKey_def tierId_def)
  then have "fst (snd ?p1) \<or>
      fst (snd (radarrLoop w media (radarrServers this) (fst ?p2, False, False)))"
  proof
    assume "plexAsked this (ratingKey media)"
    from plexCheck_transient [OF this pt, of MOVIE] show ?thesis by simp
  next
    assume "managerAsked (radarrServers this) False (externalServiceId media)"
    with radarrLoop_transient [OF mt, of "fst ?p2" False False] show ?thesis by simp
  qed
  then show ?thesis
    using mv False by (simp add: itemExists_def movieExistence_parts(1) [OF mv])
next
  case True
  let ?p1 = "plexCheck this MOVIE (ratingKey media)"
  let ?p2 = "plexCheck (fst ?p1) MOVIE (ratingKey4k media)"
  from tr mv True have pt: "plexTransient this (ratingKey4k media)"
    and mt: "managerTransient (getMovie w) (radarrServers this) True (externalServiceId4k media)"
    by (simp_all add: probesTransient_def tierKey_def tierId_def)
  from asked mv True have "plexAsked this (ratingKey4k media) \<or>
      managerAsked (radarrServers this) True (externalServiceId4k media)"
    by (simp add: probesAsked_def tierKey_def tierId_def)
  then have "fst (snd ?p2) \<or>
      snd (snd (radarrLoop w media (radarrServers this) (fst ?p2, False, False)))"
  proof
    assume a: "plexAsked this (ratingKey4k media)"
    have "snd ?p2 = (True, True)"
      by (rule plexCheck_transient) (simp_all add: plex_vocabulary_frame a pt)
    then show ?thesis by simp
  next
    assume "managerAsked (radarrServers this) True (externalServiceId4k media)"
    with radarrLoop_transient4k [OF mt, of "fst ?p2" False False] show ?thesis by simp
  qed
  then show ?thesis
    using mv True by (simp add: itemExists_def movieExistence_parts(2) [OF mv])
qed


lemma sonarrLoop_frame:
  "plexClient (fst (sonarrLoop w media servers r)) = plexClient (fst r) \<and>
   plexSeasonsCache (fst (sonarrLoop w media servers r)) = plexSeasonsCache (fst r)"
proof (induction servers arbitrary: r)
  case Nil
  show ?case by simp
next
  case (Cons server rest)
  obtain this tier tier4k where r: "r = (this, tier, tier4k)" by (cases r) auto
  show ?case
    unfolding r sonarrLoop_step
    by (simp add: Cons.IH sonarrCheck_frame)
qed

lemma showExistence_projections:
  assumes tv: "mediaType media = TV"
  shows "showExists w this media =
           (fst (snd (plexCheck this TV (ratingKey media))) \<or>
            fst (fst (snd (sonarrLoop w media (sonarrServers this)
              (fst (plexCheck (fst (plexCheck this TV (ratingKey media))) TV (ratingKey4k media)),
               (False, False), (False, False))))))"
    and "showExists4k w this media =
           (fst (snd (plexCheck (fst (plexCheck this TV (ratingKey media))) TV (ratingKey4k media))) \<or>
            fst (snd (snd (sonarrLoop w media (sonarrServers this)
              (fst (plexCheck (fst (plexCheck this TV (ratingKey media))) TV (ratingKey4k media)),
               (False, False), (False, False))))))"
proof -
  let ?p1 = "plexCheck this TV (ratingKey media)"
  let ?p2 = "plexCheck (fst ?p1) TV (ratingKey4k media)"
  let ?sl = "sonarrLoop w media (sonarrServers (fst ?p2)) (fst ?p2, (False, False), (False, False))"
  have c1: "?p1 = (fst ?p1, fst (snd ?p1), snd (snd ?p1))" by simp
  have c2: "?p2 = (fst ?p2, fst (snd ?p2), snd (snd ?p2))" by simp
  have c3: "?sl = (fst ?sl, (fst (fst (snd ?sl)), snd (fst (snd ?sl))),
      (fst (snd (snd ?sl)), snd (snd (snd ?sl))))" by simp
  note parts = showExistence_parts [OF tv c1 c2 c3]
  show "showExists w this media =
           (fst (snd (plexCheck this TV (ratingKey media))) \<or>
            fst (fst (snd (sonarrLoop w media (sonarrServers this)
              (fst (plexCheck (fst (plexCheck this TV (ratingKey media))) TV (ratingKey4k media)),
               (False, False), (False, False))))))"
    using parts(1) by (simp add: plexCheck_frame)
  show "showExists4k w this media =
           (fst (snd (plexCheck (fst (plexCheck this TV (ratingKey media))) TV (ratingKey4k media))) \<or>
            fst (snd (snd (sonarrLoop w media (sonarrServers this)
              (fst (plexCheck (fst (plexCheck this TV (ratingKey media))) TV (ratingKey4k media)),
               (False, False), (False, False))))))"
    using parts(2) by (simp add: plexCheck_frame)
qed

lemma show_exists_on_transient:
  assumes tv: "mediaType media = TV"
    and asked: "probesAsked this media t"
    and tr: "probesTransient w this media t"
  shows "itemExists w this media t"
proof (cases t)
  case False
  let ?p1 = "plexCheck this TV (ratingKey media)"
  let ?p2 = "plexCheck (fst ?p1) TV (ratingKey4k media)"
  from tr tv False have pt: "plexTransient this (ratingKey media)"
    and mt: "managerTransient (getSeriesById w) (sonarrServers this) False (externalServiceId media)"
    by (simp_all add: probesTransient_def tierKey_def tierId_def)
  from asked tv False have "plexAsked this (ratingKey media) \<or>
      managerAsked (sonarrServers this) False (externalServiceId media)"
    by (simp add: probesAsked_def tierKey_def tierId_def)
  then have "fst (snd ?p1) \<or>
      fst (fst (snd (sonarrLoop w media (sonarrServers this) (fst ?p2, (False, False), (False, False)))))"
  proof
    assume "plexAsked this (ratingKey media)"
    from plexCheck_transient [OF this pt, of TV] show ?thesis by simp
  next
    assume "managerAsked (sonarrServers this) False (externalServiceId media)"
    with sonarrLoop_transient [OF mt, of "fst ?p2" False False "(False, False)"]
    show ?thesis by simp
  qed
  then show ?thesis
    using tv False by (simp add: itemExists_def showExistence_projections(1) [OF tv])
next
  case True
  let ?p1 = "plexCheck this TV (ratingKey media)"
  let ?p2 = "plexCheck (fst ?p1) TV (ratingKey4k media)"
  from tr tv True have pt: "plexTransient this (ratingKey4k media)"
    and mt: "managerTransient (getSeriesById w) (sonarrServers this) True (externalServiceId4k media)"
    by (simp_all add: probesTransient_def tierKey_def tierId_def)
  from asked tv True have "plexAsked this (ratingKey4k media) \<or>
      managerAsked (sonarrServers this) True (externalServiceId4k media)"
    by (simp add: probesAsked_def tierKey_def tierId_def)
  then have "fst (snd ?p2) \<or>
      fst (snd (snd (sonarrLoop w media (sonarrServers this) (fst ?p2, (False, False), (False, False)))))"
  proof
    assume a: "plexAsked this (ratingKey4k media)"
    have "snd ?p2 = (True, True)"
      by (rule plexCheck_transient) (simp_all add: plex_vocabulary_frame a pt)
    then show ?thesis by simp
  next
    assume "managerAsked (sonarrServers this) True (externalServiceId4k media)"
    with sonarrLoop_transient4k [OF mt, of "fst ?p2" "(False, False)" False False]
    show ?thesis by simp
  qed
  then show ?thesis
    using tv True by (simp add: itemExists_def showExistence_projections(2) [OF tv])
qed

lemma item_exists_on_transient:
  assumes "probesAsked this media t" and "probesTransient w this media t"
  shows "itemExists w this media t"
  using assms movie_exists_on_transient show_exists_on_transient
  by (cases "mediaType media") blast+


lemma seasonExists_prevented:
  "plexAsked this0 (ratingKey media) \<Longrightarrow> isAvailable (status s) \<Longrightarrow>
     fst (seasonExistsInPlex this media s True p4)"
  "plexAsked this0 (ratingKey4k media) \<Longrightarrow> isAvailable (status4k s) \<Longrightarrow>
     snd (seasonExistsInPlex this media s p True)"
  "managerAsked servers False (externalServiceId media) \<Longrightarrow> isAvailable (status s) \<Longrightarrow>
     fst (seasonExistsInSonarr this media s True p4)"
  "managerAsked servers True (externalServiceId4k media) \<Longrightarrow> isAvailable (status4k s) \<Longrightarrow>
     snd (seasonExistsInSonarr this media s p True)"
  by (auto simp: seasonExistsInPlex_def seasonExistsInSonarr_def plexAsked_def managerAsked_def
      split: option.splits)

lemma season_exists_on_transient:
  assumes tv: "mediaType media = TV"
    and dist: "distinct (map seasonNumber (seasons media))"
    and mem: "s \<in> set (seasons media)"
    and av: "isAvailable (tierStatus t s)"
    and asked: "probesAsked this media t"
    and tr: "probesTransient w this media t"
    and clean: "probesClean w this media (\<not> t)"
  shows "seasonExistsFor w this media t (seasonNumber s)"
proof -
  let ?p1 = "plexCheck this TV (ratingKey media)"
  let ?p2 = "plexCheck (fst ?p1) TV (ratingKey4k media)"
  let ?sl = "sonarrLoop w media (sonarrServers (fst ?p2)) (fst ?p2, (False, False), (False, False))"
  let ?pP = "snd (snd ?p1)" and ?pP4 = "snd (snd ?p2)"
  let ?pS = "snd (fst (snd ?sl))" and ?pS4 = "snd (snd (snd ?sl))"
  let ?fp = "\<lambda>season. seasonExistsInPlex (fst ?p2) media season ?pP ?pP4"
  let ?fs = "\<lambda>season. seasonExistsInSonarr (fst ?sl) media season ?pS ?pS4"
  have c1: "?p1 = (fst ?p1, fst (snd ?p1), snd (snd ?p1))" by simp
  have c2: "?p2 = (fst ?p2, fst (snd ?p2), snd (snd ?p2))" by simp
  have c3: "?sl = (fst ?sl, (fst (fst (snd ?sl)), snd (fst (snd ?sl))),
      (fst (snd (snd ?sl)), snd (snd (snd ?sl))))" by simp
  note parts = showExistence_parts [OF tv c1 c2 c3]
  note lp = seasonMaps_lookup [OF dist mem, of ?fp "(Map.empty, Map.empty)"]
  note ls = seasonMaps_lookup [OF dist mem, of ?fs "(Map.empty, Map.empty)"]
  have srv: "sonarrServers (fst ?p2) = sonarrServers this" by (simp add: plexCheck_frame)
  show ?thesis
  proof (cases t)
    case False
    from tr tv False have pt: "plexTransient this (ratingKey media)"
      and mt: "managerTransient (getSeriesById w) (sonarrServers this) False (externalServiceId media)"
      by (simp_all add: probesTransient_def tierKey_def tierId_def)
    from clean False have pc: "plexClean this (ratingKey4k media)"
      and mc: "managerClean (getSeriesById w) (sonarrServers this) True (externalServiceId4k media)"
      by (simp_all add: probesClean_def tierKey_def tierId_def)
    from av False have avs: "isAvailable (status s)" by (simp add: tierStatus_def)
    have np4: "\<not> ?pP4"
      by (rule plexCheck_clean) (simp add: plex_vocabulary_frame pc)
    have ns4: "\<not> ?pS4"
      using sonarrLoop_clean4k [OF mc, of "fst ?p2" "(False, False)" False False]
      by (simp add: srv)
    from asked tv False have "plexAsked this (ratingKey media) \<or>
        managerAsked (sonarrServers this) False (externalServiceId media)"
      by (simp add: probesAsked_def tierKey_def tierId_def)
    then have "seasonMap w this media (seasonNumber s)"
    proof
      assume a: "plexAsked this (ratingKey media)"
      from plexCheck_transient [OF a pt, of TV] have pp: "?pP" by simp
      have "fst (?fp s)" unfolding pp [THEN eqTrueI]
        by (rule seasonExists_prevented(1) [OF a avs])
      with lp np4 show ?thesis
        unfolding parts(3) seasonVerdict_def by simp
    next
      assume a: "managerAsked (sonarrServers this) False (externalServiceId media)"
      from sonarrLoop_transient [OF mt, of "fst ?p2" False False "(False, False)"] a
      have ps: "?pS" by (simp add: srv)
      have "fst (?fs s)" unfolding ps [THEN eqTrueI]
        by (rule seasonExists_prevented(3) [OF a avs])
      with ls ns4 show ?thesis
        unfolding parts(3) seasonVerdict_def by simp
    qed
    with False show ?thesis by (simp add: seasonExistsFor_def)
  next
    case True
    from tr tv True have pt: "plexTransient this (ratingKey4k media)"
      and mt: "managerTransient (getSeriesById w) (sonarrServers this) True (externalServiceId4k media)"
      by (simp_all add: probesTransient_def tierKey_def tierId_def)
    from clean True have pc: "plexClean this (ratingKey media)"
      and mc: "managerClean (getSeriesById w) (sonarrServers this) False (externalServiceId media)"
      by (simp_all add: probesClean_def tierKey_def tierId_def)
    from av True have avs: "isAvailable (status4k s)" by (simp add: tierStatus_def)
    have np: "\<not> ?pP"
      by (rule plexCheck_clean) (simp add: pc)
    have ns: "\<not> ?pS"
      using sonarrLoop_clean [OF mc, of "fst ?p2" False False "(False, False)"]
      by (simp add: srv)
    from asked tv True have "plexAsked this (ratingKey4k media) \<or>
        managerAsked (sonarrServers this) True (externalServiceId4k media)"
      by (simp add: probesAsked_def tierKey_def tierId_def)
    then have "seasonMap4k w this media (seasonNumber s)"
    proof
      assume a: "plexAsked this (ratingKey4k media)"
      have "snd ?p2 = (True, True)"
        by (rule plexCheck_transient) (simp_all add: plex_vocabulary_frame a pt)
      then have pp: "?pP4" by simp
      have "snd (?fp s)" unfolding pp [THEN eqTrueI]
        by (rule seasonExists_prevented(2) [OF a avs])
      with lp np show ?thesis
        unfolding parts(4) seasonVerdict_def by simp
    next
      assume a: "managerAsked (sonarrServers this) True (externalServiceId4k media)"
      from sonarrLoop_transient4k [OF mt, of "fst ?p2" "(False, False)" False False] a
      have ps: "?pS4" by (simp add: srv)
      have "snd (?fs s)" unfolding ps [THEN eqTrueI]
        by (rule seasonExists_prevented(4) [OF a avs])
      with ls ns show ?thesis
        unfolding parts(4) seasonVerdict_def by simp
    qed
    with True show ?thesis by (simp add: seasonExistsFor_def)
  qed
qed


lemma mediaUpdater_keeps:
  assumes "if t then e4k else e"
  shows "tierStatus t (snd (mediaUpdater w st media e e4k)) = tierStatus t media \<and>
         tierKey t (snd (mediaUpdater w st media e e4k)) = tierKey t media \<and>
         tierId t (snd (mediaUpdater w st media e e4k)) = tierId t media \<and>
         tierServiceId t (snd (mediaUpdater w st media e e4k)) = tierServiceId t media \<and>
         tierSlug t (snd (mediaUpdater w st media e e4k)) = tierSlug t media"
  using assms
  by (cases t)
     (simp_all add: mediaUpdater_def Let_def tierStatus_def tierKey_def tierId_def
        tierServiceId_def tierSlug_def)

lemma mediaUpdater_seasons:
  "seasons (snd (mediaUpdater w st media e e4k)) = seasons media"
  by (simp add: mediaUpdater_def Let_def)

lemma seasons_update_keeps:
  "tierStatus t (media\<lparr>seasons := ss\<rparr>) = tierStatus t media \<and>
   tierKey t (media\<lparr>seasons := ss\<rparr>) = tierKey t media \<and>
   tierId t (media\<lparr>seasons := ss\<rparr>) = tierId t media \<and>
   tierServiceId t (media\<lparr>seasons := ss\<rparr>) = tierServiceId t media \<and>
   tierSlug t (media\<lparr>seasons := ss\<rparr>) = tierSlug t media"
  by (simp add: tierStatus_def tierKey_def tierId_def tierServiceId_def tierSlug_def)

lemma runMovie_parts:
  assumes "mediaType media = MOVIE"
  shows "mediaAfter w this st media = media \<or>
         mediaAfter w this st media =
           snd (mediaUpdater w st media (movieExists w this media) (movieExists4k w this media))"
  using assms
  by (simp add: mediaAfter_def runMedia_def runMovie_def movieExists_def movieExists4k_def
      case_prod_beta)

lemma item_fields_kept:
  assumes ex: "itemExists w this media t"
  shows "tierStatus t (mediaAfter w this st media) = tierStatus t media \<and>
         tierKey t (mediaAfter w this st media) = tierKey t media \<and>
         tierId t (mediaAfter w this st media) = tierId t media \<and>
         tierServiceId t (mediaAfter w this st media) = tierServiceId t media \<and>
         tierSlug t (mediaAfter w this st media) = tierSlug t media"
proof (cases "mediaType media")
  case MOVIE
  from ex MOVIE have e: "if t then movieExists4k w this media else movieExists w this media"
    by (simp add: itemExists_def)
  from runMovie_parts [OF MOVIE, of w this st] mediaUpdater_keeps [OF e, of w st media]
  show ?thesis by auto
next
  case TV
  let ?v = "seasonMap w this media" and ?v4k = "seasonMap4k w this media"
  let ?r = "seasonsLoop w ?v ?v4k [0..<length (seasons media)] (st, media)"
  from ex TV have e: "if t then showExists4k w this media else showExists w this media"
    by (simp add: itemExists_def)
  obtain ss where m1: "snd ?r = media\<lparr>seasons := ss\<rparr>"
    using seasonsLoop_media by blast
  have "mediaAfter w this st media = snd ?r \<or>
      mediaAfter w this st media =
        snd (mediaUpdater w (fst ?r) (snd ?r) (showExists w this media) (showExists4k w this media))"
    by (simp add: runShow_parts(2) [OF TV] showTransitions_def case_prod_beta)
  then show ?thesis
  proof
    assume "mediaAfter w this st media = snd ?r"
    then show ?thesis by (simp only: m1 seasons_update_keeps)
  next
    assume a: "mediaAfter w this st media =
        snd (mediaUpdater w (fst ?r) (snd ?r) (showExists w this media) (showExists4k w this media))"
    show ?thesis
      unfolding a using mediaUpdater_keeps [OF e, of w "fst ?r" "snd ?r"]
      by (simp only: m1 seasons_update_keeps)
  qed
qed

lemma seasonUpdater_seasons:
  "seasons (snd (seasonUpdater w st media i e e4k)) = seasons media \<or>
   seasons (snd (seasonUpdater w st media i e e4k)) =
     (seasons media)[i := fst (seasonStatusChanges (seasons media ! i) e e4k)] @
       [fst (seasonStatusChanges (seasons media ! i) e e4k)]"
  by (simp add: seasonUpdater_def Let_def)

lemma iteration_seasons:
  "seasons (snd (if (\<not> v (seasonNumber (seasons media ! i)) \<and> isAvailable (status (seasons media ! i))) \<or>
           (\<not> v4k (seasonNumber (seasons media ! i)) \<and> isAvailable (status (seasons media ! i)))
        then seasonUpdater w st media i (v (seasonNumber (seasons media ! i)))
               (v4k (seasonNumber (seasons media ! i)))
        else (st, media))) = seasons media \<or>
   seasons (snd (if (\<not> v (seasonNumber (seasons media ! i)) \<and> isAvailable (status (seasons media ! i))) \<or>
           (\<not> v4k (seasonNumber (seasons media ! i)) \<and> isAvailable (status (seasons media ! i)))
        then seasonUpdater w st media i (v (seasonNumber (seasons media ! i)))
               (v4k (seasonNumber (seasons media ! i)))
        else (st, media))) =
       (seasons media)[i := fst (seasonStatusChanges (seasons media ! i)
           (v (seasonNumber (seasons media ! i))) (v4k (seasonNumber (seasons media ! i))))] @
       [fst (seasonStatusChanges (seasons media ! i)
           (v (seasonNumber (seasons media ! i))) (v4k (seasonNumber (seasons media ! i))))]"
  using seasonUpdater_seasons [where w = w and st = st and media = media and i = i
      and e = "v (seasonNumber (seasons media ! i))"
      and ?e4k.0 = "v4k (seasonNumber (seasons media ! i))"]
  by (cases "(\<not> v (seasonNumber (seasons media ! i)) \<and> isAvailable (status (seasons media ! i))) \<or>
           (\<not> v4k (seasonNumber (seasons media ! i)) \<and> isAvailable (status (seasons media ! i)))")
     (simp_all only: if_True if_False snd_conv simp_thms)

lemma seasonsLoop_untouched:
  assumes "\<forall>j\<in>set js. j < length (seasons media)"
    and "k < length (seasons media)" and "k \<notin> set js"
  shows "length (seasons media) \<le> length (seasons (snd (seasonsLoop w v v4k js (st, media)))) \<and>
         seasons (snd (seasonsLoop w v v4k js (st, media))) ! k = seasons media ! k"
  using assms
proof (induction js arbitrary: st media)
  case Nil
  show ?case by simp
next
  case (Cons i js)
  let ?ss = "seasons media"
  let ?r1 = "if (\<not> v (seasonNumber (?ss ! i)) \<and> isAvailable (status (?ss ! i))) \<or>
           (\<not> v4k (seasonNumber (?ss ! i)) \<and> isAvailable (status (?ss ! i)))
        then seasonUpdater w st media i (v (seasonNumber (?ss ! i))) (v4k (seasonNumber (?ss ! i)))
        else (st, media)"
  obtain st1 media1 where r1: "?r1 = (st1, media1)" by (cases ?r1) auto
  have step: "seasonsLoop w v v4k (i # js) (st, media) = seasonsLoop w v v4k js (st1, media1)"
    unfolding seasonsLoop_step r1 ..
  have ss1: "seasons media1 = ?ss \<or> seasons media1 =
      ?ss[i := fst (seasonStatusChanges (?ss ! i) (v (seasonNumber (?ss ! i))) (v4k (seasonNumber (?ss ! i))))] @
       [fst (seasonStatusChanges (?ss ! i) (v (seasonNumber (?ss ! i))) (v4k (seasonNumber (?ss ! i))))]"
    using iteration_seasons [where v = v and media = media and i = i and ?v4k.0 = v4k and w = w and st = st]
      unfolding r1 by simp
  then have len: "length ?ss \<le> length (seasons media1)" by auto
  from Cons.prems have ki: "k \<noteq> i" and kjs: "k \<notin> set js" by auto
  have k1: "seasons media1 ! k = ?ss ! k"
    using ss1 Cons.prems(2) ki by (auto simp: nth_append)
  from Cons.prems(1) len have b1: "\<forall>j\<in>set js. j < length (seasons media1)" by auto
  from Cons.prems(2) len have kl: "k < length (seasons media1)" by simp
  from Cons.IH [OF b1 kl kjs, where st = st1] len k1 show ?case
    unfolding step by simp
qed

lemma seasonsLoop_seasons:
  assumes "distinct js" and "\<forall>j\<in>set js. j < length (seasons media)"
    and "j < length (seasons media)"
  shows "seasons (snd (seasonsLoop w v v4k js (st, media))) ! j = seasons media ! j \<or>
         seasons (snd (seasonsLoop w v v4k js (st, media))) ! j =
           fst (seasonStatusChanges (seasons media ! j) (v (seasonNumber (seasons media ! j)))
                  (v4k (seasonNumber (seasons media ! j))))"
  using assms
proof (induction js arbitrary: st media)
  case Nil
  show ?case by simp
next
  case (Cons i js)
  let ?ss = "seasons media"
  let ?s4 = "fst (seasonStatusChanges (?ss ! i) (v (seasonNumber (?ss ! i))) (v4k (seasonNumber (?ss ! i))))"
  let ?r1 = "if (\<not> v (seasonNumber (?ss ! i)) \<and> isAvailable (status (?ss ! i))) \<or>
           (\<not> v4k (seasonNumber (?ss ! i)) \<and> isAvailable (status (?ss ! i)))
        then seasonUpdater w st media i (v (seasonNumber (?ss ! i))) (v4k (seasonNumber (?ss ! i)))
        else (st, media)"
  obtain st1 media1 where r1: "?r1 = (st1, media1)" by (cases ?r1) auto
  have step: "seasonsLoop w v v4k (i # js) (st, media) = seasonsLoop w v v4k js (st1, media1)"
    unfolding seasonsLoop_step r1 ..
  have ss1: "seasons media1 = ?ss \<or> seasons media1 = ?ss[i := ?s4] @ [?s4]"
    using iteration_seasons [where v = v and media = media and i = i and ?v4k.0 = v4k and w = w and st = st]
      unfolding r1 by simp
  then have len: "length ?ss \<le> length (seasons media1)" by auto
  from Cons.prems have i: "i < length ?ss" and inot: "i \<notin> set js" and d: "distinct js"
    and b: "\<forall>j\<in>set js. j < length ?ss"
    by auto
  from b len have b1: "\<forall>j\<in>set js. j < length (seasons media1)" by auto
  from Cons.prems(3) len have jl: "j < length (seasons media1)" by simp
  show ?case
  proof (cases "j = i")
    case True
    have "seasons (snd (seasonsLoop w v v4k js (st1, media1))) ! i = seasons media1 ! i"
      using seasonsLoop_untouched [OF b1 _ inot, where w = w and v = v and ?v4k.0 = v4k and st = st1] jl True by simp
    moreover have "seasons media1 ! i = ?ss ! i \<or> seasons media1 ! i = ?s4"
      using ss1 i by (auto simp: nth_append)
    ultimately show ?thesis unfolding step True by auto
  next
    case False
    have "seasons media1 ! j = ?ss ! j"
      using ss1 Cons.prems(3) False by (auto simp: nth_append)
    with Cons.IH [OF d b1 jl, where st = st1] show ?thesis unfolding step by simp
  qed
qed

lemma seasonsLoop_length:
  "length (seasons media) \<le> length (seasons (snd (seasonsLoop w v v4k js (st, media))))"
proof (induction js arbitrary: st media)
  case Nil
  show ?case by simp
next
  case (Cons i js)
  let ?ss = "seasons media"
  let ?r1 = "if (\<not> v (seasonNumber (?ss ! i)) \<and> isAvailable (status (?ss ! i))) \<or>
           (\<not> v4k (seasonNumber (?ss ! i)) \<and> isAvailable (status (?ss ! i)))
        then seasonUpdater w st media i (v (seasonNumber (?ss ! i))) (v4k (seasonNumber (?ss ! i)))
        else (st, media)"
  obtain st1 media1 where r1: "?r1 = (st1, media1)" by (cases ?r1) auto
  have step: "seasonsLoop w v v4k (i # js) (st, media) = seasonsLoop w v v4k js (st1, media1)"
    unfolding seasonsLoop_step r1 ..
  have "length ?ss \<le> length (seasons media1)"
    using iteration_seasons [where v = v and media = media and i = i and ?v4k.0 = v4k and w = w and st = st]
      unfolding r1 by auto
  with Cons.IH [where st = st1 and media = media1] show ?case unfolding step by simp
qed


lemma tierStatus_changes:
  "tierStatus t (fst (seasonStatusChanges s e e4k)) =
     (if isAvailable (tierStatus t s) \<and> \<not> (if t then e4k else e) then UNKNOWN else tierStatus t s)"
  by (cases t) (simp_all add: seasonStatusChanges_eq tierStatus_def)

lemma seasons_kept:
  assumes tv: "mediaType media = TV"
    and verd: "\<forall>s\<in>set (seasons media). isAvailable (tierStatus t s) \<longrightarrow>
        seasonExistsFor w this media t (seasonNumber s)"
  shows "map (tierStatus t) (take (length (seasons media)) (seasons (mediaAfter w this st media))) =
         map (tierStatus t) (seasons media)"
proof -
  let ?v = "seasonMap w this media" and ?v4k = "seasonMap4k w this media"
  let ?js = "[0..<length (seasons media)]"
  let ?ss = "seasons media"
  let ?ss' = "seasons (snd (seasonsLoop w ?v ?v4k ?js (st, media)))"
  have after: "seasons (mediaAfter w this st media) = ?ss'"
    by (simp add: runShow_parts(2) [OF tv] showTransitions_def case_prod_beta mediaUpdater_seasons)
  have len: "length ?ss \<le> length ?ss'" by (rule seasonsLoop_length)
  have nth: "tierStatus t (?ss' ! j) = tierStatus t (?ss ! j)" if j: "j < length ?ss" for j
  proof -
    have mem: "?ss ! j \<in> set ?ss" using j by simp
    have v: "isAvailable (tierStatus t (?ss ! j)) \<longrightarrow>
        (if t then ?v4k (seasonNumber (?ss ! j)) else ?v (seasonNumber (?ss ! j)))"
      using verd mem by (auto simp: seasonExistsFor_def)
    have "?ss' ! j = ?ss ! j \<or>
        ?ss' ! j = fst (seasonStatusChanges (?ss ! j) (?v (seasonNumber (?ss ! j)))
                  (?v4k (seasonNumber (?ss ! j))))"
      by (rule seasonsLoop_seasons) (use j in simp_all)
    then show ?thesis
    proof
      assume "?ss' ! j = ?ss ! j" then show ?thesis by simp
    next
      assume a: "?ss' ! j = fst (seasonStatusChanges (?ss ! j) (?v (seasonNumber (?ss ! j)))
                  (?v4k (seasonNumber (?ss ! j))))"
      show ?thesis unfolding a tierStatus_changes using v by auto
    qed
  qed
  show ?thesis
    unfolding after
    by (rule nth_equalityI) (use len nth in simp_all)
qed

lemma mediaUpdater_direction:
  "tierStatus t (snd (mediaUpdater w st media e e4k)) = tierStatus t media \<or>
   (isAvailable (tierStatus t media) \<and> \<not> (if t then e4k else e) \<and>
    tierStatus t (snd (mediaUpdater w st media e e4k)) \<in> {UNKNOWN, PENDING, PROCESSING})"
proof (cases "storeThrows w (FindRequests (mediaId media))")
  case True
  then show ?thesis by (simp add: mediaUpdater_def)
next
  case False
  show ?thesis
    using findMediaStatus_range [of "findRequests st (mediaId media)" t]
    by (cases t)
       (auto simp: tierStatus_def mediaUpdater_status [OF False] mediaUpdater_status4k [OF False])
qed

subsection \<open>The next status of a downgraded tier\<close>

text \<open>
  C7. When the query for the joined requests does not throw, the status that
  \<^verbatim>\<open>mediaUpdater\<close> gives to a tier it downgrades (the tier is AVAILABLE or
  PARTIALLY_AVAILABLE and does not exist) is, for a show, PROCESSING when a joined request
  of that tier is APPROVED, else PENDING when a joined request of that tier is PENDING,
  else UNKNOWN; for a movie it is UNKNOWN whatever the requests are.
\<close>

theorem next_status_from_requests:
  assumes "\<not> storeThrows w (FindRequests (mediaId media))"
  shows
    "(isAvailable (status media) \<and> \<not> mediaExists \<longrightarrow>
        status (snd (mediaUpdater w st media mediaExists mediaExists4k)) =
          (if mediaType media = MOVIE then UNKNOWN
           else if \<exists>r\<in>set (findRequests st (mediaId media)).
                     \<not> is4k r \<and> requestStatus r = APPROVED then PROCESSING
           else if \<exists>r\<in>set (findRequests st (mediaId media)).
                     \<not> is4k r \<and> requestStatus r = REQUEST_PENDING then PENDING
           else UNKNOWN)) \<and>
     (isAvailable (status4k media) \<and> \<not> mediaExists4k \<longrightarrow>
        status4k (snd (mediaUpdater w st media mediaExists mediaExists4k)) =
          (if mediaType media = MOVIE then UNKNOWN
           else if \<exists>r\<in>set (findRequests st (mediaId media)).
                     is4k r \<and> requestStatus r = APPROVED then PROCESSING
           else if \<exists>r\<in>set (findRequests st (mediaId media)).
                     is4k r \<and> requestStatus r = REQUEST_PENDING then PENDING
           else UNKNOWN))"
proof (intro conjI impI)
  assume "isAvailable (status media) \<and> \<not> mediaExists"
  with assms show "status (snd (mediaUpdater w st media mediaExists mediaExists4k)) =
          (if mediaType media = MOVIE then UNKNOWN
           else if \<exists>r\<in>set (findRequests st (mediaId media)).
                     \<not> is4k r \<and> requestStatus r = APPROVED then PROCESSING
           else if \<exists>r\<in>set (findRequests st (mediaId media)).
                     \<not> is4k r \<and> requestStatus r = REQUEST_PENDING then PENDING
           else UNKNOWN)"
    by (cases "mediaType media") (simp_all add: mediaUpdater_status findMediaStatus_words)
next
  assume "isAvailable (status4k media) \<and> \<not> mediaExists4k"
  with assms show "status4k (snd (mediaUpdater w st media mediaExists mediaExists4k)) =
          (if mediaType media = MOVIE then UNKNOWN
           else if \<exists>r\<in>set (findRequests st (mediaId media)).
                     is4k r \<and> requestStatus r = APPROVED then PROCESSING
           else if \<exists>r\<in>set (findRequests st (mediaId media)).
                     is4k r \<and> requestStatus r = REQUEST_PENDING then PENDING
           else UNKNOWN)"
    by (cases "mediaType media") (simp_all add: mediaUpdater_status4k findMediaStatus_words)
qed

text \<open>
  A show that is gone in both tiers, with an approved non-4K request and a pending and a
  declined 4K request: the non-4K tier goes to PROCESSING and the 4K tier to PENDING.
\<close>

theorem next_status_from_requests_witness:
  "\<not> storeThrows worldGone (FindRequests (mediaId (item TV AVAILABLE PARTIALLY_AVAILABLE []))) \<and>
   status (snd (mediaUpdater worldGone
     (storeOf (item TV AVAILABLE PARTIALLY_AVAILABLE [])
        [requestOf 5 False APPROVED, requestOf 6 True REQUEST_PENDING, requestOf 7 True DECLINED] [])
     (item TV AVAILABLE PARTIALLY_AVAILABLE []) False False)) = PROCESSING \<and>
   status4k (snd (mediaUpdater worldGone
     (storeOf (item TV AVAILABLE PARTIALLY_AVAILABLE [])
        [requestOf 5 False APPROVED, requestOf 6 True REQUEST_PENDING, requestOf 7 True DECLINED] [])
     (item TV AVAILABLE PARTIALLY_AVAILABLE []) False False)) = PENDING"
  using next_status_from_requests [where w = worldGone
      and media = "item TV AVAILABLE PARTIALLY_AVAILABLE []"
      and mediaExists = False and mediaExists4k = False
      and st = "storeOf (item TV AVAILABLE PARTIALLY_AVAILABLE [])
        [requestOf 5 False APPROVED, requestOf 6 True REQUEST_PENDING, requestOf 7 True DECLINED] []"]
  by (simp add: storeThrows_worlds item_def storeOf_def requestOf_def findRequests_def
      isAvailable_def)

subsection \<open>A gone item is downgraded\<close>

text \<open>
  C1, as stated, fails for a movie: \<^verbatim>\<open>run\<close> calls \<^verbatim>\<open>mediaUpdater\<close> for a movie only
  when a tier that does not exist is AVAILABLE (lines 87 to 90). A movie whose non-4K tier
  is PARTIALLY_AVAILABLE, with Plex and Radarr answering 404 for it, has the verdict false
  and keeps its status, in the object and in the store.
\<close>

theorem partial_movie_is_kept:
  "mediaType partialMovie = MOVIE \<and>
   status partialMovie = PARTIALLY_AVAILABLE \<and>
   \<not> movieExists worldGone (engine (Some (plexWith ''300'' []))) partialMovie \<and>
   status (mediaAfter worldGone (engine (Some (plexWith ''300'' [])))
             (storeOf partialMovie [] []) partialMovie) = PARTIALLY_AVAILABLE \<and>
   map_option status
     (mediaTable (storeAfter worldGone (engine (Some (plexWith ''300'' [])))
                    (storeOf partialMovie [] []) partialMovie) 1) = Some PARTIALLY_AVAILABLE"
  by code_simp

text \<open>
  C1, amended. When the store does not throw: for a show whose status for a tier is
  AVAILABLE or PARTIALLY_AVAILABLE, and for a movie whose status for a tier is AVAILABLE,
  if the verdict of that tier is false then after the pass over the item its status for
  that tier is UNKNOWN, PENDING or PROCESSING, and the stored row is the item object.
\<close>

theorem gone_item_is_downgraded:
  assumes "\<forall>c. \<not> storeThrows w c"
  shows
    "((mediaType media = MOVIE \<and> status media = AVAILABLE \<and>
         \<not> movieExists w this media) \<or>
      (mediaType media = TV \<and> isAvailable (status media) \<and>
         \<not> showExists w this media) \<longrightarrow>
        status (mediaAfter w this st media) \<in> {UNKNOWN, PENDING, PROCESSING} \<and>
        mediaTable (storeAfter w this st media) (mediaId media) =
          Some (mediaAfter w this st media)) \<and>
     ((mediaType media = MOVIE \<and> status4k media = AVAILABLE \<and>
         \<not> movieExists4k w this media) \<or>
      (mediaType media = TV \<and> isAvailable (status4k media) \<and>
         \<not> showExists4k w this media) \<longrightarrow>
        status4k (mediaAfter w this st media) \<in> {UNKNOWN, PENDING, PROCESSING} \<and>
        mediaTable (storeAfter w this st media) (mediaId media) =
          Some (mediaAfter w this st media))"
  unfolding movieExists_def movieExists4k_def showExists_def showExists4k_def
    mediaAfter_def storeAfter_def
  by (rule runMedia_downgrade [OF assms])

text \<open>
  A show that is available in both tiers, for which every server answers 404.
\<close>

theorem gone_item_is_downgraded_witness:
  "(\<forall>c. \<not> storeThrows worldGone c) \<and>
   mediaType bareShow = TV \<and> isAvailable (status bareShow) \<and> isAvailable (status4k bareShow) \<and>
   \<not> showExists worldGone (engine (Some (plexWith ''300'' []))) bareShow \<and>
   \<not> showExists4k worldGone (engine (Some (plexWith ''300'' []))) bareShow \<and>
   status (mediaAfter worldGone (engine (Some (plexWith ''300'' [])))
             (storeOf bareShow [] []) bareShow) \<in> {UNKNOWN, PENDING, PROCESSING} \<and>
   status4k (mediaAfter worldGone (engine (Some (plexWith ''300'' [])))
             (storeOf bareShow [] []) bareShow) \<in> {UNKNOWN, PENDING, PROCESSING} \<and>
   mediaTable (storeAfter worldGone (engine (Some (plexWith ''300'' [])))
                 (storeOf bareShow [] []) bareShow) (mediaId bareShow) =
     Some (mediaAfter worldGone (engine (Some (plexWith ''300'' [])))
             (storeOf bareShow [] []) bareShow)"
proof -
  have rel: "\<forall>c. \<not> storeThrows worldGone c"
    by (simp add: storeThrows_worlds)
  have hyp: "mediaType bareShow = TV \<and> isAvailable (status bareShow) \<and>
      isAvailable (status4k bareShow) \<and>
      \<not> showExists worldGone (engine (Some (plexWith ''300'' []))) bareShow \<and>
      \<not> showExists4k worldGone (engine (Some (plexWith ''300'' []))) bareShow"
    by code_simp
  from gone_item_is_downgraded [OF rel, where media = bareShow
      and this = "engine (Some (plexWith ''300'' []))" and st = "storeOf bareShow [] []"]
    hyp rel
  show ?thesis by simp
qed

subsection \<open>A movie without references\<close>

text \<open>
  C10. For a movie whose rating key and external service id of a tier are null, the
  verdict of that tier is false and the remote calls of the pass are calls for the other
  tier only: Plex is asked for the rating key of the other tier, Radarr servers of the
  other tier for the external service id of the other tier. When the tier is AVAILABLE
  and the store does not throw, the pass sets it to UNKNOWN and the stored row is the
  item object. The first conjunct is the non-4K tier, the second the 4K tier.
\<close>

theorem movie_without_references:
  assumes "mediaType media = MOVIE"
  shows
    "(ratingKey media = None \<and> externalServiceId media = None \<longrightarrow>
        \<not> movieExists w this media \<and>
        (\<exists>new. issued (fst (movieExistence w this media)) = issued this @ new \<and>
           (\<forall>p\<in>set new.
              (\<exists>k. p = PlexGetMetadata k \<and> ratingKey4k media = Some k) \<or>
              (\<exists>s i. p = RadarrGetMovie s i \<and> is4k s \<and> externalServiceId4k media = Some i))) \<and>
        (status media = AVAILABLE \<and> (\<forall>c. \<not> storeThrows w c) \<longrightarrow>
           status (mediaAfter w this st media) = UNKNOWN \<and>
           mediaTable (storeAfter w this st media) (mediaId media) =
             Some (mediaAfter w this st media))) \<and>
     (ratingKey4k media = None \<and> externalServiceId4k media = None \<longrightarrow>
        \<not> movieExists4k w this media \<and>
        (\<exists>new. issued (fst (movieExistence w this media)) = issued this @ new \<and>
           (\<forall>p\<in>set new.
              (\<exists>k. p = PlexGetMetadata k \<and> ratingKey media = Some k) \<or>
              (\<exists>s i. p = RadarrGetMovie s i \<and> \<not> is4k s \<and> externalServiceId media = Some i))) \<and>
        (status4k media = AVAILABLE \<and> (\<forall>c. \<not> storeThrows w c) \<longrightarrow>
           status4k (mediaAfter w this st media) = UNKNOWN \<and>
           mediaTable (storeAfter w this st media) (mediaId media) =
             Some (mediaAfter w this st media)))"
proof (rule conjI; rule impI)
  assume refs: "ratingKey media = None \<and> externalServiceId media = None"
  note a = movieExistence_without_references [OF assms refs, of w this]
  have "status (mediaAfter w this st media) = UNKNOWN \<and>
      mediaTable (storeAfter w this st media) (mediaId media) = Some (mediaAfter w this st media)"
    if "status media = AVAILABLE \<and> (\<forall>c. \<not> storeThrows w c)"
    using runMovie_downgrade [of w media this st] that a assms
    by (simp add: runMedia_def mediaAfter_def storeAfter_def)
  with a show "\<not> movieExists w this media \<and>
        (\<exists>new. issued (fst (movieExistence w this media)) = issued this @ new \<and>
           (\<forall>p\<in>set new.
              (\<exists>k. p = PlexGetMetadata k \<and> ratingKey4k media = Some k) \<or>
              (\<exists>s i. p = RadarrGetMovie s i \<and> is4k s \<and> externalServiceId4k media = Some i))) \<and>
        (status media = AVAILABLE \<and> (\<forall>c. \<not> storeThrows w c) \<longrightarrow>
           status (mediaAfter w this st media) = UNKNOWN \<and>
           mediaTable (storeAfter w this st media) (mediaId media) =
             Some (mediaAfter w this st media))"
    unfolding movieExists_def by blast
next
  assume refs: "ratingKey4k media = None \<and> externalServiceId4k media = None"
  note a = movieExistence_without_references4k [OF assms refs, of w this]
  have "status4k (mediaAfter w this st media) = UNKNOWN \<and>
      mediaTable (storeAfter w this st media) (mediaId media) = Some (mediaAfter w this st media)"
    if "status4k media = AVAILABLE \<and> (\<forall>c. \<not> storeThrows w c)"
    using runMovie_downgrade4k [of w media this st] that a assms
    by (simp add: runMedia_def mediaAfter_def storeAfter_def)
  with a show "\<not> movieExists4k w this media \<and>
        (\<exists>new. issued (fst (movieExistence w this media)) = issued this @ new \<and>
           (\<forall>p\<in>set new.
              (\<exists>k. p = PlexGetMetadata k \<and> ratingKey media = Some k) \<or>
              (\<exists>s i. p = RadarrGetMovie s i \<and> \<not> is4k s \<and> externalServiceId media = Some i))) \<and>
        (status4k media = AVAILABLE \<and> (\<forall>c. \<not> storeThrows w c) \<longrightarrow>
           status4k (mediaAfter w this st media) = UNKNOWN \<and>
           mediaTable (storeAfter w this st media) (mediaId media) =
             Some (mediaAfter w this st media))"
    unfolding movieExists4k_def by blast
qed

text \<open>
  A movie without non-4K references whose 4K copy is in Plex and in the 4K Radarr: the
  two calls of the pass are 4K calls, and the non-4K tier goes from AVAILABLE to UNKNOWN.
\<close>

theorem movie_without_references_witness:
  "mediaType unreferencedMovie = MOVIE \<and>
   ratingKey unreferencedMovie = None \<and> externalServiceId unreferencedMovie = None \<and>
   status unreferencedMovie = AVAILABLE \<and>
   (\<forall>c. \<not> storeThrows (world4kOf 0 0) c) \<and>
   \<not> movieExists (world4kOf 0 0) (engine (Some (plexWith ''200'' []))) unreferencedMovie \<and>
   issued (fst (movieExistence (world4kOf 0 0) (engine (Some (plexWith ''200'' [])))
                  unreferencedMovie)) =
     [PlexGetMetadata ''200'', RadarrGetMovie (serverOf True) 8] \<and>
   status (mediaAfter (world4kOf 0 0) (engine (Some (plexWith ''200'' [])))
             (storeOf unreferencedMovie [] []) unreferencedMovie) = UNKNOWN"
proof -
  have rel: "\<forall>c. \<not> storeThrows (world4kOf 0 0) c"
    by (simp add: storeThrows_worlds)
  have hyp: "mediaType unreferencedMovie = MOVIE \<and>
      ratingKey unreferencedMovie = None \<and> externalServiceId unreferencedMovie = None \<and>
      status unreferencedMovie = AVAILABLE"
    by code_simp
  have calls: "issued (fst (movieExistence (world4kOf 0 0) (engine (Some (plexWith ''200'' [])))
                  unreferencedMovie)) =
     [PlexGetMetadata ''200'', RadarrGetMovie (serverOf True) 8]"
    by code_simp
  from hyp have mv: "mediaType unreferencedMovie = MOVIE" by simp
  from movie_without_references [OF mv, where w = "world4kOf 0 0"
      and this = "engine (Some (plexWith ''200'' []))"
      and st = "storeOf unreferencedMovie [] []"]
    hyp rel calls
  show ?thesis by simp
qed

subsection \<open>The 4K references of a downgraded item\<close>

text \<open>
  C2 says that a downgrade of the 4K tier keeps the 4K references exactly when the status
  computed for the 4K tier is PROCESSING. The 4K block of \<^verbatim>\<open>mediaUpdater\<close> tests
  \<^verbatim>\<open>mediaStatus\<close>, the status computed for the non-4K tier, where the non-4K block tests
  its own. Two passes show both directions. In the first, a show exists in the non-4K
  tier and is gone in the 4K tier, with an approved 4K request: its 4K status becomes
  PROCESSING and its four 4K references are cleared. In the second, a show is gone in
  both tiers, with an approved non-4K request and no 4K request: its 4K status becomes
  UNKNOWN and its 4K references stay, in the object and in the stored row.
\<close>

theorem references4k_follow_the_other_tier:
  "showExists (worldOf 10 10) (engine (Some (plexWith ''100'' [1, 2]))) oneSeasonShow \<and>
   \<not> showExists4k (worldOf 10 10) (engine (Some (plexWith ''100'' [1, 2]))) oneSeasonShow \<and>
   findMediaStatus
     (findRequests (storeOf oneSeasonShow [requestOf 5 True APPROVED] []) 1) True = PROCESSING \<and>
   status4k (mediaAfter (worldOf 10 10) (engine (Some (plexWith ''100'' [1, 2])))
     (storeOf oneSeasonShow [requestOf 5 True APPROVED] []) oneSeasonShow) = PROCESSING \<and>
   serviceId4k (mediaAfter (worldOf 10 10) (engine (Some (plexWith ''100'' [1, 2])))
     (storeOf oneSeasonShow [requestOf 5 True APPROVED] []) oneSeasonShow) = None \<and>
   externalServiceId4k (mediaAfter (worldOf 10 10) (engine (Some (plexWith ''100'' [1, 2])))
     (storeOf oneSeasonShow [requestOf 5 True APPROVED] []) oneSeasonShow) = None \<and>
   externalServiceSlug4k (mediaAfter (worldOf 10 10) (engine (Some (plexWith ''100'' [1, 2])))
     (storeOf oneSeasonShow [requestOf 5 True APPROVED] []) oneSeasonShow) = None \<and>
   ratingKey4k (mediaAfter (worldOf 10 10) (engine (Some (plexWith ''100'' [1, 2])))
     (storeOf oneSeasonShow [requestOf 5 True APPROVED] []) oneSeasonShow) = None \<and>
   \<not> showExists worldGone (engine (Some (plexWith ''300'' []))) bareShow \<and>
   \<not> showExists4k worldGone (engine (Some (plexWith ''300'' []))) bareShow \<and>
   findMediaStatus
     (findRequests (storeOf bareShow [requestOf 5 False APPROVED] []) 1) True = UNKNOWN \<and>
   status4k (mediaAfter worldGone (engine (Some (plexWith ''300'' [])))
     (storeOf bareShow [requestOf 5 False APPROVED] []) bareShow) = UNKNOWN \<and>
   serviceId4k (mediaAfter worldGone (engine (Some (plexWith ''300'' [])))
     (storeOf bareShow [requestOf 5 False APPROVED] []) bareShow) = Some 1 \<and>
   externalServiceId4k (mediaAfter worldGone (engine (Some (plexWith ''300'' [])))
     (storeOf bareShow [requestOf 5 False APPROVED] []) bareShow) = Some 8 \<and>
   externalServiceSlug4k (mediaAfter worldGone (engine (Some (plexWith ''300'' [])))
     (storeOf bareShow [requestOf 5 False APPROVED] []) bareShow) = Some ''slug4k'' \<and>
   ratingKey4k (mediaAfter worldGone (engine (Some (plexWith ''300'' [])))
     (storeOf bareShow [requestOf 5 False APPROVED] []) bareShow) = Some ''200'' \<and>
   map_option ratingKey4k
     (mediaTable (storeAfter worldGone (engine (Some (plexWith ''300'' [])))
        (storeOf bareShow [requestOf 5 False APPROVED] []) bareShow) 1) = Some (Some ''200'')"
  by code_simp

subsection \<open>The requests deleted for a movie\<close>

text \<open>
  C6 says that for a movie only the requests of a tier that was downgraded are deleted.
  \<^verbatim>\<open>mediaUpdater\<close> deletes every request that its query returns, and the query keeps a
  request when the stored status of its tier is AVAILABLE or PARTIALLY_AVAILABLE, whether
  or not that tier still exists; the filter of \<^verbatim>\<open>seasonUpdater\<close> does ask for the
  verdict of the tier. A movie that is available in both tiers, still in the non-4K
  Plex and Radarr and gone from the 4K ones, with one request for each tier: the non-4K
  status stays AVAILABLE, the 4K status becomes UNKNOWN, and both requests are deleted.
\<close>

theorem request_of_existing_tier_is_deleted:
  "movieExists (worldOf 0 0) (engine (Some (plexWith ''100'' []))) bothTiersMovie \<and>
   \<not> movieExists4k (worldOf 0 0) (engine (Some (plexWith ''100'' []))) bothTiersMovie \<and>
   status (mediaAfter (worldOf 0 0) (engine (Some (plexWith ''100'' [])))
     (storeOf bothTiersMovie [requestOf 5 False APPROVED, requestOf 6 True APPROVED] [])
     bothTiersMovie) = AVAILABLE \<and>
   status4k (mediaAfter (worldOf 0 0) (engine (Some (plexWith ''100'' [])))
     (storeOf bothTiersMovie [requestOf 5 False APPROVED, requestOf 6 True APPROVED] [])
     bothTiersMovie) = UNKNOWN \<and>
   requestTable (storeAfter (worldOf 0 0) (engine (Some (plexWith ''100'' [])))
     (storeOf bothTiersMovie [requestOf 5 False APPROVED, requestOf 6 True APPROVED] [])
     bothTiersMovie) = []"
  by code_simp

subsection \<open>The 4K tier of a season\<close>

text \<open>
  C5 says that a season whose status for a tier is AVAILABLE or PARTIALLY_AVAILABLE and
  whose verdict for that tier is false has the status UNKNOWN for that tier after the
  pass, whatever the other tier is. The guard of lines 176 to 183 tests \<^verbatim>\<open>season.status\<close>
  in both of its disjuncts, so \<^verbatim>\<open>seasonUpdater\<close> is not called for a season whose non-4K
  status is neither. A show whose 4K tier alone is available, which the 4K Sonarr and
  Plex still have, with season 1 gone from both: the 4K verdict of season 1 is false, and
  after the pass season 1 is still AVAILABLE in 4K, in the object and in the store. Called
  on that season, \<^verbatim>\<open>seasonUpdater\<close> sets its 4K status to UNKNOWN.
\<close>

theorem season4k_is_not_downgraded:
  "status4k (seasons show4kOnly ! 0) = AVAILABLE \<and>
   seasonNumber (seasons show4kOnly ! 0) = 1 \<and>
   \<not> seasonMap4k (world4kOf 0 10) (engine (Some (plexWith ''200'' [2]))) show4kOnly 1 \<and>
   seasons (mediaAfter (world4kOf 0 10) (engine (Some (plexWith ''200'' [2])))
     (storeOf show4kOnly [] []) show4kOnly) =
     [seasonOf 1 UNKNOWN AVAILABLE, seasonOf 2 UNKNOWN AVAILABLE] \<and>
   map_option seasons
     (mediaTable (storeAfter (world4kOf 0 10) (engine (Some (plexWith ''200'' [2])))
        (storeOf show4kOnly [] []) show4kOnly) 1) =
     Some [seasonOf 1 UNKNOWN AVAILABLE, seasonOf 2 UNKNOWN AVAILABLE] \<and>
   seasons (snd (seasonUpdater (world4kOf 0 10) (storeOf show4kOnly [] []) show4kOnly 0
     False False)) ! 0 = seasonOf 1 UNKNOWN UNKNOWN"
  by code_simp

subsection \<open>The season cascade\<close>

text \<open>
  C8. A show with the non-4K status AVAILABLE has two seasons, both AVAILABLE in the non-4K
  tier; the non-4K verdict of exactly one of them is false, the show and the other season
  still exist. Then after the pass the non-4K status of the lost season is UNKNOWN, that of
  the show is PARTIALLY_AVAILABLE, the season requests of that season and tier are deleted
  and the other season and its requests are as before. Here the show is also available in
  4K, and the 4K servers answer 404. The non-4K Sonarr and Plex still have the show and
  season 2 but not season 1. After the pass season 1 is stored as UNKNOWN, season 2 as
  AVAILABLE, and the non-4K season request of season 1 is deleted, but the stored non-4K
  status of the show is AVAILABLE: \<^verbatim>\<open>seasonUpdater\<close> wrote PARTIALLY_AVAILABLE to the row
  by id (lines 486 to 489) and left \<^verbatim>\<open>media.status\<close> of the object AVAILABLE, and
  \<^verbatim>\<open>mediaUpdater\<close>, called for the 4K tier, saved that object (line 374).
\<close>

theorem cascade_is_undone_by_save:
  "mediaType twoSeasonShow = TV \<and> status twoSeasonShow = AVAILABLE \<and>
   seasons twoSeasonShow = [seasonOf 1 AVAILABLE UNKNOWN, seasonOf 2 AVAILABLE UNKNOWN] \<and>
   showExists (worldOf 0 10) (engine (Some (plexWith ''100'' [2]))) twoSeasonShow \<and>
   \<not> seasonMap (worldOf 0 10) (engine (Some (plexWith ''100'' [2]))) twoSeasonShow 1 \<and>
   seasonMap (worldOf 0 10) (engine (Some (plexWith ''100'' [2]))) twoSeasonShow 2 \<and>
   map_option status
     (mediaTable (storeAfter (worldOf 0 10) (engine (Some (plexWith ''100'' [2])))
        (storeOf twoSeasonShow [] threeSeasonRequests) twoSeasonShow) 1) = Some AVAILABLE \<and>
   map_option (map status \<circ> seasons)
     (mediaTable (storeAfter (worldOf 0 10) (engine (Some (plexWith ''100'' [2])))
        (storeOf twoSeasonShow [] threeSeasonRequests) twoSeasonShow) 1) =
     Some [UNKNOWN, AVAILABLE, UNKNOWN] \<and>
   seasonRequestTable (storeAfter (worldOf 0 10) (engine (Some (plexWith ''100'' [2])))
        (storeOf twoSeasonShow [] threeSeasonRequests) twoSeasonShow) =
     [seasonRequestOf 11 (requestOf 5 False APPROVED) 2,
      seasonRequestOf 12 (requestOf 6 True APPROVED) 1]"
  by code_simp

text \<open>
  X3. The cascade when nothing of the 4K tier is downgraded in the same pass. A show has
  the non-4K status AVAILABLE and the two seasons \<open>a\<close> and \<open>b\<close>, both AVAILABLE in the
  non-4K tier. The non-4K verdict of one of them (\<open>lost\<close>) is false, the show and the
  other season (\<open>kept\<close>) still exist, and each 4K status of the show and of the seasons
  either has a true verdict or is not AVAILABLE or PARTIALLY_AVAILABLE. The store does not
  throw and its season request rows have distinct ids. Then after the pass the stored row
  of the show has the non-4K status PARTIALLY_AVAILABLE, its seasons are the lost season
  with the non-4K status UNKNOWN and the kept season as it was, the season requests left
  are those that are not non-4K requests of this show for the lost season, so those of the
  kept season are as before, and no request row is deleted.
\<close>

theorem season_cascade:
  assumes "\<forall>c. \<not> storeThrows w c"
    and "mediaType media = TV"
    and "status media = AVAILABLE"
    and "seasons media = [a, b]"
    and "status a = AVAILABLE" and "status b = AVAILABLE"
    and "(lost, kept) = (a, b) \<or> (lost, kept) = (b, a)"
    and "showExists w this media"
    and "\<not> seasonMap w this media (seasonNumber lost)"
    and "seasonMap w this media (seasonNumber kept)"
    and "showExists4k w this media \<or> \<not> isAvailable (status4k media)"
    and "seasonMap4k w this media (seasonNumber a) \<or> \<not> isAvailable (status4k a)"
    and "seasonMap4k w this media (seasonNumber b) \<or> \<not> isAvailable (status4k b)"
    and "distinct (map seasonRequestId (seasonRequestTable st))"
  shows
    "(\<exists>row. mediaTable (storeAfter w this st media) (mediaId media) = Some row \<and>
        status row = PARTIALLY_AVAILABLE \<and>
        set (seasons row) = {lost\<lparr>status := UNKNOWN\<rparr>, kept}) \<and>
     seasonRequestTable (storeAfter w this st media) =
       filter (\<lambda>r. \<not> (requestMedia (request r) = mediaId media \<and>
                      requestSeasonNumber r = seasonNumber lost \<and> \<not> is4k (request r)))
         (seasonRequestTable st) \<and>
     filter (\<lambda>r. requestSeasonNumber r = seasonNumber kept)
         (seasonRequestTable (storeAfter w this st media)) =
       filter (\<lambda>r. requestSeasonNumber r = seasonNumber kept) (seasonRequestTable st) \<and>
     requestTable (storeAfter w this st media) = requestTable st"
proof -
  have parts: "storeAfter w this st media =
      fst (showTransitions w st media True (showExists4k w this media)
             (seasonMap w this media) (seasonMap4k w this media))"
    using runShow_parts(1) [OF assms(2), of w this st] assms(8) by simp
  note c = cascade_transitions [OF assms(1,3,4,5,6,7,9,10,11,12,13,14), folded parts]
  have ne: "seasonNumber kept \<noteq> seasonNumber lost"
    using assms(9,10) by auto
  have "filter (\<lambda>r. requestSeasonNumber r = seasonNumber kept)
         (filter (\<lambda>r. \<not> (requestMedia (request r) = mediaId media \<and>
                      requestSeasonNumber r = seasonNumber lost \<and> \<not> is4k (request r)))
           (seasonRequestTable st)) =
       filter (\<lambda>r. requestSeasonNumber r = seasonNumber kept) (seasonRequestTable st)"
    unfolding filter_filter using ne by (intro filter_cong refl) auto
  with c show ?thesis by simp
qed

text \<open>
  The show has lost season 1 in the non-4K Sonarr and Plex and kept season 2. Of the
  three season requests the non-4K one for season 1 is deleted.
\<close>

theorem season_cascade_witness:
  "(\<forall>c. \<not> storeThrows (worldOf 0 10) c) \<and>
   mediaType plainShow = TV \<and> status plainShow = AVAILABLE \<and>
   seasons plainShow = [seasonOf 1 AVAILABLE UNKNOWN, seasonOf 2 AVAILABLE UNKNOWN] \<and>
   showExists (worldOf 0 10) (engine (Some (plexWith ''100'' [2]))) plainShow \<and>
   \<not> seasonMap (worldOf 0 10) (engine (Some (plexWith ''100'' [2]))) plainShow 1 \<and>
   seasonMap (worldOf 0 10) (engine (Some (plexWith ''100'' [2]))) plainShow 2 \<and>
   map_option status
     (mediaTable (storeAfter (worldOf 0 10) (engine (Some (plexWith ''100'' [2])))
        (storeOf plainShow [requestOf 5 False APPROVED, requestOf 6 True APPROVED]
           threeSeasonRequests) plainShow) 1) = Some PARTIALLY_AVAILABLE \<and>
   seasonRequestTable (storeAfter (worldOf 0 10) (engine (Some (plexWith ''100'' [2])))
        (storeOf plainShow [requestOf 5 False APPROVED, requestOf 6 True APPROVED]
           threeSeasonRequests) plainShow) =
     [seasonRequestOf 11 (requestOf 5 False APPROVED) 2,
      seasonRequestOf 12 (requestOf 6 True APPROVED) 1] \<and>
   requestTable (storeAfter (worldOf 0 10) (engine (Some (plexWith ''100'' [2])))
        (storeOf plainShow [requestOf 5 False APPROVED, requestOf 6 True APPROVED]
           threeSeasonRequests) plainShow) =
     [requestOf 5 False APPROVED, requestOf 6 True APPROVED]"
proof -
  let ?w = "worldOf 0 10"
  let ?e = "engine (Some (plexWith ''100'' [2]))"
  let ?st = "storeOf plainShow [requestOf 5 False APPROVED, requestOf 6 True APPROVED]
      threeSeasonRequests"
  have rel: "\<forall>c. \<not> storeThrows ?w c"
    by (simp add: storeThrows_worlds)
  have h1: "mediaType plainShow = TV" "status plainShow = AVAILABLE"
      "seasons plainShow = [seasonOf 1 AVAILABLE UNKNOWN, seasonOf 2 AVAILABLE UNKNOWN]"
      "status (seasonOf 1 AVAILABLE UNKNOWN) = AVAILABLE"
      "status (seasonOf 2 AVAILABLE UNKNOWN) = AVAILABLE"
    by (simp_all add: plainShow_def item_def seasonOf_def)
  have h2: "showExists ?w ?e plainShow"
      "\<not> seasonMap ?w ?e plainShow (seasonNumber (seasonOf 1 AVAILABLE UNKNOWN))"
      "seasonMap ?w ?e plainShow (seasonNumber (seasonOf 2 AVAILABLE UNKNOWN))"
    by code_simp+
  have h3: "showExists4k ?w ?e plainShow \<or> \<not> isAvailable (status4k plainShow)"
      "seasonMap4k ?w ?e plainShow (seasonNumber (seasonOf 1 AVAILABLE UNKNOWN)) \<or>
         \<not> isAvailable (status4k (seasonOf 1 AVAILABLE UNKNOWN))"
      "seasonMap4k ?w ?e plainShow (seasonNumber (seasonOf 2 AVAILABLE UNKNOWN)) \<or>
         \<not> isAvailable (status4k (seasonOf 2 AVAILABLE UNKNOWN))"
    by (simp_all add: plainShow_def item_def seasonOf_def isAvailable_def)
  have h4: "distinct (map seasonRequestId (seasonRequestTable ?st))"
    by (simp add: storeOf_def threeSeasonRequests_def seasonRequestOf_def)
  have h5: "(seasonOf 1 AVAILABLE UNKNOWN, seasonOf 2 AVAILABLE UNKNOWN) =
        (seasonOf 1 AVAILABLE UNKNOWN, seasonOf 2 AVAILABLE UNKNOWN) \<or>
      (seasonOf 1 AVAILABLE UNKNOWN, seasonOf 2 AVAILABLE UNKNOWN) =
        (seasonOf 2 AVAILABLE UNKNOWN, seasonOf 1 AVAILABLE UNKNOWN)"
    by simp
  note t = season_cascade [OF rel h1(1,2,3,4,5) h5 h2 h3 h4]
  from t have "map_option status (mediaTable (storeAfter ?w ?e ?st plainShow) 1) =
      Some PARTIALLY_AVAILABLE"
    by (auto simp: plainShow_def item_def)
  moreover from t have "seasonRequestTable (storeAfter ?w ?e ?st plainShow) =
     [seasonRequestOf 11 (requestOf 5 False APPROVED) 2,
      seasonRequestOf 12 (requestOf 6 True APPROVED) 1]"
    by (simp add: storeOf_def threeSeasonRequests_def seasonRequestOf_def requestOf_def
        plainShow_def item_def seasonOf_def)
  moreover from t have "requestTable (storeAfter ?w ?e ?st plainShow) =
     [requestOf 5 False APPROVED, requestOf 6 True APPROVED]"
    by (simp add: storeOf_def)
  ultimately show ?thesis
    using rel h1 h2 by (simp add: seasonOf_def)
qed

subsection \<open>The direction of the status writes\<close>

text \<open>
  C9 says that every status write of the engine moves away from AVAILABLE and that the
  engine never sets a status to AVAILABLE. The cascade of \<^verbatim>\<open>seasonUpdater\<close> writes
  PARTIALLY_AVAILABLE to the stored row by id (lines 486 to 489) and leaves \<^verbatim>\<open>media.status\<close>
  of the object in memory AVAILABLE; a later \<^verbatim>\<open>save\<close> of that object writes AVAILABLE
  over it. A show is available in both tiers; the non-4K Sonarr and Plex still have the
  show and season 2 but not season 1, and the 4K servers answer 404. After the loop over
  the seasons the stored non-4K status is PARTIALLY_AVAILABLE; \<^verbatim>\<open>mediaUpdater\<close> then
  downgrades the 4K tier and saves the object, and after the pass the stored non-4K
  status is AVAILABLE again, with season 1 stored as UNKNOWN.
\<close>

theorem stale_status_is_saved:
  "showExists (worldOf 0 10) (engine (Some (plexWith ''100'' [2]))) twoSeasonShow \<and>
   \<not> showExists4k (worldOf 0 10) (engine (Some (plexWith ''100'' [2]))) twoSeasonShow \<and>
   \<not> seasonMap (worldOf 0 10) (engine (Some (plexWith ''100'' [2]))) twoSeasonShow 1 \<and>
   map_option status
     (mediaTable (fst (seasonsLoop (worldOf 0 10)
        (seasonMap (worldOf 0 10) (engine (Some (plexWith ''100'' [2]))) twoSeasonShow)
        (seasonMap4k (worldOf 0 10) (engine (Some (plexWith ''100'' [2]))) twoSeasonShow)
        [0, 1] (storeOf twoSeasonShow [] [], twoSeasonShow))) 1) = Some PARTIALLY_AVAILABLE \<and>
   map_option status
     (mediaTable (storeAfter (worldOf 0 10) (engine (Some (plexWith ''100'' [2])))
        (storeOf twoSeasonShow [] []) twoSeasonShow) 1) = Some AVAILABLE \<and>
   map_option status4k
     (mediaTable (storeAfter (worldOf 0 10) (engine (Some (plexWith ''100'' [2])))
        (storeOf twoSeasonShow [] []) twoSeasonShow) 1) = Some UNKNOWN \<and>
   map_option seasons
     (mediaTable (storeAfter (worldOf 0 10) (engine (Some (plexWith ''100'' [2])))
        (storeOf twoSeasonShow [] []) twoSeasonShow) 1) =
     Some [seasonOf 1 UNKNOWN UNKNOWN, seasonOf 2 AVAILABLE UNKNOWN, seasonOf 1 UNKNOWN UNKNOWN]"
  by code_simp

subsection \<open>The merged verdict of a season\<close>

text \<open>
  C4 says that the merged verdict of a season is the Plex verdict or the Sonarr verdict
  or the existence of the show itself. Lines 146 to 174 of \<^verbatim>\<open>run\<close> read the two season
  maps only; \<^verbatim>\<open>showExists\<close> is not part of the test. A show that Sonarr and Plex
  still have, with season 1 gone from both: the show exists and season 1 has the verdict
  false.
\<close>

theorem existing_show_with_lost_season:
  "mediaType plainShow = TV \<and>
   seasonOf 1 AVAILABLE UNKNOWN \<in> set (seasons plainShow) \<and>
   showExists (worldOf 0 10) (engine (Some (plexWith ''100'' [2]))) plainShow \<and>
   \<not> seasonMap (worldOf 0 10) (engine (Some (plexWith ''100'' [2]))) plainShow
       (seasonNumber (seasonOf 1 AVAILABLE UNKNOWN))"
  by code_simp


text \<open>
  C4, amended. For a show whose seasons have distinct numbers, when neither Plex nor
  Sonarr skipped its scan of the seasons (not both \<^verbatim>\<open>preventSeasonSearch\<close> flags of a
  source are set), the merged verdict of a season for a tier is what
  \<^verbatim>\<open>seasonExistsInPlex\<close> returns for that tier or what \<^verbatim>\<open>seasonExistsInSonarr\<close> returns
  for that tier; the existence of the show itself is not part of it. The premises on
  \<open>plexCheck\<close> and \<open>sonarrLoop\<close> name the states and flags that the two season checks
  are called with.
\<close>

theorem season_verdict_is_disjunction:
  assumes "mediaType media = TV"
    and "distinct (map seasonNumber (seasons media))"
    and "season \<in> set (seasons media)"
    and "plexCheck this TV (ratingKey media) = (this1, existsInPlex, prevent)"
    and "plexCheck this1 TV (ratingKey4k media) = (this2, existsInPlex4k, prevent4k)"
    and "sonarrLoop w media (sonarrServers this2) (this2, (False, False), (False, False)) =
           (this3, (existsInSonarr, sonarrPrevent), (existsInSonarr4k, sonarrPrevent4k))"
    and "\<not> (prevent \<and> prevent4k)" and "\<not> (sonarrPrevent \<and> sonarrPrevent4k)"
  shows
    "seasonMap w this media (seasonNumber season) =
       (fst (seasonExistsInPlex this2 media season prevent prevent4k) \<or>
        fst (seasonExistsInSonarr this3 media season sonarrPrevent sonarrPrevent4k)) \<and>
     seasonMap4k w this media (seasonNumber season) =
       (snd (seasonExistsInPlex this2 media season prevent prevent4k) \<or>
        snd (seasonExistsInSonarr this3 media season sonarrPrevent sonarrPrevent4k))"
proof -
  note parts = showExistence_parts [OF assms(1,4,5,6)]
  note lp = seasonMaps_lookup [OF assms(2,3),
      of "\<lambda>season. seasonExistsInPlex this2 media season prevent prevent4k" "(Map.empty, Map.empty)"]
  note ls = seasonMaps_lookup [OF assms(2,3),
      of "\<lambda>season. seasonExistsInSonarr this3 media season sonarrPrevent sonarrPrevent4k"
         "(Map.empty, Map.empty)"]
  have c: "\<not> prevent \<or> \<not> prevent4k" "\<not> sonarrPrevent \<or> \<not> sonarrPrevent4k"
    using assms(7,8) by auto
  show ?thesis
    unfolding parts(3,4) seasonVerdict_def
    by (simp only: c if_True option.case lp ls option.inject simp_thms)
qed



text \<open>
  The same show: season 2 is in the non-4K Sonarr with files, so its non-4K verdict is
  true, and nothing has it in 4K.
\<close>

theorem season_verdict_is_disjunction_witness:
  "mediaType plainShow = TV \<and>
   distinct (map seasonNumber (seasons plainShow)) \<and>
   seasonOf 2 AVAILABLE UNKNOWN \<in> set (seasons plainShow) \<and>
   seasonMap (worldOf 0 10) (engine (Some (plexWith ''100'' [2]))) plainShow 2 \<and>
   \<not> seasonMap4k (worldOf 0 10) (engine (Some (plexWith ''100'' [2]))) plainShow 2"
proof -
  let ?w = "worldOf 0 10"
  let ?e = "engine (Some (plexWith ''100'' [2]))"
  let ?p1 = "plexCheck ?e TV (ratingKey plainShow)"
  let ?p2 = "plexCheck (fst ?p1) TV (ratingKey4k plainShow)"
  let ?sl = "sonarrLoop ?w plainShow (sonarrServers (fst ?p2))
      (fst ?p2, (False, False), (False, False))"
  have h: "mediaType plainShow = TV" "distinct (map seasonNumber (seasons plainShow))"
      "seasonOf 2 AVAILABLE UNKNOWN \<in> set (seasons plainShow)"
    by (simp_all add: plainShow_def item_def seasonOf_def)
  have c1: "?p1 = (fst ?p1, fst (snd ?p1), snd (snd ?p1))" by simp
  have c2: "?p2 = (fst ?p2, fst (snd ?p2), snd (snd ?p2))" by simp
  have c3: "?sl = (fst ?sl, (fst (fst (snd ?sl)), snd (fst (snd ?sl))),
      (fst (snd (snd ?sl)), snd (snd (snd ?sl))))" by simp
  have f: "\<not> (snd (snd ?p1) \<and> snd (snd ?p2))"
      "\<not> (snd (fst (snd ?sl)) \<and> snd (snd (snd ?sl)))"
    by code_simp+
  note t = season_verdict_is_disjunction [OF h c1 c2 c3 f]
  have v: "fst (seasonExistsInSonarr (fst ?sl) plainShow (seasonOf 2 AVAILABLE UNKNOWN)
        (snd (fst (snd ?sl))) (snd (snd (snd ?sl))))"
      "\<not> snd (seasonExistsInPlex (fst ?p2) plainShow (seasonOf 2 AVAILABLE UNKNOWN)
        (snd (snd ?p1)) (snd (snd ?p2)))"
      "\<not> snd (seasonExistsInSonarr (fst ?sl) plainShow (seasonOf 2 AVAILABLE UNKNOWN)
        (snd (fst (snd ?sl))) (snd (snd (snd ?sl))))"
      "seasonNumber (seasonOf 2 AVAILABLE UNKNOWN) = 2"
    by code_simp+
  from t v h show ?thesis by simp
qed


subsection \<open>Transient errors\<close>

text \<open>
  C3. If every probe issued for a tier of an item answers with a transient error, the
  verdict of that tier is true for the item and for each of its seasons, and no status of
  that tier changes on the item or on its seasons in the pass. The comments of lines 654
  to 656 and 812 to 814 say that an error other than a 404 has to prevent the season check
  from happening. Here Plex and both Sonarr servers answer every request with 500, for a
  show that is available in both tiers and whose two seasons are AVAILABLE in the non-4K
  tier. One probe per source and tier is issued and each fails with a transient error.
  The show has a true non-4K verdict, but both sources have both of their
  \<^verbatim>\<open>preventSeasonSearch\<close> flags set, the guards of lines 657 and 815 skip the season
  loops, and the empty maps read as false in \<^verbatim>\<open>run\<close>: both seasons have a false non-4K
  verdict, both are set to UNKNOWN, the stored non-4K status of the show goes from
  AVAILABLE to PARTIALLY_AVAILABLE, and the non-4K season requests are deleted. The stored
  4K status of the show goes to PARTIALLY_AVAILABLE as well (lines 493 to 499).
\<close>

theorem outage_drops_the_seasons:
  "probesAsked (engine (Some plexDown)) twoSeasonShow False \<and>
   probesTransient worldDown (engine (Some plexDown)) twoSeasonShow False \<and>
   probesAsked (engine (Some plexDown)) twoSeasonShow True \<and>
   probesTransient worldDown (engine (Some plexDown)) twoSeasonShow True \<and>
   issued (fst (showExistence worldDown (engine (Some plexDown)) twoSeasonShow)) =
     [PlexGetMetadata ''100'', PlexGetMetadata ''200'',
      SonarrGetSeriesById (serverOf False) 7, SonarrGetSeriesById (serverOf True) 8] \<and>
   seasons twoSeasonShow = [seasonOf 1 AVAILABLE UNKNOWN, seasonOf 2 AVAILABLE UNKNOWN] \<and>
   itemExists worldDown (engine (Some plexDown)) twoSeasonShow False \<and>
   \<not> seasonExistsFor worldDown (engine (Some plexDown)) twoSeasonShow False 1 \<and>
   \<not> seasonExistsFor worldDown (engine (Some plexDown)) twoSeasonShow False 2 \<and>
   map status (take 2 (seasons (mediaAfter worldDown (engine (Some plexDown))
     (storeOf twoSeasonShow [] threeSeasonRequests) twoSeasonShow))) = [UNKNOWN, UNKNOWN] \<and>
   map_option status (mediaTable (storeOf twoSeasonShow [] threeSeasonRequests) 1) =
     Some AVAILABLE \<and>
   map_option status (mediaTable (storeAfter worldDown (engine (Some plexDown))
     (storeOf twoSeasonShow [] threeSeasonRequests) twoSeasonShow) 1) =
     Some PARTIALLY_AVAILABLE \<and>
   map_option status4k (mediaTable (storeAfter worldDown (engine (Some plexDown))
     (storeOf twoSeasonShow [] threeSeasonRequests) twoSeasonShow) 1) =
     Some PARTIALLY_AVAILABLE \<and>
   seasonRequestTable (storeAfter worldDown (engine (Some plexDown))
     (storeOf twoSeasonShow [] threeSeasonRequests) twoSeasonShow) =
     [seasonRequestOf 12 (requestOf 6 True APPROVED) 1]"
  by code_simp

text \<open>
  The season checks look at a season only when its status for the tier is AVAILABLE or
  PARTIALLY_AVAILABLE (lines 690 to 694 and 842 to 846), so a season that is not available
  in the tier gets the verdict false whatever the probes answer. A show whose non-4K
  probes, one to Plex and one to Sonarr, both answer 500, while the 4K probes answer 404:
  season 1, which is not available, has the non-4K verdict false.
\<close>

lemma unavailable_season_has_no_verdict:
  "probesAsked (engine (Some (plexFailing ''100''))) mixedShow False \<and>
   probesTransient worldNon4kDown (engine (Some (plexFailing ''100''))) mixedShow False \<and>
   issued (fst (showExistence worldNon4kDown (engine (Some (plexFailing ''100''))) mixedShow)) =
     [PlexGetMetadata ''100'', PlexGetMetadata ''200'',
      SonarrGetSeriesById (serverOf False) 7, SonarrGetSeriesById (serverOf True) 8] \<and>
   seasonOf 1 UNKNOWN UNKNOWN \<in> set (seasons mixedShow) \<and>
   \<not> seasonExistsFor worldNon4kDown (engine (Some (plexFailing ''100''))) mixedShow False
       (seasonNumber (seasonOf 1 UNKNOWN UNKNOWN))"
  by code_simp

text \<open>
  X4. What a tier whose probes all fail keeps in memory. If at least one probe is issued
  for a tier of an item and every probe issued for that tier answers with a transient
  error, then the verdict of the item for that tier is true, and after the pass the item
  object has the status and the four references of that tier it had before. If the item
  is a show whose seasons have distinct numbers and no top-level probe of the other tier
  answers with a transient error, then every season whose status for the tier is AVAILABLE
  or PARTIALLY_AVAILABLE has a true verdict for the tier, and after the pass each season
  object has the status for the tier it had before. The statement is about the objects;
  the statuses that \<^verbatim>\<open>seasonUpdater\<close> writes to the stored row by id are not part of it.
\<close>

theorem transient_errors_keep_the_tier:
  assumes "probesAsked this media t" and "probesTransient w this media t"
  shows
    "itemExists w this media t \<and>
     tierStatus t (mediaAfter w this st media) = tierStatus t media \<and>
     tierKey t (mediaAfter w this st media) = tierKey t media \<and>
     tierId t (mediaAfter w this st media) = tierId t media \<and>
     tierServiceId t (mediaAfter w this st media) = tierServiceId t media \<and>
     tierSlug t (mediaAfter w this st media) = tierSlug t media \<and>
     (mediaType media = TV \<and> distinct (map seasonNumber (seasons media)) \<and>
      probesClean w this media (\<not> t) \<longrightarrow>
        (\<forall>s\<in>set (seasons media). isAvailable (tierStatus t s) \<longrightarrow>
           seasonExistsFor w this media t (seasonNumber s)) \<and>
        map (tierStatus t)
            (take (length (seasons media)) (seasons (mediaAfter w this st media))) =
          map (tierStatus t) (seasons media))"
proof -
  have ex: "itemExists w this media t"
    by (rule item_exists_on_transient [OF assms])
  have "(\<forall>s\<in>set (seasons media). isAvailable (tierStatus t s) \<longrightarrow>
           seasonExistsFor w this media t (seasonNumber s)) \<and>
        map (tierStatus t)
            (take (length (seasons media)) (seasons (mediaAfter w this st media))) =
          map (tierStatus t) (seasons media)"
    if h: "mediaType media = TV \<and> distinct (map seasonNumber (seasons media)) \<and>
      probesClean w this media (\<not> t)"
  proof -
    from h have tv: "mediaType media = TV" and d: "distinct (map seasonNumber (seasons media))"
      and c: "probesClean w this media (\<not> t)" by simp_all
    have v: "\<forall>s\<in>set (seasons media). isAvailable (tierStatus t s) \<longrightarrow>
           seasonExistsFor w this media t (seasonNumber s)"
      using season_exists_on_transient [OF tv d _ _ assms c] by blast
    from v seasons_kept [OF tv v] show ?thesis by blast
  qed
  with ex item_fields_kept [OF ex, of st] show ?thesis by blast
qed


text \<open>
  A show with two available seasons whose non-4K probes all answer 500 while the 4K
  probes answer 404: the show and both seasons have a true non-4K verdict and keep their
  non-4K status.
\<close>

theorem transient_errors_keep_the_tier_witness:
  "probesAsked (engine (Some (plexFailing ''100''))) plainShow False \<and>
   probesTransient worldNon4kDown (engine (Some (plexFailing ''100''))) plainShow False \<and>
   mediaType plainShow = TV \<and> distinct (map seasonNumber (seasons plainShow)) \<and>
   probesClean worldNon4kDown (engine (Some (plexFailing ''100''))) plainShow True \<and>
   itemExists worldNon4kDown (engine (Some (plexFailing ''100''))) plainShow False \<and>
   status (mediaAfter worldNon4kDown (engine (Some (plexFailing ''100'')))
     (storeOf plainShow [] []) plainShow) = AVAILABLE \<and>
   seasonExistsFor worldNon4kDown (engine (Some (plexFailing ''100''))) plainShow False 1 \<and>
   seasonExistsFor worldNon4kDown (engine (Some (plexFailing ''100''))) plainShow False 2 \<and>
   map status (take 2 (seasons (mediaAfter worldNon4kDown (engine (Some (plexFailing ''100'')))
     (storeOf plainShow [] []) plainShow))) = [AVAILABLE, AVAILABLE]"
proof -
  let ?w = "worldNon4kDown"
  let ?e = "engine (Some (plexFailing ''100''))"
  have h: "probesAsked ?e plainShow False" "probesTransient ?w ?e plainShow False"
    by code_simp+
  have g: "mediaType plainShow = TV \<and> distinct (map seasonNumber (seasons plainShow)) \<and>
      probesClean ?w ?e plainShow (\<not> False)"
    by code_simp
  have f: "seasons plainShow = [seasonOf 1 AVAILABLE UNKNOWN, seasonOf 2 AVAILABLE UNKNOWN]"
      "status plainShow = AVAILABLE"
    by (simp_all add: plainShow_def item_def)
  have ts: "tierStatus False = (status :: Season \<Rightarrow> MediaStatus)"
    by (rule ext) (simp add: tierStatus_def)
  note t = transient_errors_keep_the_tier [OF h, of "storeOf plainShow [] []"]
  from t g show ?thesis
    using h by (simp add: f ts tierStatus_def seasonOf_def isAvailable_def numeral_2_eq_2)
qed

subsection \<open>Errors in both tiers of a show\<close>

text \<open>
  X1. The season scans of \<^verbatim>\<open>mediaExistsInPlex\<close> (line 815) and of
  \<^verbatim>\<open>mediaExistsInSonarr\<close> (line 657) run unless the top-level probes of both tiers
  have failed with a transient error. For a show whose Plex probes and whose Sonarr probes
  are issued and fail with transient errors in both tiers, the show has a true verdict in
  both tiers, no season scan runs, and the entries that \<^verbatim>\<open>run\<close> reads from the empty
  maps (lines 146 to 174) are falsy: every season has a false verdict in both tiers.
\<close>

theorem failing_in_both_tiers_drops_the_seasons:
  assumes "mediaType media = TV"
    and "plexAsked this (ratingKey media) \<and> plexTransient this (ratingKey media)"
    and "plexAsked this (ratingKey4k media) \<and> plexTransient this (ratingKey4k media)"
    and "managerAsked (sonarrServers this) False (externalServiceId media) \<and>
         managerTransient (getSeriesById w) (sonarrServers this) False (externalServiceId media)"
    and "managerAsked (sonarrServers this) True (externalServiceId4k media) \<and>
         managerTransient (getSeriesById w) (sonarrServers this) True (externalServiceId4k media)"
  shows "showExists w this media \<and> showExists4k w this media \<and>
         \<not> seasonMap w this media n \<and> \<not> seasonMap4k w this media n"
proof -
  let ?p1 = "plexCheck this TV (ratingKey media)"
  let ?p2 = "plexCheck (fst ?p1) TV (ratingKey4k media)"
  let ?sl = "sonarrLoop w media (sonarrServers (fst ?p2)) (fst ?p2, (False, False), (False, False))"
  have c1: "?p1 = (fst ?p1, fst (snd ?p1), snd (snd ?p1))" by simp
  have c2: "?p2 = (fst ?p2, fst (snd ?p2), snd (snd ?p2))" by simp
  have c3: "?sl = (fst ?sl, (fst (fst (snd ?sl)), snd (fst (snd ?sl))),
      (fst (snd (snd ?sl)), snd (snd (snd ?sl))))" by simp
  note parts = showExistence_parts [OF assms(1) c1 c2 c3]
  have srv: "sonarrServers (fst ?p2) = sonarrServers this" by (simp add: plexCheck_frame)
  have p1: "snd ?p1 = (True, True)"
    using assms(2) by (simp add: plexCheck_transient)
  have p2: "snd ?p2 = (True, True)"
    by (rule plexCheck_transient) (use assms(3) in \<open>simp_all add: plex_vocabulary_frame\<close>)
  have s1: "fst (snd ?sl) = (True, True)"
    using sonarrLoop_transient [where w = w and media = media and servers = "sonarrServers this"
        and this = "fst ?p2" and e = False and p = False and ?tier4k.0 = "(False, False)"]
      assms(4)
    by (simp add: srv)
  have s2: "snd (snd ?sl) = (True, True)"
    using sonarrLoop_transient4k [where w = w and media = media and servers = "sonarrServers this"
        and this = "fst ?p2" and e = False and p = False and tier = "(False, False)"]
      assms(5)
    by (simp add: srv)
  show ?thesis
    unfolding parts seasonVerdict_def
    by (simp add: p1 p2 s1 s2)
qed

text \<open>
  Plex and both Sonarr servers answer every request with a server error. The two seasons of
  the show, AVAILABLE in the non-4K tier, become UNKNOWN, the stored non-4K status of the
  show becomes PARTIALLY_AVAILABLE and the non-4K season requests are deleted.
\<close>

theorem failing_in_both_tiers_drops_the_seasons_witness:
  "mediaType twoSeasonShow = TV \<and>
   plexAsked (engine (Some plexDown)) (ratingKey twoSeasonShow) \<and>
   plexTransient (engine (Some plexDown)) (ratingKey twoSeasonShow) \<and>
   managerTransient (getSeriesById worldDown) (sonarrServers (engine (Some plexDown))) False
     (externalServiceId twoSeasonShow) \<and>
   showExists worldDown (engine (Some plexDown)) twoSeasonShow \<and>
   \<not> seasonMap worldDown (engine (Some plexDown)) twoSeasonShow 1 \<and>
   \<not> seasonMap worldDown (engine (Some plexDown)) twoSeasonShow 2 \<and>
   map status (seasons (mediaAfter worldDown (engine (Some plexDown))
     (storeOf twoSeasonShow [] threeSeasonRequests) twoSeasonShow)) =
     [UNKNOWN, UNKNOWN, UNKNOWN, UNKNOWN] \<and>
   map_option status (mediaTable (storeAfter worldDown (engine (Some plexDown))
     (storeOf twoSeasonShow [] threeSeasonRequests) twoSeasonShow) 1) = Some PARTIALLY_AVAILABLE \<and>
   seasonRequestTable (storeAfter worldDown (engine (Some plexDown))
     (storeOf twoSeasonShow [] threeSeasonRequests) twoSeasonShow) =
     [seasonRequestOf 12 (requestOf 6 True APPROVED) 1]"
proof -
  let ?w = worldDown and ?e = "engine (Some plexDown)"
  have h: "mediaType twoSeasonShow = TV"
      "plexAsked ?e (ratingKey twoSeasonShow) \<and> plexTransient ?e (ratingKey twoSeasonShow)"
      "plexAsked ?e (ratingKey4k twoSeasonShow) \<and> plexTransient ?e (ratingKey4k twoSeasonShow)"
      "managerAsked (sonarrServers ?e) False (externalServiceId twoSeasonShow) \<and>
         managerTransient (getSeriesById ?w) (sonarrServers ?e) False (externalServiceId twoSeasonShow)"
      "managerAsked (sonarrServers ?e) True (externalServiceId4k twoSeasonShow) \<and>
         managerTransient (getSeriesById ?w) (sonarrServers ?e) True (externalServiceId4k twoSeasonShow)"
    by code_simp+
  have r: "map status (seasons (mediaAfter ?w ?e
     (storeOf twoSeasonShow [] threeSeasonRequests) twoSeasonShow)) =
     [UNKNOWN, UNKNOWN, UNKNOWN, UNKNOWN] \<and>
   map_option status (mediaTable (storeAfter ?w ?e
     (storeOf twoSeasonShow [] threeSeasonRequests) twoSeasonShow) 1) = Some PARTIALLY_AVAILABLE \<and>
   seasonRequestTable (storeAfter ?w ?e
     (storeOf twoSeasonShow [] threeSeasonRequests) twoSeasonShow) =
     [seasonRequestOf 12 (requestOf 6 True APPROVED) 1]"
    by code_simp
  from failing_in_both_tiers_drops_the_seasons [OF h, of 1]
    failing_in_both_tiers_drops_the_seasons [OF h, of 2] h r
  show ?thesis by simp
qed

subsection \<open>The direction of the statuses of the item object\<close>

text \<open>
  X2. In a pass over an item, for each tier, the status that the item object has for the
  tier either stays as it was, or it was AVAILABLE or PARTIALLY_AVAILABLE, the verdict of
  the item for the tier is false and the new status is UNKNOWN, PENDING or PROCESSING. For
  a show, the seasons that the item had are still at their positions, and the status of
  each for the tier either stays as it was, or it was AVAILABLE or PARTIALLY_AVAILABLE, the
  verdict of the season for the tier is false and the new status is UNKNOWN. This is about
  the object in memory, whatever the store does; the stored row is the subject of C9.
\<close>

theorem item_statuses_only_go_down:
  "(tierStatus t (mediaAfter w this st media) = tierStatus t media \<or>
    (isAvailable (tierStatus t media) \<and> \<not> itemExists w this media t \<and>
     tierStatus t (mediaAfter w this st media) \<in> {UNKNOWN, PENDING, PROCESSING})) \<and>
   (mediaType media = TV \<longrightarrow>
      length (seasons media) \<le> length (seasons (mediaAfter w this st media)) \<and>
      (\<forall>j<length (seasons media).
         tierStatus t (seasons (mediaAfter w this st media) ! j) = tierStatus t (seasons media ! j) \<or>
         (isAvailable (tierStatus t (seasons media ! j)) \<and>
          \<not> seasonExistsFor w this media t (seasonNumber (seasons media ! j)) \<and>
          tierStatus t (seasons (mediaAfter w this st media) ! j) = UNKNOWN)))"
proof (rule conjI)
  show "tierStatus t (mediaAfter w this st media) = tierStatus t media \<or>
    (isAvailable (tierStatus t media) \<and> \<not> itemExists w this media t \<and>
     tierStatus t (mediaAfter w this st media) \<in> {UNKNOWN, PENDING, PROCESSING})"
  proof (cases "mediaType media")
    case MOVIE
    have ie: "itemExists w this media t =
        (if t then movieExists4k w this media else movieExists w this media)"
      by (simp add: itemExists_def MOVIE)
    from runMovie_parts [OF MOVIE, of w this st]
    show ?thesis
    proof
      assume "mediaAfter w this st media = media" then show ?thesis by simp
    next
      assume a: "mediaAfter w this st media =
           snd (mediaUpdater w st media (movieExists w this media) (movieExists4k w this media))"
      show ?thesis unfolding a ie by (rule mediaUpdater_direction)
    qed
  next
    case TV
    let ?v = "seasonMap w this media" and ?v4k = "seasonMap4k w this media"
    let ?l = "seasonsLoop w ?v ?v4k [0..<length (seasons media)] (st, media)"
    have ie: "itemExists w this media t =
        (if t then showExists4k w this media else showExists w this media)"
      by (simp add: itemExists_def TV)
    obtain ss where ss: "snd ?l = media\<lparr>seasons := ss\<rparr>"
      using seasonsLoop_media by blast
    have ts: "tierStatus t (snd ?l) = tierStatus t media"
      unfolding ss by (simp add: tierStatus_def)
    have "mediaAfter w this st media = snd ?l \<or>
        mediaAfter w this st media =
          snd (mediaUpdater w (fst ?l) (snd ?l) (showExists w this media) (showExists4k w this media))"
      by (simp add: runShow_parts(2) [OF TV] showTransitions_def case_prod_beta)
    then show ?thesis
    proof
      assume a: "mediaAfter w this st media = snd ?l"
      show ?thesis unfolding a ts by simp
    next
      assume a: "mediaAfter w this st media =
          snd (mediaUpdater w (fst ?l) (snd ?l) (showExists w this media) (showExists4k w this media))"
      show ?thesis
        using mediaUpdater_direction [where t = t and w = w and st = "fst ?l" and media = "snd ?l"
            and e = "showExists w this media" and ?e4k.0 = "showExists4k w this media"]
        unfolding a ie ts .
    qed
  qed
next
  show "mediaType media = TV \<longrightarrow>
      length (seasons media) \<le> length (seasons (mediaAfter w this st media)) \<and>
      (\<forall>j<length (seasons media).
         tierStatus t (seasons (mediaAfter w this st media) ! j) = tierStatus t (seasons media ! j) \<or>
         (isAvailable (tierStatus t (seasons media ! j)) \<and>
          \<not> seasonExistsFor w this media t (seasonNumber (seasons media ! j)) \<and>
          tierStatus t (seasons (mediaAfter w this st media) ! j) = UNKNOWN))"
  proof (rule impI)
    assume tv: "mediaType media = TV"
    let ?v = "seasonMap w this media" and ?v4k = "seasonMap4k w this media"
    let ?js = "[0..<length (seasons media)]"
    let ?ss = "seasons media"
    let ?ss' = "seasons (snd (seasonsLoop w ?v ?v4k ?js (st, media)))"
    have after: "seasons (mediaAfter w this st media) = ?ss'"
      by (simp add: runShow_parts(2) [OF tv] showTransitions_def case_prod_beta mediaUpdater_seasons)
    have len: "length ?ss \<le> length ?ss'" by (rule seasonsLoop_length)
    have nth: "tierStatus t (?ss' ! j) = tierStatus t (?ss ! j) \<or>
         (isAvailable (tierStatus t (?ss ! j)) \<and>
          \<not> seasonExistsFor w this media t (seasonNumber (?ss ! j)) \<and>
          tierStatus t (?ss' ! j) = UNKNOWN)" if j: "j < length ?ss" for j
    proof -
      have "?ss' ! j = ?ss ! j \<or>
          ?ss' ! j = fst (seasonStatusChanges (?ss ! j) (?v (seasonNumber (?ss ! j)))
                    (?v4k (seasonNumber (?ss ! j))))"
        by (rule seasonsLoop_seasons) (use j in simp_all)
      then show ?thesis
      proof
        assume "?ss' ! j = ?ss ! j" then show ?thesis by simp
      next
        assume a: "?ss' ! j = fst (seasonStatusChanges (?ss ! j) (?v (seasonNumber (?ss ! j)))
                    (?v4k (seasonNumber (?ss ! j))))"
        show ?thesis unfolding a tierStatus_changes by (auto simp: seasonExistsFor_def)
      qed
    qed
    show "length (seasons media) \<le> length (seasons (mediaAfter w this st media)) \<and>
      (\<forall>j<length (seasons media).
         tierStatus t (seasons (mediaAfter w this st media) ! j) = tierStatus t (seasons media ! j) \<or>
         (isAvailable (tierStatus t (seasons media ! j)) \<and>
          \<not> seasonExistsFor w this media t (seasonNumber (seasons media ! j)) \<and>
          tierStatus t (seasons (mediaAfter w this st media) ! j) = UNKNOWN))"
      unfolding after using len nth by blast
  qed
qed

text \<open>
  The show that has lost season 1 in the non-4K tier: the show keeps its status AVAILABLE
  in the object, season 1 goes from AVAILABLE to UNKNOWN.
\<close>

theorem item_statuses_only_go_down_witness:
  "mediaType plainShow = TV \<and> 0 < length (seasons plainShow) \<and>
   itemExists (worldOf 0 10) (engine (Some (plexWith ''100'' [2]))) plainShow False \<and>
   tierStatus False (mediaAfter (worldOf 0 10) (engine (Some (plexWith ''100'' [2])))
     (storeOf plainShow [] threeSeasonRequests) plainShow) = AVAILABLE \<and>
   isAvailable (tierStatus False (seasons plainShow ! 0)) \<and>
   \<not> seasonExistsFor (worldOf 0 10) (engine (Some (plexWith ''100'' [2]))) plainShow False
       (seasonNumber (seasons plainShow ! 0)) \<and>
   tierStatus False (seasons (mediaAfter (worldOf 0 10) (engine (Some (plexWith ''100'' [2])))
     (storeOf plainShow [] threeSeasonRequests) plainShow) ! 0) = UNKNOWN"
proof -
  let ?w = "worldOf 0 10"
  let ?e = "engine (Some (plexWith ''100'' [2]))"
  let ?st = "storeOf plainShow [] threeSeasonRequests"
  have h: "mediaType plainShow = TV" "0 < length (seasons plainShow)"
      "itemExists ?w ?e plainShow False"
      "tierStatus False plainShow = AVAILABLE"
      "tierStatus False (seasons (mediaAfter ?w ?e ?st plainShow) ! 0) \<noteq>
         tierStatus False (seasons plainShow ! 0)"
    by code_simp+
  from item_statuses_only_go_down [of False ?w ?e ?st plainShow] h
  show ?thesis by auto
qed

end
